theory Spec2Isabelle
  imports Main "HOL-Library.Finite_Map" "HOL-Library.Word"
begin

section \<open>The per-folder block-operations engine of libkbfs (folder_block_ops.go)\<close>

text \<open>
  This theory embeds \<^verbatim>\<open>libkbfs/folder_block_ops.go\<close>. The engine is the struct
  \<^verbatim>\<open>folderBlockOps\<close>; its methods are modelled as functions that take the engine
  state and return the new one. Everything the engine reaches through an interface
  (the dirty block cache, the block cache, the block server, the node cache, the
  \<^verbatim>\<open>dirtyFile\<close> objects, the file and directory data adapters, the journal) is defined
  outside this file: the behaviour of each such call is a field of the record
  \<open>Config\<close>, a parameter of every function below, and the state those collaborators
  keep is the component \<open>cfg\<close> of the engine state, of an arbitrary type \<open>'c\<close>.
  Every theorem holds for every \<open>Config\<close>, that is for every implementation of the
  interfaces.

  The functions whose names end in \<^verbatim>\<open>Locked\<close> assert that the caller holds
  \<^verbatim>\<open>blockLock\<close>; the model describes one call made with the lock held as required,
  and the exported wrappers that only take the lock and delegate are the delegate.
  Logging is not modelled.
\<close>

subsection \<open>Constants and enumerations (lines 22-57)\<close>

datatype overallBlockState = cleanState | dirtyState

datatype blockReqType = blockRead | blockWrite | blockReadParallel | blockLookup

definition numBlockSizeWorkersMax :: nat where
  "numBlockSizeWorkersMax = 50"

definition truncateExtendCutoffPoint :: "64 word" where
  "truncateExtendCutoffPoint = 128 * 1024"

subsection \<open>Data types of the package that the engine works on\<close>

text \<open>
  The types below are declared in other files of the package; their fields are the
  ones the spec's data model lists (section 3). A \<open>BlockRef\<close> is the (ID, ref-nonce)
  pair of a pointer.
\<close>

datatype BlockDirectType = UnknownDirectType | DirectBlock | IndirectBlock

record BlockPointer =
  ID :: nat
  KeyGen :: int
  DataVer :: nat
  DirectType :: BlockDirectType
  RefNonce :: nat
  Context :: nat

type_synonym BlockRef = "nat \<times> nat"

definition Ref :: "BlockPointer \<Rightarrow> BlockRef" where
  "Ref p = (ID p, RefNonce p)"

definition zeroPtr :: BlockPointer where
  "zeroPtr = \<lparr>ID = 0, KeyGen = 0, DataVer = 0, DirectType = UnknownDirectType,
     RefNonce = 0, Context = 0\<rparr>"

record BlockInfo =
  bi_BlockPointer :: BlockPointer
  EncodedSize :: "32 word"

datatype EntryType = File | Exec | Dir | Sym

record DirEntry =
  de_BlockInfo :: BlockInfo
  de_Type :: EntryType
  de_Size :: "64 word"
  de_SymPath :: string
  de_Mtime :: "64 word"
  de_Ctime :: "64 word"

definition de_BlockPointer :: "DirEntry \<Rightarrow> BlockPointer" where
  "de_BlockPointer de = bi_BlockPointer (de_BlockInfo de)"

definition de_Ref :: "DirEntry \<Rightarrow> BlockRef" where
  "de_Ref de = Ref (de_BlockPointer de)"

definition zeroDirEntry :: DirEntry where
  "zeroDirEntry = \<lparr>de_BlockInfo = \<lparr>bi_BlockPointer = zeroPtr, EncodedSize = 0\<rparr>,
     de_Type = File, de_Size = 0, de_SymPath = [], de_Mtime = 0, de_Ctime = 0\<rparr>"

type_synonym BranchName = string

record FolderBranch =
  Tlf :: nat
  Branch :: BranchName

record pathNode =
  pn_BlockPointer :: BlockPointer
  pn_Name :: string

record path =
  p_FolderBranch :: FolderBranch
  p_path :: "pathNode list"

definition p_Branch :: "path \<Rightarrow> BranchName" where
  "p_Branch p = Branch (p_FolderBranch p)"

definition zeroPath :: path where
  "zeroPath = \<lparr>p_FolderBranch = \<lparr>Tlf = 0, Branch = []\<rparr>, p_path = []\<rparr>"

text \<open>
  A \<^verbatim>\<open>context.Context\<close>, as far as the engine is concerned: it has been cancelled or
  it has not.
\<close>

datatype Context = ContextLive | ContextCancelled

record WriteRange =
  wr_Off :: "64 word"
  wr_Len :: "64 word"

text \<open>
  A block is a \<^verbatim>\<open>*FileBlock\<close>, a \<^verbatim>\<open>*DirBlock\<close> or a \<^verbatim>\<open>*CommonBlock\<close>; the engine holds
  blocks by pointer. The heap of the model is a list of blocks, a pointer is an index
  into it, and allocation appends. Only the fields the engine reads are kept.
\<close>

datatype BlockKind = FileBlockKind | DirBlockKind | CommonBlockKind

record Block =
  b_Kind :: BlockKind
  b_EncodedSize :: "32 word"
  b_IsInd :: bool
  b_Contents :: "8 word list"
  b_Payload :: nat

definition emptyBlock :: "BlockKind \<Rightarrow> Block" where
  "emptyBlock k = \<lparr>b_Kind = k, b_EncodedSize = 0, b_IsInd = False, b_Contents = [],
     b_Payload = 0\<rparr>"

type_synonym BlockAddr = nat

datatype BlockCacheLifetime = NoCacheEntry | TransientEntry | PermanentEntry

text \<open>
  The metadata of a revision, as far as the engine reads it: \<^verbatim>\<open>md.data.Dir\<close>,
  \<^verbatim>\<open>md.MergedStatus()\<close>, and of each op in \<^verbatim>\<open>md.data.Changes.Ops\<close> its \<^verbatim>\<open>Refs()\<close> and
  \<^verbatim>\<open>allUpdates()\<close>. Every \<^verbatim>\<open>KeyMetadata\<close> argument of the engine is such a value.
\<close>

datatype MergeStatus = Merged | Unmerged

text \<open>When the block manager may delete the blocks it is handed.\<close>

datatype blockDeleteType = blockDeleteAlways | blockDeleteOnMDFail

record opData =
  op_Refs :: "BlockPointer list"
  op_allUpdates :: "(BlockPointer \<times> BlockPointer) list"

record RootMetadata =
  md_Handle :: nat
  md_MergedStatus :: MergeStatus
  md_Dir :: DirEntry
  md_Ops :: "opData list"

type_synonym KeyMetadata = RootMetadata

subsection \<open>Errors\<close>

text \<open>
  An \<^verbatim>\<open>error\<close> of Go is a value; \<open>None\<close> is the nil error. \<open>ExternalError\<close> stands for
  the errors a collaborator makes up; a panic is \<open>PanicError\<close>.
\<close>

datatype error =
    InvalidBlockRefError BlockRef
  | NotFileBlockError BlockPointer BranchName path
  | NotDirBlockError BlockPointer BranchName path
  | InvalidPathError path
  | InvalidParentPathError path
  | NoSyncOpError BlockRef
  | NoSuchNameError string
  | WriteAccessError path
  | RootPathNotFoundError
  | MergeUnrefsError nat
  | PanicError string
  | ExternalError nat

subsection \<open>The engine's own structs (lines 59-239)\<close>

text \<open>
  A \<^verbatim>\<open>blockPutState\<close> is the list of its \<^verbatim>\<open>blockStates\<close>, of which the engine reads
  \<^verbatim>\<open>blockPtr\<close>; the engine holds it by pointer, an index into \<open>bpsHeap\<close> below.
\<close>

record blockState =
  blockPtr :: BlockPointer
  bs_data :: nat

text \<open>
  \<^verbatim>\<open>syncInfo\<close> (lines 64-72) and \<^verbatim>\<open>mdToCleanIfUnused\<close> (lines 59-62). The sync op is an
  object of another file, kept as a handle into \<open>cfg\<close>; \<open>None\<close> is a nil pointer.
\<close>

record mdToCleanIfUnused =
  tc_md :: RootMetadata
  tc_bps :: "nat option"

record syncInfo =
  oldInfo :: BlockInfo
  si_op :: "nat option"
  unrefs :: "BlockInfo list"
  si_bps :: "nat option"
  refBytes :: "64 word"
  unrefBytes :: "64 word"
  toCleanIfUnused :: "mdToCleanIfUnused list"

text \<open>\<^verbatim>\<open>fileSyncState\<close> (lines 2448-2483). The map is kept as the list of its entries.\<close>

record fileSyncState =
  fss_fblock :: "nat option"
  fss_savedFblock :: "nat option"
  fss_redirtyOnRecoverableError :: "(BlockPointer \<times> BlockPointer) list"
  fss_si :: "nat option"
  fss_savedSi :: "nat option"
  fss_oldFileBlockPtrs :: "BlockPointer list"
  fss_newIndirectFileBlockPtrs :: "BlockPointer list"

text \<open>
  \<^verbatim>\<open>deferredState\<close> (lines 131-140). A deferred write is a closure in the source; the
  engine builds such closures in two places only, in \<^verbatim>\<open>Write\<close> (lines 2024-2036) and
  in \<^verbatim>\<open>Truncate\<close> (lines 2246-2258), so a closure is represented by the variables it
  captures: the path of the file at the time, the newly dirtied bytes, and the data
  and offset, or the size.
\<close>

datatype deferredWrite =
    DeferredWrite path "64 word" "8 word list" "64 word"
  | DeferredTruncate path "64 word" "64 word"

record deferredState =
  writes :: "deferredWrite list"
  dirtyDeletes :: "BlockPointer list"
  waitBytes :: "64 word"

definition zeroDeferredState :: deferredState where
  "zeroDeferredState = \<lparr>writes = [], dirtyDeletes = [], waitBytes = 0\<rparr>"

text \<open>
  \<^verbatim>\<open>folderBlockOps\<close> (lines 197-239). \<open>cfg\<close> is the state behind \<^verbatim>\<open>fbo.config\<close> and
  behind every object the engine holds by handle; \<open>heap\<close> holds the blocks,
  \<open>syncInfos\<close> the \<^verbatim>\<open>syncInfo\<close> objects that \<^verbatim>\<open>unrefCache\<close> and the sync states
  point to, and \<open>bpsHeap\<close> the block put states. A \<^verbatim>\<open>*dirtyFile\<close> is a handle; the
  only value ever stored in \<^verbatim>\<open>dirtyFiles\<close> is the result of \<^verbatim>\<open>newDirtyFile\<close>
  (line 1491), so an entry is never nil. \<open>errNotifications\<close> is not a field of the
  struct: it lists the calls \<^verbatim>\<open>df.notifyErrListeners(err)\<close> made so far, the
  \<^verbatim>\<open>dirtyFile\<close> and the error of each.
\<close>

record 'c folderBlockOps =
  cfg :: 'c
  heap :: "Block list"
  syncInfos :: "syncInfo list"
  bpsHeap :: "blockState list list"
  errNotifications :: "(nat \<times> error option) list"
  folderBranch :: FolderBranch
  dirtyFiles :: "(BlockPointer, nat) fmap"
  unrefCache :: "(BlockRef, nat) fmap"
  dirtyDirs :: "(BlockPointer, BlockInfo list) fmap"
  dirtyRootDirEntry :: "DirEntry option"
  chargedTo :: string
  deferred :: "(BlockRef, deferredState) fmap"
  doDeferWrite :: bool
  nodeCache :: "nat option"

definition fbo_id :: "'c folderBlockOps \<Rightarrow> nat" where
  "fbo_id w = Tlf (folderBranch w)"

definition fbo_branch :: "'c folderBlockOps \<Rightarrow> BranchName" where
  "fbo_branch w = Branch (folderBranch w)"

text \<open>\<^verbatim>\<open>len(m)\<close> of a Go map.\<close>

definition len_map :: "('k, 'v) fmap \<Rightarrow> nat" where
  "len_map m = fcard (fmdom m)"

subsection \<open>GetState (lines 255-264)\<close>

definition GetState :: "'c folderBlockOps \<Rightarrow> overallBlockState" where
  "GetState w =
     (if len_map (dirtyFiles w) = 0 \<and> len_map (dirtyDirs w) = 0 \<and>
         dirtyRootDirEntry w = None
      then cleanState else dirtyState)"

subsection \<open>The collaborators\<close>

text \<open>
  The part of the engine state that the data adapters (\<^verbatim>\<open>fileData\<close>, \<^verbatim>\<open>dirData\<close>) can
  reach. An adapter gets two closures from the engine (lines 914-932 and 1706-1724):
  a getter, \<^verbatim>\<open>getFileBlockLocked\<close> or \<^verbatim>\<open>getDirLocked\<close>, and a cacher,
  \<^verbatim>\<open>cacheBlockIfNotYetDirtyLocked\<close> or \<^verbatim>\<open>DirtyBlockCache().Put\<close>. Through them, and
  through the blocks and the \<^verbatim>\<open>dirtyFile\<close> it is handed, it reads and writes the
  collaborators' state, the blocks, \<^verbatim>\<open>dirtyFiles\<close> and \<^verbatim>\<open>doDeferWrite\<close>, and nothing
  else of the engine.
\<close>

record 'c adapterState =
  a_cfg :: 'c
  a_heap :: "Block list"
  a_dirtyFiles :: "(BlockPointer, nat) fmap"
  a_doDeferWrite :: bool

definition toAdapter :: "'c folderBlockOps \<Rightarrow> 'c adapterState" where
  "toAdapter w = \<lparr>a_cfg = cfg w, a_heap = heap w, a_dirtyFiles = dirtyFiles w,
     a_doDeferWrite = doDeferWrite w\<rparr>"

definition fromAdapter :: "'c adapterState \<Rightarrow> 'c folderBlockOps \<Rightarrow> 'c folderBlockOps" where
  "fromAdapter a w = w\<lparr>cfg := a_cfg a, heap := a_heap a, dirtyFiles := a_dirtyFiles a,
     doDeferWrite := a_doDeferWrite a\<rparr>"

text \<open>
  The behaviour of the collaborators. A query takes the collaborators' state; a call
  with an effect returns the new state as well. A block a cache returns is an address;
  an address outside the heap stands for a nil block. A \<^verbatim>\<open>*dirtyFile\<close>, a \<^verbatim>\<open>*syncOp\<close>
  and a \<^verbatim>\<open>Node\<close> are handles, and so is a session. The methods of a data adapter
  take the arguments the adapter was made with (the path, whom to charge, the key
  metadata) before their own, and return every result of the Go method, the error
  last. An undo function that the node cache returns is a function on the
  collaborators' state. \<^verbatim>\<open>forceSyncChan_trySend\<close> is the non-blocking send of lines
  1916-1922.
\<close>

record 'c Config =
  ptr_IsValid :: "BlockPointer \<Rightarrow> bool"
  tailPointer :: "path \<Rightarrow> BlockPointer"
  tailRef :: "path \<Rightarrow> BlockRef"
  path_isValid :: "path \<Rightarrow> bool"
  isValidForNotification :: "path \<Rightarrow> bool"
  dbc_Get :: "'c \<Rightarrow> nat \<Rightarrow> BlockPointer \<Rightarrow> BranchName \<Rightarrow> error + BlockAddr"
  dbc_IsDirty :: "'c \<Rightarrow> nat \<Rightarrow> BlockPointer \<Rightarrow> BranchName \<Rightarrow> bool"
  bc_Get :: "'c \<Rightarrow> BlockPointer \<Rightarrow> error + BlockAddr"
  bc_GetWithPrefetch ::
    "'c \<Rightarrow> BlockPointer \<Rightarrow> error + (BlockAddr \<times> nat \<times> BlockCacheLifetime)"
  prefetcher_ProcessBlockForPrefetch ::
    "BlockPointer \<Rightarrow> BlockAddr \<Rightarrow> KeyMetadata \<Rightarrow> BlockCacheLifetime \<Rightarrow> nat \<Rightarrow> 'c \<Rightarrow> 'c"
  checkDataVersion :: "'c \<Rightarrow> path \<Rightarrow> BlockPointer \<Rightarrow> error option"
  reporter_Notify :: "path \<Rightarrow> bool \<Rightarrow> 'c \<Rightarrow> 'c"
  bops_Get ::
    "KeyMetadata \<Rightarrow> BlockPointer \<Rightarrow> Block \<Rightarrow> BlockCacheLifetime \<Rightarrow> 'c \<Rightarrow>
       error option \<times> Block \<times> 'c"
  df_blockNeedsCopy :: "'c \<Rightarrow> nat \<Rightarrow> BlockPointer \<Rightarrow> bool"
  df_finishSync :: "nat \<Rightarrow> 'c \<Rightarrow> error option \<times> 'c"
  bops_GetEncodedSize ::
    "'c \<Rightarrow> Context \<Rightarrow> KeyMetadata \<Rightarrow> BlockPointer \<Rightarrow> error + 32 word"
  recoverableForRemoval :: "error \<Rightarrow> bool"
  recoverableBlockError :: "error \<Rightarrow> bool"
  parentPath :: "path \<Rightarrow> path"
  tailName :: "path \<Rightarrow> string"
  hasValidParent :: "path \<Rightarrow> bool"
  ChildPath :: "path \<Rightarrow> string \<Rightarrow> BlockPointer \<Rightarrow> path"
  path_String :: "path \<Rightarrow> string"
  filepath_Join :: "string \<Rightarrow> string \<Rightarrow> string"
  de_IsInitialized :: "DirEntry \<Rightarrow> bool"
  chargedToForTLF :: "'c \<Rightarrow> KeyMetadata \<Rightarrow> error + string"
  kbpki_GetCurrentSession :: "'c \<Rightarrow> error + nat"
  kmd_IsWriter :: "'c \<Rightarrow> KeyMetadata \<Rightarrow> nat \<Rightarrow> error + bool"
  clock_Now :: "'c \<Rightarrow> 64 word"
  GetJournalServer :: "'c \<Rightarrow> bool"
  journal_dirtyOpStart :: "nat \<Rightarrow> 'c \<Rightarrow> 'c"
  journal_dirtyOpEnd :: "nat \<Rightarrow> 'c \<Rightarrow> 'c"
  dbc_Put :: "nat \<Rightarrow> BlockPointer \<Rightarrow> BranchName \<Rightarrow> BlockAddr \<Rightarrow> 'c \<Rightarrow> error option \<times> 'c"
  dbc_Delete :: "nat \<Rightarrow> BlockPointer \<Rightarrow> BranchName \<Rightarrow> 'c \<Rightarrow> error option \<times> 'c"
  dbc_ShouldForceSync :: "'c \<Rightarrow> nat \<Rightarrow> bool"
  forceSyncChan_trySend :: "'c \<Rightarrow> 'c"
  bc_DeletePermanent :: "nat \<Rightarrow> 'c \<Rightarrow> error option \<times> 'c"
  fbm_cleanUpBlockState ::
    "RootMetadata \<Rightarrow> blockState list \<Rightarrow> blockDeleteType \<Rightarrow> 'c \<Rightarrow> 'c"
  newDirtyFile :: "path \<Rightarrow> 'c \<Rightarrow> nat \<times> 'c"
  df_setBlockDirty :: "nat \<Rightarrow> BlockPointer \<Rightarrow> 'c \<Rightarrow> (bool \<times> bool) \<times> 'c"
  df_updateNotYetSyncingBytes :: "nat \<Rightarrow> 64 word \<Rightarrow> 'c \<Rightarrow> 'c"
  df_addDeferredNewBytes :: "nat \<Rightarrow> 64 word \<Rightarrow> 'c \<Rightarrow> 'c"
  df_notifyErrListeners :: "nat \<Rightarrow> error option \<Rightarrow> 'c \<Rightarrow> 'c"
  df_setBlockOrphaned :: "nat \<Rightarrow> BlockPointer \<Rightarrow> bool \<Rightarrow> 'c \<Rightarrow> 'c"
  df_isBlockOrphaned :: "'c \<Rightarrow> nat \<Rightarrow> BlockPointer \<Rightarrow> bool"
  df_resetSyncingBlocksToDirty :: "nat \<Rightarrow> 'c \<Rightarrow> 'c"
  newSyncOp :: "BlockPointer \<Rightarrow> 'c \<Rightarrow> (error + nat) \<times> 'c"
  op_addWrite :: "nat \<Rightarrow> 64 word \<Rightarrow> 64 word \<Rightarrow> 'c \<Rightarrow> WriteRange \<times> 'c"
  op_addTruncate :: "nat \<Rightarrow> 64 word \<Rightarrow> 'c \<Rightarrow> WriteRange \<times> 'c"
  op_resetUpdateState :: "nat \<Rightarrow> 'c \<Rightarrow> 'c"
  nc_Get :: "'c \<Rightarrow> BlockRef \<Rightarrow> nat option"
  nc_IsUnlinked :: "'c \<Rightarrow> nat \<Rightarrow> bool"
  nc_UnlinkedDirEntry :: "'c \<Rightarrow> nat \<Rightarrow> DirEntry"
  nc_UpdateUnlinkedDirEntry :: "nat \<Rightarrow> DirEntry \<Rightarrow> 'c \<Rightarrow> 'c"
  nc_Unlink :: "BlockRef \<Rightarrow> path \<Rightarrow> DirEntry \<Rightarrow> 'c \<Rightarrow> ('c \<Rightarrow> 'c) \<times> 'c"
  nc_Move ::
    "BlockRef \<Rightarrow> nat option \<Rightarrow> string \<Rightarrow> 'c \<Rightarrow> (error + ('c \<Rightarrow> 'c) option) \<times> 'c"
  nc_AllNodes :: "'c \<Rightarrow> nat list"
  nc_PathFromNode :: "'c \<Rightarrow> nat option \<Rightarrow> path"
  nc_UpdatePointer :: "BlockRef \<Rightarrow> BlockPointer \<Rightarrow> 'c \<Rightarrow> nat option \<times> 'c"
  node_GetID :: "nat \<Rightarrow> nat"
  retriever_Request :: "KeyMetadata \<Rightarrow> BlockPointer \<Rightarrow> Block \<Rightarrow> BlockCacheLifetime \<Rightarrow> 'c \<Rightarrow> 'c"
  prefetcher_CancelPrefetch :: "nat \<Rightarrow> 'c \<Rightarrow> 'c"
  fd_getFileBlockAtOffset ::
    "path \<Rightarrow> string \<Rightarrow> KeyMetadata \<Rightarrow> BlockAddr \<Rightarrow> 64 word \<Rightarrow> blockReqType \<Rightarrow>
     'c adapterState \<Rightarrow>
     ((BlockAddr \<times> nat) list \<times> BlockAddr \<times> 64 word \<times> 64 word \<times> error option) \<times>
     'c adapterState"
  fd_write ::
    "path \<Rightarrow> string \<Rightarrow> KeyMetadata \<Rightarrow> 8 word list \<Rightarrow> 64 word \<Rightarrow> BlockAddr \<Rightarrow> DirEntry \<Rightarrow>
     nat \<Rightarrow> 'c adapterState \<Rightarrow>
     (DirEntry \<times> BlockPointer list \<times> BlockInfo list \<times> 64 word \<times> 64 word \<times> error option) \<times>
     'c adapterState"
  fd_truncateExtend ::
    "path \<Rightarrow> string \<Rightarrow> KeyMetadata \<Rightarrow> 64 word \<Rightarrow> BlockAddr \<Rightarrow> (BlockAddr \<times> nat) list \<Rightarrow>
     DirEntry \<Rightarrow> nat \<Rightarrow> 'c adapterState \<Rightarrow>
     (DirEntry \<times> BlockPointer list \<times> error option) \<times> 'c adapterState"
  fd_truncateShrink ::
    "path \<Rightarrow> string \<Rightarrow> KeyMetadata \<Rightarrow> 64 word \<Rightarrow> BlockAddr \<Rightarrow> DirEntry \<Rightarrow>
     'c adapterState \<Rightarrow>
     (DirEntry \<times> BlockPointer list \<times> BlockInfo list \<times> 64 word \<times> error option) \<times>
     'c adapterState"
  fd_findIPtrsAndClearSize ::
    "path \<Rightarrow> string \<Rightarrow> KeyMetadata \<Rightarrow> BlockAddr \<Rightarrow> BlockPointer list \<Rightarrow>
     'c adapterState \<Rightarrow> (BlockPointer list \<times> error option) \<times> 'c adapterState"
  dd_lookup ::
    "path \<Rightarrow> string \<Rightarrow> KeyMetadata \<Rightarrow> string \<Rightarrow> 'c adapterState \<Rightarrow>
     (DirEntry \<times> error option) \<times> 'c adapterState"
  dd_addEntry ::
    "path \<Rightarrow> string \<Rightarrow> KeyMetadata \<Rightarrow> string \<Rightarrow> DirEntry \<Rightarrow> 'c adapterState \<Rightarrow>
     (BlockInfo list \<times> error option) \<times> 'c adapterState"
  dd_removeEntry ::
    "path \<Rightarrow> string \<Rightarrow> KeyMetadata \<Rightarrow> string \<Rightarrow> 'c adapterState \<Rightarrow>
     (BlockInfo list \<times> error option) \<times> 'c adapterState"
  dd_updateEntry ::
    "path \<Rightarrow> string \<Rightarrow> KeyMetadata \<Rightarrow> string \<Rightarrow> DirEntry \<Rightarrow> 'c adapterState \<Rightarrow>
     (BlockInfo list \<times> error option) \<times> 'c adapterState"
  dd_getEntries ::
    "path \<Rightarrow> string \<Rightarrow> KeyMetadata \<Rightarrow> 'c adapterState \<Rightarrow>
     ((string \<times> DirEntry) list \<times> error option) \<times> 'c adapterState"

subsection \<open>The fetch path (lines 328-440 and 597-684)\<close>

text \<open>
  \<^verbatim>\<open>getBlockHelperLocked\<close> (lines 336-403). \<open>lState\<close> is nil (\<open>None\<close>) or a lock
  token; \<open>newBlock\<close> is the kind of block that \<^verbatim>\<open>newBlock()\<close> allocates. The block
  server fills in the fresh block, which keeps its kind. The second read notification
  is deferred in the source, so it is sent on both ways out.
\<close>

definition getBlockHelperLocked ::
  "'c Config \<Rightarrow> nat option \<Rightarrow> KeyMetadata \<Rightarrow> BlockPointer \<Rightarrow> BranchName \<Rightarrow> BlockKind \<Rightarrow>
   BlockCacheLifetime \<Rightarrow> path \<Rightarrow> blockReqType \<Rightarrow> 'c folderBlockOps \<Rightarrow>
   (error + BlockAddr) \<times> 'c folderBlockOps" where
  "getBlockHelperLocked E lState kmd ptr branch newBlock lifetime notifyPath rtype w =
     (if rtype = blockReadParallel \<and> lState \<noteq> None then
        (Inl (PanicError ''Non-nil lState passed to getBlockHelperLocked with blockReadParallel''), w)
      else if \<not> ptr_IsValid E ptr then (Inl (InvalidBlockRefError (Ref ptr)), w)
      else case dbc_Get E (cfg w) (fbo_id w) ptr branch of
        Inr block \<Rightarrow> (Inr block, w)
      | Inl _ \<Rightarrow>
         (case bc_GetWithPrefetch E (cfg w) ptr of
            Inr (block, prefetchStatus, lifetime') \<Rightarrow>
              (Inr block,
               w\<lparr>cfg := prefetcher_ProcessBlockForPrefetch E ptr block kmd lifetime'
                         prefetchStatus (cfg w)\<rparr>)
          | Inl _ \<Rightarrow>
             (case checkDataVersion E (cfg w) notifyPath ptr of
                Some err \<Rightarrow> (Inl err, w)
              | None \<Rightarrow>
                 (let notify = isValidForNotification E notifyPath;
                      c1 = (if notify then reporter_Notify E notifyPath False (cfg w)
                            else cfg w);
                      block = length (heap w);
                      (err, b, c2) = bops_Get E kmd ptr (emptyBlock newBlock) lifetime c1;
                      c3 = (if notify then reporter_Notify E notifyPath True c2 else c2);
                      w' = w\<lparr>cfg := c3, heap := heap w @ [b\<lparr>b_Kind := newBlock\<rparr>]\<rparr>
                  in case err of Some e \<Rightarrow> (Inl e, w') | None \<Rightarrow> (Inr block, w')))))"

text \<open>The type assertion \<^verbatim>\<open>block.(*FileBlock)\<close>.\<close>

definition isFileBlock :: "Block list \<Rightarrow> BlockAddr \<Rightarrow> bool" where
  "isFileBlock h a = (a < length h \<and> b_Kind (h ! a) = FileBlockKind)"

text \<open>\<^verbatim>\<open>getFileBlockHelperLocked\<close> (lines 417-440).\<close>

definition getFileBlockHelperLocked ::
  "'c Config \<Rightarrow> nat option \<Rightarrow> KeyMetadata \<Rightarrow> BlockPointer \<Rightarrow> BranchName \<Rightarrow> path \<Rightarrow>
   blockReqType \<Rightarrow> 'c folderBlockOps \<Rightarrow> (error + BlockAddr) \<times> 'c folderBlockOps" where
  "getFileBlockHelperLocked E lState kmd ptr branch p rtype w =
     (if rtype = blockReadParallel \<and> lState \<noteq> None then
        (Inl (PanicError ''Non-nil lState passed to getFileBlockHelperLocked with blockReadParallel''), w)
      else case getBlockHelperLocked E lState kmd ptr branch FileBlockKind TransientEntry p
                  rtype w of
        (Inl err, w') \<Rightarrow> (Inl err, w')
      | (Inr block, w') \<Rightarrow>
          (if isFileBlock (heap w') block then (Inr block, w')
           else (Inl (NotFileBlockError ptr branch p), w')))"

text \<open>
  \<^verbatim>\<open>FileBlock.DeepCopy\<close>: a new block with the same contents. It returns the address
  of the copy and the heap that holds it.
\<close>

definition DeepCopy :: "BlockAddr \<Rightarrow> Block list \<Rightarrow> BlockAddr \<times> Block list" where
  "DeepCopy a h = (length h, h @ [h ! a])"

text \<open>
  \<^verbatim>\<open>getFileBlockLocked\<close> (lines 630-670). The request type is an enumeration here, so
  the \<^verbatim>\<open>default\<close> case of the switch has no counterpart.
\<close>

definition getFileBlockLocked ::
  "'c Config \<Rightarrow> nat option \<Rightarrow> KeyMetadata \<Rightarrow> BlockPointer \<Rightarrow> path \<Rightarrow> blockReqType \<Rightarrow>
   'c folderBlockOps \<Rightarrow> (error + (BlockAddr \<times> bool)) \<times> 'c folderBlockOps" where
  "getFileBlockLocked E lState kmd ptr file rtype w =
     (if rtype = blockReadParallel \<and> lState \<noteq> None then
        (Inl (PanicError ''Non-nil lState passed to getFileBlockLocked with blockReadParallel''), w)
      else if rtype = blockLookup then
        (Inl (PanicError ''blockLookup should only be used for directory blocks''), w)
      else case getFileBlockHelperLocked E lState kmd ptr (p_Branch file) file rtype w of
        (Inl err, w') \<Rightarrow> (Inl err, w')
      | (Inr fblock, w') \<Rightarrow>
          (let wasDirty = dbc_IsDirty E (cfg w') (fbo_id w') ptr (p_Branch file) in
           if rtype = blockWrite then
             (let df = fmlookup (dirtyFiles w') (tailPointer E file) in
              if \<not> wasDirty \<or> (case df of None \<Rightarrow> False
                                 | Some d \<Rightarrow> df_blockNeedsCopy E (cfg w') d ptr)
              then (let (copy, h) = DeepCopy fblock (heap w')
                    in (Inr (copy, wasDirty), w'\<lparr>heap := h\<rparr>))
              else (Inr (fblock, wasDirty), w'))
           else (Inr (fblock, wasDirty), w')))"

text \<open>\<^verbatim>\<open>getFileLocked\<close> (lines 673-684).\<close>

definition getFileLocked ::
  "'c Config \<Rightarrow> nat option \<Rightarrow> KeyMetadata \<Rightarrow> path \<Rightarrow> blockReqType \<Rightarrow> 'c folderBlockOps \<Rightarrow>
   (error + BlockAddr) \<times> 'c folderBlockOps" where
  "getFileLocked E lState kmd file rtype w =
     (if \<not> path_isValid E file then (Inl (InvalidPathError file), w)
      else case getFileBlockLocked E lState kmd (tailPointer E file) file rtype w of
        (Inl err, w') \<Rightarrow> (Inl err, w')
      | (Inr (fblock, _), w') \<Rightarrow> (Inr fblock, w'))"

subsection \<open>Dirty files (lines 1540-1550 and 2266-2341)\<close>

text \<open>
  \<^verbatim>\<open>GetDirtyFileBlockRefs\<close> (lines 1542-1550) ranges over the map \<^verbatim>\<open>unrefCache\<close>, in
  an order that Go leaves open: the call may return any list that holds every key of
  the map once.
\<close>

definition GetDirtyFileBlockRefs :: "'c folderBlockOps \<Rightarrow> BlockRef list \<Rightarrow> bool" where
  "GetDirtyFileBlockRefs w dirtyRefs =
     (distinct dirtyRefs \<and> fset_of_list dirtyRefs = fmdom (unrefCache w))"

text \<open>\<^verbatim>\<open>IsDirty\<close> (lines 2268-2284).\<close>

definition IsDirty :: "'c Config \<Rightarrow> path \<Rightarrow> 'c folderBlockOps \<Rightarrow> bool" where
  "IsDirty E file w =
     (if dbc_IsDirty E (cfg w) (fbo_id w) (tailPointer E file) (p_Branch file) then True
      else if fmlookup (dirtyFiles w) (tailPointer E file) \<noteq> None then True
      else fmlookup (unrefCache w) (tailRef E file) \<noteq> None)"

text \<open>\<^verbatim>\<open>clearCacheInfoLocked\<close> (lines 2286-2300).\<close>

definition clearCacheInfoLocked ::
  "'c Config \<Rightarrow> path \<Rightarrow> 'c folderBlockOps \<Rightarrow> error option \<times> 'c folderBlockOps" where
  "clearCacheInfoLocked E file w =
     (let ref = tailRef E file;
          w1 = w\<lparr>unrefCache := fmdrop ref (unrefCache w)\<rparr>
      in case fmlookup (dirtyFiles w1) (tailPointer E file) of
           None \<Rightarrow> (None, w1)
         | Some df \<Rightarrow>
            (case df_finishSync E df (cfg w1) of
               (Some err, c) \<Rightarrow> (Some err, w1\<lparr>cfg := c\<rparr>)
             | (None, c) \<Rightarrow>
                 (None, w1\<lparr>cfg := c,
                           dirtyFiles := fmdrop (tailPointer E file) (dirtyFiles w1)\<rparr>)))"

text \<open>\<^verbatim>\<open>ClearCacheInfo\<close> (lines 2337-2341) takes the lock and delegates.\<close>

definition ClearCacheInfo ::
  "'c Config \<Rightarrow> path \<Rightarrow> 'c folderBlockOps \<Rightarrow> error option \<times> 'c folderBlockOps" where
  "ClearCacheInfo E file w = clearCacheInfoLocked E file w"

subsection \<open>The sum of the encoded sizes (lines 266-326 and 459-528)\<close>

text \<open>
  Modelled from the spec: \<^verbatim>\<open>isRecoverableBlockErrorForRemoval\<close> is defined in another
  file. It classifies errors (spec, section 7: block-fetch errors are split into
  recoverable-for-removal, recoverable and unrecoverable), so the nil error is not one
  of them; which errors are recoverable for removal is the parameter
  \<open>recoverableForRemoval\<close>.
\<close>

definition isRecoverableBlockErrorForRemoval :: "'c Config \<Rightarrow> error option \<Rightarrow> bool" where
  "isRecoverableBlockErrorForRemoval E err =
     (case err of None \<Rightarrow> False | Some e \<Rightarrow> recoverableForRemoval E e)"

text \<open>
  \<^verbatim>\<open>getCleanEncodedBlockSizeLocked\<close> (lines 271-326). The call reads the block cache
  and asks the server; it changes nothing in the engine. Reading the size of a nil
  block panics.
\<close>

definition getCleanEncodedBlockSizeLocked ::
  "'c Config \<Rightarrow> Context \<Rightarrow> nat option \<Rightarrow> KeyMetadata \<Rightarrow> BlockPointer \<Rightarrow> BranchName \<Rightarrow>
   blockReqType \<Rightarrow> 'c folderBlockOps \<Rightarrow> error + 32 word" where
  "getCleanEncodedBlockSizeLocked E ctx lState kmd ptr branch rtype w =
     (if rtype \<noteq> blockReadParallel \<and> rtype = blockWrite then
        Inl (PanicError ''Cannot get the size of a block for writing'')
      else if rtype = blockReadParallel \<and> lState \<noteq> None then
        Inl (PanicError ''Non-nil lState passed to getCleanEncodedBlockSizeLocked with blockReadParallel'')
      else if \<not> ptr_IsValid E ptr then Inl (InvalidBlockRefError (Ref ptr))
      else case bc_Get E (cfg w) ptr of
        Inr block \<Rightarrow>
          (if block < length (heap w) then Inr (b_EncodedSize (heap w ! block))
           else Inl (PanicError ''nil pointer dereference''))
      | Inl _ \<Rightarrow>
         (case checkDataVersion E (cfg w) zeroPath ptr of
            Some err \<Rightarrow> Inl err
          | None \<Rightarrow> bops_GetEncodedSize E (cfg w) ctx kmd ptr))"

text \<open>
  \<^verbatim>\<open>GetCleanEncodedBlocksSizeSum\<close> (lines 473-528) starts \<^verbatim>\<open>numWorkers\<close> goroutines
  that share the channel \<^verbatim>\<open>ptrCh\<close>, already filled and then closed, and the channel
  \<^verbatim>\<open>sumCh\<close>, which has room for every size. A worker is about to receive from
  \<^verbatim>\<open>ptrCh\<close> (\<open>Idle\<close>), holds a pointer it has received (\<open>Holding\<close>), or has returned.
  The error group keeps the first error a worker returns and cancels the group's
  context when it gets one.
\<close>

datatype workerState = Idle | Holding BlockPointer | Returned "error option"

record pool =
  ptrCh :: "BlockPointer list"
  sumCh :: "32 word list"
  workers :: "workerState list"
  groupCtx :: Context
  firstErr :: "error option"

text \<open>\<^verbatim>\<open>ignoreRecoverableForRemovalErrors[ptr]\<close>: a missing key reads as false.\<close>

definition ignoreLookup :: "(BlockPointer, bool) fmap \<Rightarrow> BlockPointer \<Rightarrow> bool" where
  "ignoreLookup m ptr = (fmlookup m ptr = Some True)"

text \<open>
  One step of worker \<open>i\<close> (the body of the goroutine, lines 494-513): an idle worker
  receives the next pointer, or returns nil when the closed channel is empty; a
  worker that holds a pointer fetches its size under the group's context as it is
  then, and skips the pointer, returns the error, or sends the size.
\<close>

definition workerStep ::
  "'c Config \<Rightarrow> KeyMetadata \<Rightarrow> (BlockPointer, bool) fmap \<Rightarrow> BranchName \<Rightarrow>
   'c folderBlockOps \<Rightarrow> nat \<Rightarrow> pool \<Rightarrow> pool" where
  "workerStep E kmd ignore branch w i p =
     (if i < length (workers p) then
        (case workers p ! i of
           Idle \<Rightarrow>
             (case ptrCh p of
                [] \<Rightarrow> p\<lparr>workers := (workers p)[i := Returned None]\<rparr>
              | ptr # rest \<Rightarrow> p\<lparr>ptrCh := rest, workers := (workers p)[i := Holding ptr]\<rparr>)
         | Holding ptr \<Rightarrow>
             (case getCleanEncodedBlockSizeLocked E (groupCtx p) None kmd ptr branch
                     blockReadParallel w of
                Inl err \<Rightarrow>
                  (if isRecoverableBlockErrorForRemoval E (Some err) \<and> ignoreLookup ignore ptr
                   then p\<lparr>workers := (workers p)[i := Idle]\<rparr>
                   else p\<lparr>workers := (workers p)[i := Returned (Some err)],
                          groupCtx := ContextCancelled,
                          firstErr := (case firstErr p of None \<Rightarrow> Some err
                                       | Some e \<Rightarrow> Some e)\<rparr>)
              | Inr sz \<Rightarrow>
                  (if isRecoverableBlockErrorForRemoval E None \<and> ignoreLookup ignore ptr
                   then p\<lparr>workers := (workers p)[i := Idle]\<rparr>
                   else p\<lparr>sumCh := sumCh p @ [sz], workers := (workers p)[i := Idle]\<rparr>))
         | Returned _ \<Rightarrow> p)
      else p)"

text \<open>
  A schedule is the list of the workers in the order in which they take their steps.
\<close>

fun runPool ::
  "'c Config \<Rightarrow> KeyMetadata \<Rightarrow> (BlockPointer, bool) fmap \<Rightarrow> BranchName \<Rightarrow>
   'c folderBlockOps \<Rightarrow> nat list \<Rightarrow> pool \<Rightarrow> pool" where
  "runPool E kmd ignore branch w [] p = p"
| "runPool E kmd ignore branch w (i # sched) p =
     runPool E kmd ignore branch w sched (workerStep E kmd ignore branch w i p)"

definition isReturned :: "workerState \<Rightarrow> bool" where
  "isReturned s = (case s of Returned _ \<Rightarrow> True | _ \<Rightarrow> False)"

definition startPool :: "Context \<Rightarrow> BlockPointer list \<Rightarrow> pool" where
  "startPool ctx ptrs =
     (let numWorkers = (if length ptrs < numBlockSizeWorkersMax then length ptrs
                        else numBlockSizeWorkersMax)
      in \<lparr>ptrCh = ptrs, sumCh = [], workers = replicate numWorkers Idle, groupCtx = ctx,
          firstErr = None\<rparr>)"

text \<open>The loop of lines 523-526: the sizes are added up as \<^verbatim>\<open>uint64\<close>.\<close>

fun sumSizes :: "64 word \<Rightarrow> 32 word list \<Rightarrow> 64 word" where
  "sumSizes acc [] = acc"
| "sumSizes acc (sz # rest) = sumSizes (acc + ucast sz) rest"

text \<open>
  The call under the schedule \<open>sched\<close>. \<^verbatim>\<open>eg.Wait()\<close> returns once every worker has
  returned; the result is \<open>None\<close> when the schedule ends before that.
\<close>

definition GetCleanEncodedBlocksSizeSum ::
  "'c Config \<Rightarrow> Context \<Rightarrow> KeyMetadata \<Rightarrow> BlockPointer list \<Rightarrow> (BlockPointer, bool) fmap \<Rightarrow>
   BranchName \<Rightarrow> nat list \<Rightarrow> 'c folderBlockOps \<Rightarrow> (error + 64 word) option" where
  "GetCleanEncodedBlocksSizeSum E ctx kmd ptrs ignore branch sched w =
     (let p = runPool E kmd ignore branch w sched (startPool ctx ptrs) in
      if list_all isReturned (workers p) then
        (case firstErr p of
           Some err \<Rightarrow> Some (Inl err)
         | None \<Rightarrow> Some (Inr (sumSizes 0 (sumCh p))))
      else None)"

text \<open>
  What the call should return, in the spec's words: the sum of the encoded sizes of the
  blocks of the pointers in \<open>ptrs\<close>, leaving out the pointers that are in the ignore
  set and whose fetch failed with an error that is recoverable for removal. \<open>fetch\<close> is
  the fetch of one size, \<open>fetchSize\<close> under the context of the call.
\<close>

definition fetchSize ::
  "'c Config \<Rightarrow> Context \<Rightarrow> KeyMetadata \<Rightarrow> BranchName \<Rightarrow> 'c folderBlockOps \<Rightarrow> BlockPointer \<Rightarrow>
   error + 32 word" where
  "fetchSize E ctx kmd branch w ptr =
     getCleanEncodedBlockSizeLocked E ctx None kmd ptr branch blockReadParallel w"

definition excludedPtr ::
  "'c Config \<Rightarrow> (BlockPointer, bool) fmap \<Rightarrow> (BlockPointer \<Rightarrow> error + 32 word) \<Rightarrow> BlockPointer \<Rightarrow> bool" where
  "excludedPtr E ignore fetch ptr =
     (ignoreLookup ignore ptr \<and>
      (case fetch ptr of Inl err \<Rightarrow> recoverableForRemoval E err | Inr _ \<Rightarrow> False))"

definition encodedSizeOf :: "(BlockPointer \<Rightarrow> error + 32 word) \<Rightarrow> BlockPointer \<Rightarrow> 64 word" where
  "encodedSizeOf fetch ptr = (case fetch ptr of Inl _ \<Rightarrow> 0 | Inr sz \<Rightarrow> ucast sz)"

definition encodedSizesSum ::
  "'c Config \<Rightarrow> (BlockPointer, bool) fmap \<Rightarrow> (BlockPointer \<Rightarrow> error + 32 word) \<Rightarrow> BlockPointer list \<Rightarrow> 64 word" where
  "encodedSizesSum E ignore fetch ptrs =
     sum_list (map (encodedSizeOf fetch) (filter (\<lambda>ptr. \<not> excludedPtr E ignore fetch ptr) ptrs))"

text \<open>The invariant of the pool, for the proof.\<close>

definition heldSum ::
  "'c Config \<Rightarrow> (BlockPointer, bool) fmap \<Rightarrow> (BlockPointer \<Rightarrow> error + 32 word) \<Rightarrow> workerState \<Rightarrow> 64 word" where
  "heldSum E ignore fetch s =
     (case s of Holding ptr \<Rightarrow> encodedSizesSum E ignore fetch [ptr] | _ \<Rightarrow> 0)"

definition fetchedOrExcluded ::
  "'c Config \<Rightarrow> (BlockPointer, bool) fmap \<Rightarrow> (BlockPointer \<Rightarrow> error + 32 word) \<Rightarrow> BlockPointer \<Rightarrow> bool" where
  "fetchedOrExcluded E ignore fetch ptr =
     (excludedPtr E ignore fetch ptr \<or> (\<exists>sz. fetch ptr = Inr sz))"

definition poolInv ::
  "'c Config \<Rightarrow> (BlockPointer, bool) fmap \<Rightarrow> (BlockPointer \<Rightarrow> error + 32 word) \<Rightarrow> Context \<Rightarrow>
   BlockPointer list \<Rightarrow> pool \<Rightarrow> bool" where
  "poolInv E ignore fetch ctx ptrs p =
     ((\<forall>e. Returned (Some e) \<in> set (workers p) \<longrightarrow> firstErr p \<noteq> None) \<and>
      (Returned None \<in> set (workers p) \<or> workers p = [] \<longrightarrow> ptrCh p = []) \<and>
      (firstErr p = None \<longrightarrow>
         groupCtx p = ctx \<and>
         sumSizes 0 (sumCh p) + sum_list (map (heldSum E ignore fetch) (workers p)) +
           encodedSizesSum E ignore fetch (ptrCh p) = encodedSizesSum E ignore fetch ptrs \<and>
         (\<forall>q \<in> set ptrs. q \<in> set (ptrCh p) \<or> Holding q \<in> set (workers p) \<or>
             fetchedOrExcluded E ignore fetch q)))"

subsection \<open>Directory entries in the cache (lines 742-756 and 901-1246)\<close>

text \<open>
  A call of an adapter method from the engine: the adapter works on its part of the
  state (see \<open>adapterState\<close>).
\<close>

definition runAdapter ::
  "('c adapterState \<Rightarrow> 'r \<times> 'c adapterState) \<Rightarrow> 'c folderBlockOps \<Rightarrow> 'r \<times> 'c folderBlockOps" where
  "runAdapter f w = (case f (toAdapter w) of (r, a) \<Rightarrow> (r, fromAdapter a w))"

definition nilDeref :: error where
  "nilDeref = PanicError ''invalid memory address or nil pointer dereference''"

text \<open>\<^verbatim>\<open>getChargedToLocked\<close> (lines 742-756).\<close>

definition getChargedToLocked ::
  "'c Config \<Rightarrow> KeyMetadata \<Rightarrow> 'c folderBlockOps \<Rightarrow> (error + string) \<times> 'c folderBlockOps" where
  "getChargedToLocked E kmd w =
     (if chargedTo w \<noteq> [] then (Inr (chargedTo w), w)
      else case chargedToForTLF E (cfg w) kmd of
             Inl err \<Rightarrow> (Inl err, w)
           | Inr c \<Rightarrow> (Inr c, w\<lparr>chargedTo := c\<rparr>))"

text \<open>
  \<^verbatim>\<open>dirtyBcache.Delete(fbo.id(), ptr, fbo.branch())\<close> where the source drops the error.
\<close>

definition deleteDirty :: "'c Config \<Rightarrow> BlockPointer \<Rightarrow> 'c folderBlockOps \<Rightarrow> 'c folderBlockOps" where
  "deleteDirty E ptr v = v\<lparr>cfg := snd (dbc_Delete E (fbo_id v) ptr (fbo_branch v) (cfg v))\<rparr>"

text \<open>
  \<^verbatim>\<open>makeDirDirtyLocked\<close> (lines 992-1010). It returns the undo function, a function on
  the engine state, and the new state.
\<close>

definition makeDirDirtyLocked ::
  "'c Config \<Rightarrow> BlockPointer \<Rightarrow> BlockInfo list \<Rightarrow> 'c folderBlockOps \<Rightarrow>
   ('c folderBlockOps \<Rightarrow> 'c folderBlockOps) \<times> 'c folderBlockOps" where
  "makeDirDirtyLocked E ptr newUnrefs w =
     (let old = fmlookup (dirtyDirs w) ptr;
          oldUnrefs = (case old of None \<Rightarrow> [] | Some u \<Rightarrow> u);
          wasDirty = (old \<noteq> None);
          undo = (\<lambda>v.
            fold (\<lambda>unref. deleteDirty E (bi_BlockPointer unref)) newUnrefs
              (if wasDirty then v\<lparr>dirtyDirs := fmupd ptr oldUnrefs (dirtyDirs v)\<rparr>
               else (let v1 = deleteDirty E ptr v
                     in v1\<lparr>dirtyDirs := fmdrop ptr (dirtyDirs v1)\<rparr>)))
      in (undo, w\<lparr>dirtyDirs := fmupd ptr (oldUnrefs @ newUnrefs) (dirtyDirs w)\<rparr>))"

definition setTimes :: "bool \<Rightarrow> bool \<Rightarrow> 64 word \<Rightarrow> DirEntry \<Rightarrow> DirEntry" where
  "setTimes setMtime setCtime now de =
     (let de1 = (if setMtime then de\<lparr>de_Mtime := now\<rparr> else de)
      in if setCtime then de1\<lparr>de_Ctime := now\<rparr> else de1)"

text \<open>\<^verbatim>\<open>updateParentDirEntryLocked\<close> (lines 1012-1064).\<close>

definition updateParentDirEntryLocked ::
  "'c Config \<Rightarrow> KeyMetadata \<Rightarrow> path \<Rightarrow> bool \<Rightarrow> bool \<Rightarrow> 'c folderBlockOps \<Rightarrow>
   (error + ('c folderBlockOps \<Rightarrow> 'c folderBlockOps)) \<times> 'c folderBlockOps" where
  "updateParentDirEntryLocked E kmd dir setMtime setCtime w =
     (case getChargedToLocked E kmd w of
        (Inl err, w1) \<Rightarrow> (Inl err, w1)
      | (Inr charged, w1) \<Rightarrow>
         (let now = clock_Now E (cfg w1); pp = parentPath E dir in
          if path_isValid E pp then
            (case runAdapter (dd_lookup E pp charged kmd (tailName E dir)) w1 of
               ((de, Some err), w2) \<Rightarrow> (Inl err, w2)
             | ((de, None), w2) \<Rightarrow>
                (case runAdapter (dd_updateEntry E pp charged kmd (tailName E dir)
                                    (setTimes setMtime setCtime now de)) w2 of
                   ((us, Some err), w3) \<Rightarrow> (Inl err, w3)
                 | ((us, None), w3) \<Rightarrow>
                    (case makeDirDirtyLocked E (tailPointer E pp) us w3 of
                       (undoDirtyFn, w4) \<Rightarrow>
                         (Inr (\<lambda>v. undoDirtyFn
                                 (snd (runAdapter
                                    (dd_updateEntry E pp charged kmd (tailName E dir) de) v))),
                          w4))))
          else
            (let de = dirtyRootDirEntry w1;
                 root = (case de of None \<Rightarrow> md_Dir kmd | Some d \<Rightarrow> d)
             in (Inr (\<lambda>v. v\<lparr>dirtyRootDirEntry := de\<rparr>),
                 w1\<lparr>dirtyRootDirEntry := Some (setTimes setMtime setCtime now root)\<rparr>))))"

text \<open>\<^verbatim>\<open>addDirEntryInCacheLocked\<close> (lines 1066-1093).\<close>

definition addDirEntryInCacheLocked ::
  "'c Config \<Rightarrow> KeyMetadata \<Rightarrow> path \<Rightarrow> string \<Rightarrow> DirEntry \<Rightarrow> 'c folderBlockOps \<Rightarrow>
   (error + ('c folderBlockOps \<Rightarrow> 'c folderBlockOps)) \<times> 'c folderBlockOps" where
  "addDirEntryInCacheLocked E kmd dir newName newDe w =
     (case getChargedToLocked E kmd w of
        (Inl err, w1) \<Rightarrow> (Inl err, w1)
      | (Inr charged, w1) \<Rightarrow>
         (case runAdapter (dd_addEntry E dir charged kmd newName newDe) w1 of
            ((us, Some err), w2) \<Rightarrow> (Inl err, w2)
          | ((us, None), w2) \<Rightarrow>
             (case updateParentDirEntryLocked E kmd dir True True w2 of
                (Inl err, w3) \<Rightarrow>
                  (Inl err, snd (runAdapter (dd_removeEntry E dir charged kmd newName) w3))
              | (Inr parentUndo, w3) \<Rightarrow>
                 (case makeDirDirtyLocked E (tailPointer E dir) us w3 of
                    (undoDirtyFn, w4) \<Rightarrow>
                      (Inr (\<lambda>v. parentUndo (undoDirtyFn
                              (snd (runAdapter (dd_removeEntry E dir charged kmd newName) v)))),
                       w4)))))"

text \<open>
  \<^verbatim>\<open>removeDirEntryInCacheLocked\<close> (lines 1111-1151). A call on a nil \<^verbatim>\<open>nodeCache\<close>
  panics.
\<close>

definition removeDirEntryInCacheLocked ::
  "'c Config \<Rightarrow> KeyMetadata \<Rightarrow> path \<Rightarrow> string \<Rightarrow> DirEntry \<Rightarrow> 'c folderBlockOps \<Rightarrow>
   (error + ('c folderBlockOps \<Rightarrow> 'c folderBlockOps)) \<times> 'c folderBlockOps" where
  "removeDirEntryInCacheLocked E kmd dir oldName oldDe w =
     (case getChargedToLocked E kmd w of
        (Inl err, w1) \<Rightarrow> (Inl err, w1)
      | (Inr charged, w1) \<Rightarrow>
         (case runAdapter (dd_removeEntry E dir charged kmd oldName) w1 of
            ((us, Some err), w2) \<Rightarrow> (Inl err, w2)
          | ((us, None), w2) \<Rightarrow>
             (let allUnrefs =
                    (if de_Type oldDe = Dir then
                       (case fmlookup (dirtyDirs w2) (de_BlockPointer oldDe) of
                          Some childUnrefs \<Rightarrow> us @ childUnrefs
                        | None \<Rightarrow> us)
                     else us)
              in if nodeCache w2 = None then (Inl nilDeref, w2)
                 else
                  (case nc_Unlink E (de_Ref oldDe)
                          (ChildPath E dir oldName (de_BlockPointer oldDe)) oldDe (cfg w2) of
                     (unlinkUndoFn, c) \<Rightarrow>
                      (case updateParentDirEntryLocked E kmd dir True True (w2\<lparr>cfg := c\<rparr>) of
                         (Inl err, w4) \<Rightarrow>
                           (Inl err,
                            snd (runAdapter (dd_addEntry E dir charged kmd oldName oldDe)
                                   (w4\<lparr>cfg := unlinkUndoFn (cfg w4)\<rparr>)))
                       | (Inr parentUndo, w4) \<Rightarrow>
                          (case makeDirDirtyLocked E (tailPointer E dir) allUnrefs w4 of
                             (undoDirtyFn, w5) \<Rightarrow>
                               (Inr (\<lambda>v.
                                  (let v3 = parentUndo (undoDirtyFn
                                         (snd (runAdapter
                                            (dd_addEntry E dir charged kmd oldName oldDe) v)))
                                   in v3\<lparr>cfg := unlinkUndoFn (cfg v3)\<rparr>)),
                                w5)))))))"

text \<open>
  \<^verbatim>\<open>RenameDirEntryInCache\<close> (lines 1178-1246). The result is the undo function, nil
  (\<open>None\<close>) for the no-op. The three deferred functions run in the reverse of the order
  in which they were registered, and only those registered before the return.
\<close>

definition runUndo ::
  "('c folderBlockOps \<Rightarrow> 'c folderBlockOps) option \<Rightarrow> 'c folderBlockOps \<Rightarrow> 'c folderBlockOps" where
  "runUndo undo v = (case undo of None \<Rightarrow> v | Some f \<Rightarrow> f v)"

definition RenameDirEntryInCache ::
  "'c Config \<Rightarrow> KeyMetadata \<Rightarrow> path \<Rightarrow> string \<Rightarrow> path \<Rightarrow> string \<Rightarrow> DirEntry \<Rightarrow> DirEntry \<Rightarrow>
   'c folderBlockOps \<Rightarrow>
   (error + ('c folderBlockOps \<Rightarrow> 'c folderBlockOps) option) \<times> 'c folderBlockOps" where
  "RenameDirEntryInCache E kmd oldParent oldName newParent newName newDe replacedDe w =
     (if tailPointer E newParent = tailPointer E oldParent \<and> oldName = newName then
        (Inr None, w)
      else
        (case (if de_IsInitialized E replacedDe then
                 (case removeDirEntryInCacheLocked E kmd newParent newName replacedDe w of
                    (Inl err, w1) \<Rightarrow> (Inl err, w1)
                  | (Inr u, w1) \<Rightarrow> (Inr (Some u), w1))
               else (Inr None, w)) of
           (Inl err, w1) \<Rightarrow> (Inl err, w1)
         | (Inr undoReplace, w1) \<Rightarrow>
            (case addDirEntryInCacheLocked E kmd newParent newName newDe w1 of
               (Inl err, w2) \<Rightarrow> (Inl err, runUndo undoReplace w2)
             | (Inr undoAdd, w2) \<Rightarrow>
                (case removeDirEntryInCacheLocked E kmd oldParent oldName zeroDirEntry w2 of
                   (Inl err, w3) \<Rightarrow> (Inl err, runUndo undoReplace (undoAdd w3))
                 | (Inr undoRm, w3) \<Rightarrow>
                    (if nodeCache w3 = None then
                       (Inl nilDeref, runUndo undoReplace (undoAdd (undoRm w3)))
                     else
                      (let newParentNode = nc_Get E (cfg w3) (tailRef E newParent) in
                       case nc_Move E (de_Ref newDe) newParentNode newName (cfg w3) of
                         (Inl err, c) \<Rightarrow>
                           (Inl err, runUndo undoReplace (undoAdd (undoRm (w3\<lparr>cfg := c\<rparr>))))
                       | (Inr undoMove, c) \<Rightarrow>
                           (Inr (Some (\<lambda>v.
                              runUndo undoReplace (undoAdd (undoRm
                                (case undoMove of None \<Rightarrow> v
                                 | Some m \<Rightarrow> v\<lparr>cfg := m (cfg v)\<rparr>))))),
                            w3\<lparr>cfg := c\<rparr>)))))))"

subsection \<open>Looking up and updating the entry of a file (lines 1374-1430)\<close>

definition isNoSuchName :: "error option \<Rightarrow> bool" where
  "isNoSuchName err = (case err of Some (NoSuchNameError _) \<Rightarrow> True | _ \<Rightarrow> False)"

text \<open>
  \<^verbatim>\<open>getEntryLocked\<close> (lines 1374-1401). Like the source, it can return the zero entry
  with a nil error: when the lookup succeeds with another pointer than the file's and
  the node is not unlinked.
\<close>

definition getEntryLocked ::
  "'c Config \<Rightarrow> KeyMetadata \<Rightarrow> path \<Rightarrow> bool \<Rightarrow> 'c folderBlockOps \<Rightarrow>
   (DirEntry \<times> error option) \<times> 'c folderBlockOps" where
  "getEntryLocked E kmd file includeDeleted w =
     (if \<not> hasValidParent E file then
        (case dirtyRootDirEntry w of
           Some d \<Rightarrow> ((d, None), w)
         | None \<Rightarrow> ((md_Dir kmd, None), w))
      else
        (case runAdapter (dd_lookup E (parentPath E file) [] kmd (tailName E file)) w of
           ((de, err), w1) \<Rightarrow>
             (if includeDeleted \<and>
                 (isNoSuchName err \<or> de_BlockPointer de \<noteq> tailPointer E file) then
                (if nodeCache w1 = None then ((zeroDirEntry, Some nilDeref), w1)
                 else
                  (case nc_Get E (cfg w1) (Ref (tailPointer E file)) of
                     Some unlinkedNode \<Rightarrow>
                       (if nc_IsUnlinked E (cfg w1) unlinkedNode then
                          ((nc_UnlinkedDirEntry E (cfg w1) unlinkedNode, None), w1)
                        else ((zeroDirEntry, err), w1))
                   | None \<Rightarrow> ((zeroDirEntry, err), w1)))
              else if err \<noteq> None then ((zeroDirEntry, err), w1)
              else ((de, None), w1))))"

text \<open>\<^verbatim>\<open>updateEntryLocked\<close> (lines 1404-1430).\<close>

definition updateEntryLocked ::
  "'c Config \<Rightarrow> KeyMetadata \<Rightarrow> path \<Rightarrow> DirEntry \<Rightarrow> bool \<Rightarrow> 'c folderBlockOps \<Rightarrow>
   error option \<times> 'c folderBlockOps" where
  "updateEntryLocked E kmd file de includeDeleted w =
     (case getChargedToLocked E kmd w of
        (Inl err, w1) \<Rightarrow> (Some err, w1)
      | (Inr charged, w1) \<Rightarrow>
         (let pp = parentPath E file in
          case runAdapter (dd_updateEntry E pp charged kmd (tailName E file) de) w1 of
            ((us, err), w2) \<Rightarrow>
              (if isNoSuchName err \<and> includeDeleted then
                 (if nodeCache w2 = None then (Some nilDeref, w2)
                  else
                   (case nc_Get E (cfg w2) (Ref (tailPointer E file)) of
                      Some unlinkedNode \<Rightarrow>
                        (if nc_IsUnlinked E (cfg w2) unlinkedNode then
                           (None, w2\<lparr>cfg := nc_UpdateUnlinkedDirEntry E unlinkedNode de (cfg w2)\<rparr>)
                         else (err, w2))
                    | None \<Rightarrow> (err, w2)))
               else if err \<noteq> None then (err, w2)
               else (None, snd (makeDirDirtyLocked E (tailPointer E pp) us w2)))))"

subsection \<open>Dirty files and sync infos (lines 1485-1538)\<close>

text \<open>
  In a state of the running program every pointer in \<^verbatim>\<open>unrefCache\<close> points to a
  \<^verbatim>\<open>syncInfo\<close>.
\<close>

definition unrefCacheOK :: "'c folderBlockOps \<Rightarrow> bool" where
  "unrefCacheOK w = fmpred (\<lambda>ref si. si < length (syncInfos w)) (unrefCache w)"

text \<open>\<^verbatim>\<open>getOrCreateDirtyFileLocked\<close> (lines 1485-1495).\<close>

definition getOrCreateDirtyFileLocked ::
  "'c Config \<Rightarrow> path \<Rightarrow> 'c folderBlockOps \<Rightarrow> nat \<times> 'c folderBlockOps" where
  "getOrCreateDirtyFileLocked E file w =
     (let ptr = tailPointer E file in
      case fmlookup (dirtyFiles w) ptr of
        Some df \<Rightarrow> (df, w)
      | None \<Rightarrow>
         (case newDirtyFile E file (cfg w) of
            (df, c) \<Rightarrow> (df, w\<lparr>cfg := c, dirtyFiles := fmupd ptr df (dirtyFiles w)\<rparr>)))"

text \<open>\<^verbatim>\<open>cacheBlockIfNotYetDirtyLocked\<close> (lines 1501-1519).\<close>

definition cacheBlockIfNotYetDirtyLocked ::
  "'c Config \<Rightarrow> BlockPointer \<Rightarrow> path \<Rightarrow> BlockAddr \<Rightarrow> 'c folderBlockOps \<Rightarrow>
   error option \<times> 'c folderBlockOps" where
  "cacheBlockIfNotYetDirtyLocked E ptr file block w =
     (case getOrCreateDirtyFileLocked E file w of
        (df, w1) \<Rightarrow>
          (case df_setBlockDirty E df ptr (cfg w1) of
             ((needsCaching, isSyncing), c) \<Rightarrow>
               (case (if needsCaching
                      then dbc_Put E (fbo_id w1) ptr (p_Branch file) block c
                      else (None, c)) of
                  (Some err, c') \<Rightarrow> (Some err, w1\<lparr>cfg := c'\<rparr>)
                | (None, c') \<Rightarrow>
                    (None, if isSyncing then w1\<lparr>cfg := c', doDeferWrite := True\<rparr>
                           else w1\<lparr>cfg := c'\<rparr>))))"

text \<open>
  \<^verbatim>\<open>getOrCreateSyncInfoLocked\<close> (lines 1521-1538). A new \<^verbatim>\<open>syncInfo\<close> is allocated at
  the end of \<open>syncInfos\<close>.
\<close>

definition getOrCreateSyncInfoLocked ::
  "'c Config \<Rightarrow> DirEntry \<Rightarrow> 'c folderBlockOps \<Rightarrow> (error + nat) \<times> 'c folderBlockOps" where
  "getOrCreateSyncInfoLocked E de w =
     (let ref = de_Ref de in
      case fmlookup (unrefCache w) ref of
        Some si \<Rightarrow> (Inr si, w)
      | None \<Rightarrow>
         (case newSyncOp E (de_BlockPointer de) (cfg w) of
            (Inl err, c) \<Rightarrow> (Inl err, w\<lparr>cfg := c\<rparr>)
          | (Inr so, c) \<Rightarrow>
              (Inr (length (syncInfos w)),
               w\<lparr>cfg := c,
                 syncInfos := syncInfos w @
                   [\<lparr>oldInfo = de_BlockInfo de, si_op = Some so, unrefs = [], si_bps = None,
                     refBytes = 0, unrefBytes = 0, toCleanIfUnused = []\<rparr>],
                 unrefCache := fmupd ref (length (syncInfos w)) (unrefCache w)\<rparr>)))"

subsection \<open>Write and truncate (lines 1850-1965 and 2044-2187)\<close>

text \<open>\<^verbatim>\<open>writeGetFileLocked\<close> (lines 1852-1875).\<close>

definition writeGetFileLocked ::
  "'c Config \<Rightarrow> nat option \<Rightarrow> KeyMetadata \<Rightarrow> path \<Rightarrow> 'c folderBlockOps \<Rightarrow>
   (error + BlockAddr) \<times> 'c folderBlockOps" where
  "writeGetFileLocked E lState kmd file w =
     (case kbpki_GetCurrentSession E (cfg w) of
        Inl err \<Rightarrow> (Inl err, w)
      | Inr session \<Rightarrow>
         (case kmd_IsWriter E (cfg w) kmd session of
            Inl err \<Rightarrow> (Inl err, w)
          | Inr isWriter \<Rightarrow>
              (if \<not> isWriter then (Inl (WriteAccessError file), w)
               else getFileLocked E lState kmd file blockWrite w)))"

definition zeroWriteRange :: WriteRange where
  "zeroWriteRange = \<lparr>wr_Off = 0, wr_Len = 0\<rparr>"

text \<open>
  \<^verbatim>\<open>si.unrefs = append(si.unrefs, unrefs...)\<close> (lines 1944 and 2168), for a
  \<^verbatim>\<open>syncInfo\<close> that exists.
\<close>

definition appendUnrefs ::
  "nat \<Rightarrow> BlockInfo list \<Rightarrow> 'c folderBlockOps \<Rightarrow> 'c folderBlockOps" where
  "appendUnrefs si newUnrefs w =
     w\<lparr>syncInfos := (syncInfos w)
          [si := (syncInfos w ! si)\<lparr>unrefs := unrefs (syncInfos w ! si) @ newUnrefs\<rparr>]\<rparr>"

text \<open>The sync op of a \<^verbatim>\<open>syncInfo\<close>; \<open>None\<close> when a pointer on the way is nil.\<close>

definition siOp :: "'c folderBlockOps \<Rightarrow> nat \<Rightarrow> nat option" where
  "siOp w si = (if si < length (syncInfos w) then si_op (syncInfos w ! si) else None)"

text \<open>
  \<^verbatim>\<open>writeDataLocked\<close> (lines 1879-1965), in three parts. The results are
  \<^verbatim>\<open>latestWrite\<close>, \<^verbatim>\<open>dirtyPtrs\<close>, \<^verbatim>\<open>newlyDirtiedChildBytes\<close> and the error. The first
  part is lines 1926-1964, from the lookup of the entry on: the unrefs that
  \<^verbatim>\<open>fd.write\<close> returns are appended before its error is looked at.
\<close>

definition writeDataLocked_fromEntry ::
  "'c Config \<Rightarrow> KeyMetadata \<Rightarrow> path \<Rightarrow> 8 word list \<Rightarrow> 64 word \<Rightarrow> BlockAddr \<Rightarrow> string \<Rightarrow> nat \<Rightarrow>
   'c folderBlockOps \<Rightarrow>
   (WriteRange \<times> BlockPointer list \<times> 64 word \<times> error option) \<times> 'c folderBlockOps" where
  "writeDataLocked_fromEntry E kmd file data off fblock charged df w =
     (case getEntryLocked E kmd file True w of
        ((de, Some err), w1) \<Rightarrow> ((zeroWriteRange, [], 0, Some err), w1)
      | ((de, None), w1) \<Rightarrow>
         (case getOrCreateSyncInfoLocked E de w1 of
            (Inl err, w2) \<Rightarrow> ((zeroWriteRange, [], 0, Some err), w2)
          | (Inr si, w2) \<Rightarrow>
             (case runAdapter (fd_write E file charged kmd data off fblock de df) w2 of
                ((newDe, dirtyPtrs, newUnrefs, newlyDirtiedChildBytes, bytesExtended, err),
                 w3) \<Rightarrow>
                  (if \<not> si < length (syncInfos w3) then
                     ((zeroWriteRange, [], newlyDirtiedChildBytes, Some nilDeref), w3)
                   else
                    (let w4 = appendUnrefs si newUnrefs w3 in
                     case err of
                       Some e \<Rightarrow> ((zeroWriteRange, [], newlyDirtiedChildBytes, Some e), w4)
                     | None \<Rightarrow>
                        (let now = clock_Now E (cfg w4) in
                         case updateEntryLocked E kmd file
                                (newDe\<lparr>de_Mtime := now, de_Ctime := now\<rparr>) True w4 of
                           (Some e, w5) \<Rightarrow>
                             ((zeroWriteRange, [], newlyDirtiedChildBytes, Some e), w5)
                         | (None, w5) \<Rightarrow>
                            (let c6 = (if doDeferWrite w5
                                       then df_addDeferredNewBytes E df bytesExtended (cfg w5)
                                       else cfg w5) in
                             case siOp w5 si of
                               None \<Rightarrow>
                                 ((zeroWriteRange, [], newlyDirtiedChildBytes, Some nilDeref),
                                  w5\<lparr>cfg := c6\<rparr>)
                             | Some so \<Rightarrow>
                                (case op_addWrite E so off (word_of_nat (length data)) c6 of
                                   (latestWrite, c7) \<Rightarrow>
                                     ((latestWrite, dirtyPtrs, newlyDirtiedChildBytes, None),
                                      w5\<lparr>cfg := c7\<rparr>)))))))))"

text \<open>
  The second part is lines 1896-1924: the file block, whom to charge, the
  \<^verbatim>\<open>dirtyFile\<close>, and the deferred function of lines 1910-1924, which runs on every
  return after it has been registered, with the bytes that are being returned.
\<close>

definition writeDataLocked_body ::
  "'c Config \<Rightarrow> nat option \<Rightarrow> KeyMetadata \<Rightarrow> path \<Rightarrow> 8 word list \<Rightarrow> 64 word \<Rightarrow>
   'c folderBlockOps \<Rightarrow>
   (WriteRange \<times> BlockPointer list \<times> 64 word \<times> error option) \<times> 'c folderBlockOps" where
  "writeDataLocked_body E lState kmd file data off w =
     (case writeGetFileLocked E lState kmd file w of
        (Inl err, w1) \<Rightarrow> ((zeroWriteRange, [], 0, Some err), w1)
      | (Inr fblock, w1) \<Rightarrow>
         (case getChargedToLocked E kmd w1 of
            (Inl err, w2) \<Rightarrow> ((zeroWriteRange, [], 0, Some err), w2)
          | (Inr charged, w2) \<Rightarrow>
             (case getOrCreateDirtyFileLocked E file w2 of
                (df, w3) \<Rightarrow>
                  (case writeDataLocked_fromEntry E kmd file data off fblock charged df w3 of
                     ((latestWrite, dirtyPtrs, newlyDirtiedChildBytes, err), w4) \<Rightarrow>
                       (let c5 = df_updateNotYetSyncingBytes E df newlyDirtiedChildBytes (cfg w4);
                            c6 = (if dbc_ShouldForceSync E c5 (fbo_id w4)
                                  then forceSyncChan_trySend E c5 else c5)
                        in ((latestWrite, dirtyPtrs, newlyDirtiedChildBytes, err),
                            w4\<lparr>cfg := c6\<rparr>))))))"

text \<open>
  The journal's \<^verbatim>\<open>dirtyOpStart\<close> and the deferred \<^verbatim>\<open>dirtyOpEnd\<close> around a function
  (lines 1884-1887, 2106-2109).
\<close>

definition dirtyOpStarted :: "'c Config \<Rightarrow> 'c folderBlockOps \<Rightarrow> 'c folderBlockOps" where
  "dirtyOpStarted E w =
     (if GetJournalServer E (cfg w)
      then w\<lparr>cfg := journal_dirtyOpStart E (fbo_id w) (cfg w)\<rparr> else w)"

definition withDirtyOp ::
  "'c Config \<Rightarrow> ('c folderBlockOps \<Rightarrow> 'r \<times> 'c folderBlockOps) \<Rightarrow> 'c folderBlockOps \<Rightarrow>
   'r \<times> 'c folderBlockOps" where
  "withDirtyOp E f w =
     (case f (dirtyOpStarted E w) of
        (r, w1) \<Rightarrow>
          (r, if GetJournalServer E (cfg w)
              then w1\<lparr>cfg := journal_dirtyOpEnd E (fbo_id w1) (cfg w1)\<rparr> else w1))"

definition writeDataLocked ::
  "'c Config \<Rightarrow> nat option \<Rightarrow> KeyMetadata \<Rightarrow> path \<Rightarrow> 8 word list \<Rightarrow> 64 word \<Rightarrow>
   'c folderBlockOps \<Rightarrow>
   (WriteRange \<times> BlockPointer list \<times> 64 word \<times> error option) \<times> 'c folderBlockOps" where
  "writeDataLocked E lState kmd file data off w =
     withDirtyOp E (writeDataLocked_body E lState kmd file data off) w"

text \<open>\<^verbatim>\<open>truncateExtendLocked\<close> (lines 2046-2099).\<close>

definition truncateExtendLocked ::
  "'c Config \<Rightarrow> nat option \<Rightarrow> KeyMetadata \<Rightarrow> path \<Rightarrow> 64 word \<Rightarrow> (BlockAddr \<times> nat) list \<Rightarrow>
   'c folderBlockOps \<Rightarrow>
   (WriteRange \<times> BlockPointer list \<times> error option) \<times> 'c folderBlockOps" where
  "truncateExtendLocked E lState kmd file sz parentBlocks w =
     (case writeGetFileLocked E lState kmd file w of
        (Inl err, w1) \<Rightarrow> ((zeroWriteRange, [], Some err), w1)
      | (Inr fblock, w1) \<Rightarrow>
         (case getChargedToLocked E kmd w1 of
            (Inl err, w2) \<Rightarrow> ((zeroWriteRange, [], Some err), w2)
          | (Inr charged, w2) \<Rightarrow>
             (case getEntryLocked E kmd file True w2 of
                ((de, Some err), w3) \<Rightarrow> ((zeroWriteRange, [], Some err), w3)
              | ((de, None), w3) \<Rightarrow>
                 (case getOrCreateDirtyFileLocked E file w3 of
                    (df, w4) \<Rightarrow>
                     (case runAdapter
                             (fd_truncateExtend E file charged kmd sz fblock parentBlocks de df)
                             w4 of
                        ((newDe, dirtyPtrs, Some err), w5) \<Rightarrow>
                          ((zeroWriteRange, [], Some err), w5)
                      | ((newDe, dirtyPtrs, None), w5) \<Rightarrow>
                         (let now = clock_Now E (cfg w5) in
                          case updateEntryLocked E kmd file
                                 (newDe\<lparr>de_Mtime := now, de_Ctime := now\<rparr>) True w5 of
                            (Some err, w6) \<Rightarrow> ((zeroWriteRange, [], Some err), w6)
                          | (None, w6) \<Rightarrow>
                             (case getOrCreateSyncInfoLocked E de w6 of
                                (Inl err, w7) \<Rightarrow> ((zeroWriteRange, [], Some err), w7)
                              | (Inr si, w7) \<Rightarrow>
                                 (case siOp w7 si of
                                    None \<Rightarrow> ((zeroWriteRange, [], Some nilDeref), w7)
                                  | Some so \<Rightarrow>
                                     (case op_addTruncate E so sz (cfg w7) of
                                        (latestWrite, c8) \<Rightarrow>
                                          ((latestWrite, dirtyPtrs, None),
                                           w7\<lparr>cfg :=
                                               (if dbc_ShouldForceSync E c8 (fbo_id w7)
                                                then forceSyncChan_trySend E c8
                                                else c8)\<rparr>))))))))))"

text \<open>
  The shrinking part of \<^verbatim>\<open>truncateLocked\<close> (lines 2153-2186): here too the unrefs
  that \<^verbatim>\<open>fd.truncateShrink\<close> returns are appended before its error is looked at.
\<close>

definition truncateLocked_shrink ::
  "'c Config \<Rightarrow> KeyMetadata \<Rightarrow> path \<Rightarrow> 64 word \<Rightarrow> BlockAddr \<Rightarrow> string \<Rightarrow> 'c folderBlockOps \<Rightarrow>
   (WriteRange option \<times> BlockPointer list \<times> 64 word \<times> error option) \<times> 'c folderBlockOps"
  where
  "truncateLocked_shrink E kmd file sz fblock charged w =
     (case getEntryLocked E kmd file True w of
        ((de, Some err), w1) \<Rightarrow> ((None, [], 0, Some err), w1)
      | ((de, None), w1) \<Rightarrow>
         (case getOrCreateSyncInfoLocked E de w1 of
            (Inl err, w2) \<Rightarrow> ((None, [], 0, Some err), w2)
          | (Inr si, w2) \<Rightarrow>
             (case runAdapter (fd_truncateShrink E file charged kmd sz fblock de) w2 of
                ((newDe, dirtyPtrs, newUnrefs, newlyDirtiedChildBytes, err), w3) \<Rightarrow>
                  (if \<not> si < length (syncInfos w3) then
                     ((None, [], newlyDirtiedChildBytes, Some nilDeref), w3)
                   else
                    (let w4 = appendUnrefs si newUnrefs w3 in
                     case err of
                       Some e \<Rightarrow> ((None, [], newlyDirtiedChildBytes, Some e), w4)
                     | None \<Rightarrow>
                        (case getOrCreateDirtyFileLocked E file w4 of
                           (df, w5) \<Rightarrow>
                            (let c6 = df_updateNotYetSyncingBytes E df newlyDirtiedChildBytes
                                        (cfg w5) in
                             case siOp w5 si of
                               None \<Rightarrow>
                                 ((None, [], newlyDirtiedChildBytes, Some nilDeref),
                                  w5\<lparr>cfg := c6\<rparr>)
                             | Some so \<Rightarrow>
                                (case op_addTruncate E so sz c6 of
                                   (latestWrite, c7) \<Rightarrow>
                                    (let now = clock_Now E c7 in
                                     case updateEntryLocked E kmd file
                                            (newDe\<lparr>de_Mtime := now, de_Ctime := now\<rparr>) True
                                            (w5\<lparr>cfg := c7\<rparr>) of
                                       (Some e, w8) \<Rightarrow>
                                         ((None, [], newlyDirtiedChildBytes, Some e), w8)
                                     | (None, w8) \<Rightarrow>
                                         ((Some latestWrite, dirtyPtrs, newlyDirtiedChildBytes,
                                           None), w8))))))))))"

text \<open>
  \<^verbatim>\<open>truncateLocked\<close> (lines 2103-2187). \<^verbatim>\<open>iSize := int64(size)\<close> keeps the bits of
  \<^verbatim>\<open>size\<close> and reads them as a signed number; the comparisons of lines 2132-2148 are
  comparisons of \<^verbatim>\<open>int64\<close> values (\<open>sint\<close>), and \<^verbatim>\<open>+\<close> and \<^verbatim>\<open>-\<close> wrap around. The first
  result is nil (\<open>None\<close>) or points to a write range. \<^verbatim>\<open>make\<close> panics on a negative
  length.
\<close>

definition truncateLocked_body ::
  "'c Config \<Rightarrow> nat option \<Rightarrow> KeyMetadata \<Rightarrow> path \<Rightarrow> 64 word \<Rightarrow> 'c folderBlockOps \<Rightarrow>
   (WriteRange option \<times> BlockPointer list \<times> 64 word \<times> error option) \<times> 'c folderBlockOps"
  where
  "truncateLocked_body E lState kmd file sz w =
     (case writeGetFileLocked E lState kmd file w of
        (Inl err, w1) \<Rightarrow> ((Some zeroWriteRange, [], 0, Some err), w1)
      | (Inr fblock, w1) \<Rightarrow>
         (case getChargedToLocked E kmd w1 of
            (Inl err, w2) \<Rightarrow> ((Some zeroWriteRange, [], 0, Some err), w2)
          | (Inr charged, w2) \<Rightarrow>
             (let iSize = sz in
              case runAdapter
                     (fd_getFileBlockAtOffset E file charged kmd fblock iSize blockWrite) w2 of
                ((parentBlocks, block, nextBlockOff, startOff, Some err), w3) \<Rightarrow>
                  ((Some zeroWriteRange, [], 0, Some err), w3)
              | ((parentBlocks, block, nextBlockOff, startOff, None), w3) \<Rightarrow>
                 (if \<not> block < length (heap w3) then
                    ((Some zeroWriteRange, [], 0, Some nilDeref), w3)
                  else
                   (let currLen = startOff + word_of_nat (length (b_Contents (heap w3 ! block)))
                    in
                    if sint (currLen + truncateExtendCutoffPoint) < sint iSize then
                      (case truncateExtendLocked E lState kmd file iSize parentBlocks w3 of
                         ((latestWrite, dirtyPtrs, err), w4) \<Rightarrow>
                           ((Some latestWrite, dirtyPtrs, 0, err), w4))
                    else if sint currLen < sint iSize then
                      (let moreNeeded = iSize - currLen in
                       if sint moreNeeded < 0 then
                         ((Some zeroWriteRange, [], 0,
                           Some (PanicError ''makeslice: len out of range'')), w3)
                       else
                        (case writeDataLocked E lState kmd file
                                (replicate (unat moreNeeded) 0) currLen w3 of
                           ((latestWrite, dirtyPtrs, newlyDirtiedChildBytes, err), w4) \<Rightarrow>
                             ((Some latestWrite, dirtyPtrs, newlyDirtiedChildBytes, err), w4)))
                    else if currLen = iSize \<and> sint nextBlockOff < 0 then
                      ((None, [], 0, None), w3)
                    else truncateLocked_shrink E kmd file sz fblock charged w3)))))"

definition truncateLocked ::
  "'c Config \<Rightarrow> nat option \<Rightarrow> KeyMetadata \<Rightarrow> path \<Rightarrow> 64 word \<Rightarrow> 'c folderBlockOps \<Rightarrow>
   (WriteRange option \<times> BlockPointer list \<times> 64 word \<times> error option) \<times> 'c folderBlockOps"
  where
  "truncateLocked E lState kmd file sz w =
     withDirtyOp E (truncateLocked_body E lState kmd file sz) w"

subsection \<open>Fast-forwarding the node cache (lines 3266-3294 and 3319-3487)\<close>

text \<open>\<^verbatim>\<open>NodeChange\<close>, declared in another file: the node and what changed in it.\<close>

record NodeChange =
  nch_Node :: nat
  DirUpdated :: "string list"
  FileUpdated :: "WriteRange list"

text \<open>
  \<^verbatim>\<open>updatePointer\<close> (lines 3266-3294). The node cache is an interface value, and a
  call of a method of a nil interface panics; so does \<^verbatim>\<open>block.NewEmpty()\<close> on a nil
  block. The result is a node ID, or nil.
\<close>

definition updatePointer ::
  "'c Config \<Rightarrow> KeyMetadata \<Rightarrow> BlockPointer \<Rightarrow> BlockPointer \<Rightarrow> bool \<Rightarrow> 'c folderBlockOps \<Rightarrow>
   (error + nat option) \<times> 'c folderBlockOps" where
  "updatePointer E kmd oldPtr newPtr shouldPrefetch w =
     (if nodeCache w = None then (Inl nilDeref, w)
      else case nc_UpdatePointer E (Ref oldPtr) newPtr (cfg w) of
        (updatedNode, c1) \<Rightarrow>
          (let w1 = w\<lparr>cfg := c1\<rparr> in
           if updatedNode = None \<or> ID oldPtr = ID newPtr then (Inr None, w1)
           else if shouldPrefetch then
             (case bc_GetWithPrefetch E c1 oldPtr of
                Inl _ \<Rightarrow> (Inr updatedNode, w1)
              | Inr (block, _, lifetime) \<Rightarrow>
                  (if \<not> block < length (heap w1) then (Inl nilDeref, w1)
                   else
                    (Inr updatedNode,
                     w1\<lparr>cfg := prefetcher_CancelPrefetch E (ID oldPtr)
                        (retriever_Request E kmd newPtr
                           (emptyBlock (b_Kind (heap w1 ! block))) lifetime c1)\<rparr>)))
           else (Inr updatedNode, w1\<lparr>cfg := prefetcher_CancelPrefetch E (ID oldPtr) c1\<rparr>)))"

text \<open>
  \<^verbatim>\<open>unlinkDuringFastForwardLocked\<close> (lines 3319-3335). The error of
  \<^verbatim>\<open>getEntryLocked\<close> is only logged; the result is a panic, or nil.
\<close>

definition unlinkDuringFastForwardLocked ::
  "'c Config \<Rightarrow> KeyMetadata \<Rightarrow> BlockRef \<Rightarrow> 'c folderBlockOps \<Rightarrow>
   error option \<times> 'c folderBlockOps" where
  "unlinkDuringFastForwardLocked E kmd ref w =
     (if nodeCache w = None then (Some nilDeref, w)
      else case nc_Get E (cfg w) ref of
        None \<Rightarrow> (None, w)
      | Some oldNode \<Rightarrow>
         (let oldPath = nc_PathFromNode E (cfg w) (Some oldNode) in
          case getEntryLocked E kmd oldPath True w of
            ((de, err), w1) \<Rightarrow>
              (None, w1\<lparr>cfg := snd (nc_Unlink E ref oldPath de (cfg w1))\<rparr>)))"

text \<open>
  The map \<^verbatim>\<open>children\<close> of lines 3430-3449, from a path prefix to the set of the path
  nodes below it, as a list of its entries; a set of path nodes is a list without
  repetitions. A loop over a map takes the keys in the order in which they were
  added (Go leaves the order open).
\<close>

type_synonym childrenMap = "(string \<times> pathNode list) list"

definition lookupChildren :: "childrenMap \<Rightarrow> string \<Rightarrow> pathNode list" where
  "lookupChildren cs prefix = (case map_of cs prefix of None \<Rightarrow> [] | Some pns \<Rightarrow> pns)"

fun setChildren :: "string \<Rightarrow> pathNode list \<Rightarrow> childrenMap \<Rightarrow> childrenMap" where
  "setChildren prefix pns [] = [(prefix, pns)]"
| "setChildren prefix pns ((k, v) # cs) =
     (if k = prefix then (k, pns) # cs else (k, v) # setChildren prefix pns cs)"

definition addChild :: "string \<Rightarrow> pathNode \<Rightarrow> childrenMap \<Rightarrow> childrenMap" where
  "addChild prevPath pn cs =
     (let childPNs = lookupChildren cs prevPath
      in setChildren prevPath (if pn \<in> set childPNs then childPNs else childPNs @ [pn]) cs)"

definition deleteChildren :: "string \<Rightarrow> childrenMap \<Rightarrow> childrenMap" where
  "deleteChildren prefix cs = filter (\<lambda>e. fst e \<noteq> prefix) cs"

text \<open>The inner loop of lines 3437-3448 for one path.\<close>

definition addPath :: "'c Config \<Rightarrow> path \<Rightarrow> childrenMap \<Rightarrow> childrenMap" where
  "addPath E p cs =
     snd (fold (\<lambda>pn (prevPath, cs').
                  (filepath_Join E prevPath (pn_Name pn),
                   if prevPath \<noteq> [] then addChild prevPath pn cs' else cs'))
            (p_path p) ([], cs))"

text \<open>The loop of lines 3432-3449: the root path and the tree.\<close>

definition buildTree :: "'c Config \<Rightarrow> 'c \<Rightarrow> nat list \<Rightarrow> path \<times> childrenMap" where
  "buildTree E c nodes =
     fold (\<lambda>n (rootPath, cs).
             (let p = nc_PathFromNode E c (Some n)
              in (if length (p_path p) = 1 then p else rootPath, addPath E p cs)))
       nodes (zeroPath, [])"

definition dirChange :: "nat \<Rightarrow> pathNode list \<Rightarrow> NodeChange" where
  "dirChange node subchildren =
     \<lparr>nch_Node = node, DirUpdated = map pn_Name subchildren, FileUpdated = []\<rparr>"

definition fileChange :: "nat \<Rightarrow> NodeChange" where
  "fileChange node = \<lparr>nch_Node = node, DirUpdated = [], FileUpdated = [zeroWriteRange]\<rparr>"

text \<open>
  \<^verbatim>\<open>fastForwardDirAndChildrenLocked\<close> (lines 3337-3399) and its loop over the children
  of the directory (lines 3356-3396). The function calls itself on every child that is
  a directory, on the path that the node cache gives for it; nothing in the function
  bounds the depth, so the model takes the depth it may reach and returns \<open>None\<close> when
  that is not enough. \<^verbatim>\<open>children\<close> is a map, which the calls share: it is passed in
  and returned. The loop carries the changes and node IDs collected so far.
\<close>

type_synonym 'c ffResult =
  "(((NodeChange list \<times> nat list \<times> error option) \<times> childrenMap) \<times> 'c folderBlockOps) option"

fun fastForwardDirAndChildrenLocked ::
  "nat \<Rightarrow> 'c Config \<Rightarrow> KeyMetadata \<Rightarrow> path \<Rightarrow> childrenMap \<Rightarrow> 'c folderBlockOps \<Rightarrow> 'c ffResult"
and fastForwardChildren ::
  "nat \<Rightarrow> 'c Config \<Rightarrow> KeyMetadata \<Rightarrow> (string \<times> DirEntry) list \<Rightarrow> pathNode list \<Rightarrow>
   NodeChange list \<Rightarrow> nat list \<Rightarrow> childrenMap \<Rightarrow> 'c folderBlockOps \<Rightarrow> 'c ffResult"
where
  "fastForwardDirAndChildrenLocked 0 E kmd currDir cs w = None"
| "fastForwardDirAndChildrenLocked (Suc depth) E kmd currDir cs w =
     (case getChargedToLocked E kmd w of
        (Inl err, w1) \<Rightarrow> Some ((([], [], Some err), cs), w1)
      | (Inr charged, w1) \<Rightarrow>
         (case runAdapter (dd_getEntries E currDir charged kmd) w1 of
            ((entries, Some err), w2) \<Rightarrow> Some ((([], [], Some err), cs), w2)
          | ((entries, None), w2) \<Rightarrow>
             (let prefix = path_String E currDir in
              case fastForwardChildren depth E kmd entries (lookupChildren cs prefix) [] []
                     cs w2 of
                None \<Rightarrow> None
              | Some (((changes, ids, Some err), cs'), w3) \<Rightarrow>
                  Some ((([], [], Some err), cs'), w3)
              | Some (((changes, ids, None), cs'), w3) \<Rightarrow>
                  Some (((changes, ids, None), deleteChildren prefix cs'), w3))))"
| "fastForwardChildren depth E kmd entries [] changes ids cs w =
     Some (((changes, ids, None), cs), w)"
| "fastForwardChildren depth E kmd entries (child # rest) changes ids cs w =
     (case map_of entries (pn_Name child) of
        None \<Rightarrow>
          (case unlinkDuringFastForwardLocked E kmd (Ref (pn_BlockPointer child)) w of
             (Some err, w1) \<Rightarrow> Some ((([], [], Some err), cs), w1)
           | (None, w1) \<Rightarrow> fastForwardChildren depth E kmd entries rest changes ids cs w1)
      | Some entry \<Rightarrow>
          (case updatePointer E kmd (pn_BlockPointer child) (de_BlockPointer entry) True w of
             (Inl err, w1) \<Rightarrow> Some ((([], [], Some err), cs), w1)
           | (Inr _, w1) \<Rightarrow>
              (let node = nc_Get E (cfg w1) (Ref (de_BlockPointer entry));
                   newPath = nc_PathFromNode E (cfg w1) node
               in
               if de_Type entry = Dir then
                 (let subchildren = lookupChildren cs (path_String E newPath);
                      changes1 = (case node of None \<Rightarrow> changes
                                  | Some n \<Rightarrow> changes @ [dirChange n subchildren]);
                      ids1 = (case node of None \<Rightarrow> ids | Some n \<Rightarrow> ids @ [node_GetID E n])
                  in
                  case fastForwardDirAndChildrenLocked depth E kmd newPath cs w1 of
                    None \<Rightarrow> None
                  | Some (((childChanges, childIds, Some err), cs'), w2) \<Rightarrow>
                      Some ((([], [], Some err), cs'), w2)
                  | Some (((childChanges, childIds, None), cs'), w2) \<Rightarrow>
                      fastForwardChildren depth E kmd entries rest (changes1 @ childChanges)
                        (ids1 @ childIds) cs' w2)
               else
                 (case node of
                    None \<Rightarrow> fastForwardChildren depth E kmd entries rest changes ids cs w1
                  | Some n \<Rightarrow>
                      fastForwardChildren depth E kmd entries rest (changes @ [fileChange n])
                        (ids @ [node_GetID E n]) cs w1))))"

text \<open>The loop of lines 3480-3485, over the children that remain.\<close>

fun unlinkRemaining ::
  "'c Config \<Rightarrow> KeyMetadata \<Rightarrow> pathNode list \<Rightarrow> 'c folderBlockOps \<Rightarrow>
   error option \<times> 'c folderBlockOps" where
  "unlinkRemaining E kmd [] w = (None, w)"
| "unlinkRemaining E kmd (child # rest) w =
     (case unlinkDuringFastForwardLocked E kmd (Ref (pn_BlockPointer child)) w of
        (Some err, w1) \<Rightarrow> (Some err, w1)
      | (None, w1) \<Rightarrow> unlinkRemaining E kmd rest w1)"

text \<open>
  \<^verbatim>\<open>FastForwardAllNodes\<close> (lines 3407-3487), with the depth that
  \<^verbatim>\<open>fastForwardDirAndChildrenLocked\<close> may reach. \<^verbatim>\<open>rootPath.path[0]\<close> panics when the
  path has no node.
\<close>

definition FastForwardAllNodes ::
  "nat \<Rightarrow> 'c Config \<Rightarrow> RootMetadata \<Rightarrow> 'c folderBlockOps \<Rightarrow>
   ((NodeChange list \<times> nat list \<times> error option) \<times> 'c folderBlockOps) option" where
  "FastForwardAllNodes depth E md w =
     (if nodeCache w = None then Some (([], [], None), w)
      else
       (let nodes = nc_AllNodes E (cfg w) in
        if length nodes = 0 then Some (([], [], None), w)
        else
         (case buildTree E (cfg w) nodes of
            (rootPath, cs) \<Rightarrow>
              (if \<not> path_isValid E rootPath then
                 Some (([], [], Some RootPathNotFoundError), w)
               else if p_path rootPath = [] then
                 Some (([], [], Some (PanicError ''index out of range'')), w)
               else
                (let newRoot = de_BlockPointer (md_Dir md) in
                 case updatePointer E md (pn_BlockPointer (hd (p_path rootPath))) newRoot
                        False w of
                   (Inl err, w1) \<Rightarrow> Some (([], [], Some err), w1)
                 | (Inr _, w1) \<Rightarrow>
                    (let rootPath1 = rootPath\<lparr>p_path :=
                           (hd (p_path rootPath))\<lparr>pn_BlockPointer := newRoot\<rparr> #
                           tl (p_path rootPath)\<rparr>;
                         rootNode = nc_Get E (cfg w1) (Ref newRoot);
                         changes = (case rootNode of None \<Rightarrow> []
                                    | Some n \<Rightarrow>
                                        [dirChange n
                                           (lookupChildren cs (path_String E rootPath1))]);
                         ids = (case rootNode of None \<Rightarrow> [] | Some n \<Rightarrow> [node_GetID E n])
                     in
                     case fastForwardDirAndChildrenLocked depth E md rootPath1 cs w1 of
                       None \<Rightarrow> None
                     | Some (((childChanges, childIds, Some err), cs'), w2) \<Rightarrow>
                         Some (([], [], Some err), w2)
                     | Some (((childChanges, childIds, None), cs'), w2) \<Rightarrow>
                        (case unlinkRemaining E md (concat (map snd cs')) w2 of
                           (Some err, w3) \<Rightarrow> Some (([], [], Some err), w3)
                         | (None, w3) \<Rightarrow>
                             Some ((changes @ childChanges, ids @ childIds, None), w3))))))))"

subsection \<open>Cleaning up after a failed sync (lines 1577-1657, 2346-2393 and 2723-2798)\<close>

text \<open>
  Modelled from the spec: \<^verbatim>\<open>isRecoverableBlockError\<close> is defined in another file. It
  classifies errors (spec, section 7: a recoverable error is one after which the sync
  is retried); which errors it accepts is \<open>recoverableBlockError\<close>, and nil is not
  one of them.
\<close>

definition isRecoverableBlockError :: "'c Config \<Rightarrow> error option \<Rightarrow> bool" where
  "isRecoverableBlockError E err =
     (case err of None \<Rightarrow> False | Some e \<Rightarrow> recoverableBlockError E e)"

text \<open>
  \<^verbatim>\<open>notifyErrListenersLocked\<close> (lines 2955-2970). This is the only place of the engine
  that calls \<^verbatim>\<open>df.notifyErrListeners\<close>; the call is recorded in \<open>errNotifications\<close>.
\<close>

definition notifyErrListenersLocked ::
  "'c Config \<Rightarrow> BlockPointer \<Rightarrow> error option \<Rightarrow> 'c folderBlockOps \<Rightarrow> 'c folderBlockOps" where
  "notifyErrListenersLocked E ptr err w =
     (if isRecoverableBlockError E err then w
      else case fmlookup (dirtyFiles w) ptr of
             None \<Rightarrow> w
           | Some df \<Rightarrow>
               w\<lparr>cfg := df_notifyErrListeners E df err (cfg w),
                 errNotifications := errNotifications w @ [(df, err)]\<rparr>)"

text \<open>
  Lines 2745-2752 of \<^verbatim>\<open>CleanupSyncState\<close>: the sync op is reset and the metadata is
  kept with a copy of the block put state. \<^verbatim>\<open>resetUpdateState\<close> and
  \<^verbatim>\<open>blockPutState.DeepCopy\<close> are methods on pointers that read their receiver, so
  they panic on nil; the copy is a new block put state with the same block states.
  The result is a panic, or nil.
\<close>

definition resetSyncInfo ::
  "'c Config \<Rightarrow> RootMetadata \<Rightarrow> nat \<Rightarrow> 'c folderBlockOps \<Rightarrow> error option \<times> 'c folderBlockOps"
  where
  "resetSyncInfo E md si w =
     (if \<not> si < length (syncInfos w) then (Some nilDeref, w)
      else case si_op (syncInfos w ! si) of
        None \<Rightarrow> (Some nilDeref, w)
      | Some so \<Rightarrow>
         (let w1 = w\<lparr>cfg := op_resetUpdateState E so (cfg w)\<rparr> in
          case si_bps (syncInfos w1 ! si) of
            None \<Rightarrow> (Some nilDeref, w1)
          | Some b \<Rightarrow>
             (if \<not> b < length (bpsHeap w1) then (Some nilDeref, w1)
              else
               (let copy = length (bpsHeap w1);
                    s = syncInfos w1 ! si
                in (None,
                    w1\<lparr>bpsHeap := bpsHeap w1 @ [bpsHeap w1 ! b],
                       syncInfos := (syncInfos w1)
                         [si := s\<lparr>toCleanIfUnused := toCleanIfUnused s @
                                   [\<lparr>tc_md = md, tc_bps = Some copy\<rparr>]\<rparr>]\<rparr>)))))"

text \<open>
  \<^verbatim>\<open>revertSyncInfoAfterRecoverableError\<close> (lines 2346-2393), for a \<^verbatim>\<open>result.si\<close> that
  is not nil. \<^verbatim>\<open>*si = *savedSi\<close> copies the fields, among them the pointer \<^verbatim>\<open>bps\<close>:
  from then on \<^verbatim>\<open>si.bps\<close> and \<^verbatim>\<open>savedSi.bps\<close> are the same block put state, the one
  that line 2379 empties and whose block states line 2387 then ranges over.
\<close>

definition revertSyncInfoAfterRecoverableError ::
  "BlockPointer list \<Rightarrow> fileSyncState \<Rightarrow> nat \<Rightarrow> 'c folderBlockOps \<Rightarrow>
   error option \<times> 'c folderBlockOps" where
  "revertSyncInfoAfterRecoverableError blocksToRemove result si w =
     (if \<not> si < length (syncInfos w) then (Some nilDeref, w)
      else
       (let toClean = toCleanIfUnused (syncInfos w ! si);
            newIndirect = fss_newIndirectFileBlockPtrs result;
            newUnrefs = filter (\<lambda>unref. bi_BlockPointer unref \<notin> set newIndirect)
                          (unrefs (syncInfos w ! si))
        in case fss_savedSi result of
          None \<Rightarrow> (Some nilDeref, w)
        | Some savedSi \<Rightarrow>
           (if \<not> savedSi < length (syncInfos w) then (Some nilDeref, w)
            else
             (let w1 = w\<lparr>syncInfos := (syncInfos w)
                         [si := (syncInfos w ! savedSi)
                                  \<lparr>toCleanIfUnused := toClean, unrefs := newUnrefs\<rparr>]\<rparr>
              in case si_bps (syncInfos w1 ! si) of
                None \<Rightarrow> (None, w1)
              | Some b \<Rightarrow>
                 (if \<not> b < length (bpsHeap w1) then (Some nilDeref, w1)
                  else
                   (let w2 = w1\<lparr>bpsHeap := (bpsHeap w1)[b := []]\<rparr> in
                    case si_bps (syncInfos w2 ! savedSi) of
                      None \<Rightarrow> (Some nilDeref, w2)
                    | Some sb \<Rightarrow>
                       (if \<not> sb < length (bpsHeap w2) then (Some nilDeref, w2)
                        else
                         (let good = filter (\<lambda>bs. blockPtr bs \<notin> set blocksToRemove)
                                       (bpsHeap w2 ! sb)
                          in (None,
                              w2\<lparr>bpsHeap := (bpsHeap w2)
                                   [b := bpsHeap w2 ! b @ good]\<rparr>)))))))))"

text \<open>
  The loop of lines 1632-1656 of \<^verbatim>\<open>fixChildBlocksAfterRecoverableErrorLocked\<close>, over
  the entries of the map \<^verbatim>\<open>redirtyOnRecoverableError\<close>; every error is only logged.
\<close>

fun redirtyFound ::
  "'c Config \<Rightarrow> path \<Rightarrow> BlockPointer list \<Rightarrow> (BlockPointer \<times> BlockPointer) list \<Rightarrow>
   'c folderBlockOps \<Rightarrow> 'c folderBlockOps" where
  "redirtyFound E file found [] w = w"
| "redirtyFound E file found ((newPtr, oldPtr) # rest) w =
     (if newPtr \<notin> set found then redirtyFound E file found rest w
      else case bc_Get E (cfg w) newPtr of
        Inl err \<Rightarrow> redirtyFound E file found rest w
      | Inr b \<Rightarrow>
         (case cacheBlockIfNotYetDirtyLocked E newPtr file b w of
            (err, w1) \<Rightarrow> redirtyFound E file found rest (deleteDirty E oldPtr w1)))"

text \<open>
  \<^verbatim>\<open>fixChildBlocksAfterRecoverableErrorLocked\<close> (lines 1577-1657). The deferred
  function resets \<^verbatim>\<open>doDeferWrite\<close> on every way out.
\<close>

definition fixChildBlocks_body ::
  "'c Config \<Rightarrow> path \<Rightarrow> KeyMetadata \<Rightarrow> (BlockPointer \<times> BlockPointer) list \<Rightarrow>
   'c folderBlockOps \<Rightarrow> 'c folderBlockOps" where
  "fixChildBlocks_body E file kmd redirty w =
     (let w1 = (case fmlookup (dirtyFiles w) (tailPointer E file) of
                  None \<Rightarrow> w
                | Some df \<Rightarrow>
                    w\<lparr>cfg := fold (\<lambda>oldPtr. df_setBlockOrphaned E df oldPtr False)
                               (map snd redirty) (cfg w)\<rparr>)
      in case dbc_Get E (cfg w1) (fbo_id w1) (tailPointer E file) (fbo_branch w1) of
        Inl err \<Rightarrow> w1
      | Inr topBlock \<Rightarrow>
         (if \<not> isFileBlock (heap w1) topBlock then w1
          else case getChargedToLocked E kmd w1 of
            (Inl err, w2) \<Rightarrow> w2
          | (Inr charged, w2) \<Rightarrow>
             (case runAdapter
                     (fd_findIPtrsAndClearSize E file charged kmd topBlock (map fst redirty))
                     w2 of
                ((found, Some err), w3) \<Rightarrow> w3
              | ((found, None), w3) \<Rightarrow> redirtyFound E file found redirty w3)))"

definition fixChildBlocksAfterRecoverableErrorLocked ::
  "'c Config \<Rightarrow> path \<Rightarrow> KeyMetadata \<Rightarrow> (BlockPointer \<times> BlockPointer) list \<Rightarrow>
   'c folderBlockOps \<Rightarrow> 'c folderBlockOps" where
  "fixChildBlocksAfterRecoverableErrorLocked E file kmd redirty w =
     (fixChildBlocks_body E file kmd redirty w)\<lparr>doDeferWrite := False\<rparr>"

text \<open>
  The recoverable branch of \<^verbatim>\<open>CleanupSyncState\<close> (lines 2754-2762).
  \<^verbatim>\<open>fblock.Set(savedFblock)\<close> copies the saved block into the block; it panics when
  the saved block is nil.
\<close>

definition cleanupRecoverable ::
  "'c Config \<Rightarrow> RootMetadata \<Rightarrow> path \<Rightarrow> BlockPointer list \<Rightarrow> fileSyncState \<Rightarrow>
   'c folderBlockOps \<Rightarrow> error option \<times> 'c folderBlockOps" where
  "cleanupRecoverable E md file blocksToRemove result w =
     (case (case fss_si result of
              None \<Rightarrow> (None, w)
            | Some si \<Rightarrow> revertSyncInfoAfterRecoverableError blocksToRemove result si w) of
        (Some err, w1) \<Rightarrow> (Some err, w1)
      | (None, w1) \<Rightarrow>
         (case fss_fblock result of
            None \<Rightarrow> (None, w1)
          | Some fblock \<Rightarrow>
             (if \<not> fblock < length (heap w1) then (Some nilDeref, w1)
              else case fss_savedFblock result of
                None \<Rightarrow> (Some nilDeref, w1)
              | Some saved \<Rightarrow>
                 (if \<not> saved < length (heap w1) then (Some nilDeref, w1)
                  else
                   (None,
                    fixChildBlocksAfterRecoverableErrorLocked E file md
                      (fss_redirtyOnRecoverableError result)
                      (w1\<lparr>heap := (heap w1)[fblock := heap w1 ! saved]\<rparr>))))))"

text \<open>
  The other branch (lines 2764-2789). \<^verbatim>\<open>fbo.deferred[ref]\<close> is the zero
  \<^verbatim>\<open>deferredState\<close> when the map has no entry.
\<close>

definition deferredOf :: "'c folderBlockOps \<Rightarrow> BlockRef \<Rightarrow> deferredState" where
  "deferredOf w ref =
     (case fmlookup (deferred w) ref of None \<Rightarrow> zeroDeferredState | Some ds \<Rightarrow> ds)"

definition deleteOrphans ::
  "'c Config \<Rightarrow> nat \<Rightarrow> BlockPointer list \<Rightarrow> 'c folderBlockOps \<Rightarrow> 'c folderBlockOps" where
  "deleteOrphans E df ptrs w =
     fold (\<lambda>ptr v. if df_isBlockOrphaned E (cfg v) df ptr then deleteDirty E ptr v else v)
       ptrs w"

definition cleanupUnrecoverable ::
  "'c Config \<Rightarrow> path \<Rightarrow> fileSyncState \<Rightarrow> 'c folderBlockOps \<Rightarrow> 'c folderBlockOps" where
  "cleanupUnrecoverable E file result w =
     (let ds = deferredOf w (tailRef E file);
          w1 = (case fmlookup (dirtyFiles w) (tailPointer E file) of
                  None \<Rightarrow> w
                | Some df \<Rightarrow>
                    deleteOrphans E df (fss_oldFileBlockPtrs result)
                      (w\<lparr>cfg := df_updateNotYetSyncingBytes E df (- waitBytes ds) (cfg w)\<rparr>))
      in w1\<lparr>deferred := fmdrop (tailRef E file) (deferred w1)\<rparr>)"

text \<open>Lines 2795-2797.\<close>

definition resetSyncingBlocks :: "'c Config \<Rightarrow> path \<Rightarrow> 'c folderBlockOps \<Rightarrow> 'c folderBlockOps"
  where
  "resetSyncingBlocks E file w =
     (case fmlookup (dirtyFiles w) (tailPointer E file) of
        None \<Rightarrow> w
      | Some df \<Rightarrow> w\<lparr>cfg := df_resetSyncingBlocksToDirty E df (cfg w)\<rparr>)"

text \<open>
  \<^verbatim>\<open>CleanupSyncState\<close> (lines 2723-2798), from line 2735 on, for an error that is not
  nil. The function returns nothing; the result is a panic, or nil.
\<close>

definition CleanupSyncState_body ::
  "'c Config \<Rightarrow> RootMetadata \<Rightarrow> path \<Rightarrow> BlockPointer list \<Rightarrow> fileSyncState \<Rightarrow> error option \<Rightarrow>
   'c folderBlockOps \<Rightarrow> error option \<times> 'c folderBlockOps" where
  "CleanupSyncState_body E md file blocksToRemove result err w =
     (let w1 = notifyErrListenersLocked E (tailPointer E file) err w in
      case (case fss_si result of
              None \<Rightarrow> (None, w1)
            | Some si \<Rightarrow> resetSyncInfo E md si w1) of
        (Some p, w2) \<Rightarrow> (Some p, w2)
      | (None, w2) \<Rightarrow>
         (if isRecoverableBlockError E err then
            (case cleanupRecoverable E md file blocksToRemove result w2 of
               (Some p, w3) \<Rightarrow> (Some p, w3)
             | (None, w3) \<Rightarrow> (None, resetSyncingBlocks E file w3))
          else (None, resetSyncingBlocks E file (cleanupUnrecoverable E file result w2))))"

text \<open>
  The whole function: the journal's \<^verbatim>\<open>dirtyOpEnd\<close> is deferred first (lines
  2727-2729), then a nil error returns at once.
\<close>

definition CleanupSyncState ::
  "'c Config \<Rightarrow> RootMetadata \<Rightarrow> path \<Rightarrow> BlockPointer list \<Rightarrow> fileSyncState \<Rightarrow> error option \<Rightarrow>
   'c folderBlockOps \<Rightarrow> error option \<times> 'c folderBlockOps" where
  "CleanupSyncState E md file blocksToRemove result err w =
     (case (if err = None then (None, w)
            else CleanupSyncState_body E md file blocksToRemove result err w) of
        (p, w1) \<Rightarrow>
          (p, if GetJournalServer E (cfg w)
              then w1\<lparr>cfg := journal_dirtyOpEnd E (fbo_id w1) (cfg w1)\<rparr> else w1))"

subsection \<open>Finishing a sync (lines 2802-2951)\<close>

text \<open>
  A deferred write is run with the key metadata and the new path of the file (the
  closures of lines 2024-2036 and 2246-2258): the bytes that the first attempt
  dirtied are taken off the \<^verbatim>\<open>dirtyFile\<close> of the old path, and the write or the
  truncate is done again.
\<close>

definition runDeferredWrite ::
  "'c Config \<Rightarrow> nat option \<Rightarrow> KeyMetadata \<Rightarrow> path \<Rightarrow> deferredWrite \<Rightarrow> 'c folderBlockOps \<Rightarrow>
   error option \<times> 'c folderBlockOps" where
  "runDeferredWrite E lState kmd f dw w =
     (case dw of
        DeferredWrite filePath newlyDirtiedChildBytes dataCopy off \<Rightarrow>
          (case getOrCreateDirtyFileLocked E filePath w of
             (df, w1) \<Rightarrow>
               (case writeDataLocked E lState kmd f dataCopy off
                       (w1\<lparr>cfg := df_updateNotYetSyncingBytes E df (- newlyDirtiedChildBytes)
                                    (cfg w1)\<rparr>) of
                  ((latestWrite, dirtyPtrs, n, err), w2) \<Rightarrow> (err, w2)))
      | DeferredTruncate filePath newlyDirtiedChildBytes sz \<Rightarrow>
          (case getOrCreateDirtyFileLocked E filePath w of
             (df, w1) \<Rightarrow>
               (case truncateLocked E lState kmd f sz
                       (w1\<lparr>cfg := df_updateNotYetSyncingBytes E df (- newlyDirtiedChildBytes)
                                    (cfg w1)\<rparr>) of
                  ((latestWrite, dirtyPtrs, n, err), w2) \<Rightarrow> (err, w2))))"

text \<open>
  The loops of lines 2882-2887 and 2911-2916: the pointers are deleted from the dirty
  block cache, up to the first error.
\<close>

fun deleteDirtyPtrs ::
  "'c Config \<Rightarrow> BlockPointer list \<Rightarrow> 'c folderBlockOps \<Rightarrow> error option \<times> 'c folderBlockOps"
  where
  "deleteDirtyPtrs E [] w = (None, w)"
| "deleteDirtyPtrs E (ptr # rest) w =
     (case dbc_Delete E (fbo_id w) ptr (fbo_branch w) (cfg w) of
        (Some err, c) \<Rightarrow> (Some err, w\<lparr>cfg := c\<rparr>)
      | (None, c) \<Rightarrow> deleteDirtyPtrs E rest (w\<lparr>cfg := c\<rparr>))"

text \<open>The loop of lines 2889-2896.\<close>

fun runDeferredWrites ::
  "'c Config \<Rightarrow> nat option \<Rightarrow> KeyMetadata \<Rightarrow> path \<Rightarrow> deferredWrite list \<Rightarrow>
   'c folderBlockOps \<Rightarrow> error option \<times> 'c folderBlockOps" where
  "runDeferredWrites E lState kmd newPath [] w = (None, w)"
| "runDeferredWrites E lState kmd newPath (dw # rest) w =
     (case runDeferredWrite E lState kmd newPath dw w of
        (Some err, w1) \<Rightarrow> (Some err, w1)
      | (None, w1) \<Rightarrow> runDeferredWrites E lState kmd newPath rest w1)"

text \<open>\<^verbatim>\<open>doDeferredWritesLocked\<close> (lines 2868-2898).\<close>

definition doDeferredWritesLocked ::
  "'c Config \<Rightarrow> nat option \<Rightarrow> KeyMetadata \<Rightarrow> path \<Rightarrow> path \<Rightarrow> 'c folderBlockOps \<Rightarrow>
   (bool \<times> error option) \<times> 'c folderBlockOps" where
  "doDeferredWritesLocked E lState kmd oldPath newPath w =
     (let ds = deferredOf w (tailRef E oldPath);
          stillDirty = (length (writes ds) \<noteq> 0);
          w1 = w\<lparr>deferred := fmdrop (tailRef E oldPath) (deferred w)\<rparr>
      in case deleteDirtyPtrs E (dirtyDeletes ds) w1 of
        (Some err, w2) \<Rightarrow> ((True, Some err), w2)
      | (None, w2) \<Rightarrow>
         (case runDeferredWrites E lState kmd newPath (writes ds) w2 of
            (Some err, w3) \<Rightarrow> ((True, Some err), w3)
          | (None, w3) \<Rightarrow> ((stillDirty, None), w3)))"

text \<open>
  \<^verbatim>\<open>cleanUpUnusedBlocks\<close> (lines 2802-2866), in four parts. The first is the loop of
  lines 2811-2825, which collects the pointers that the metadata refers to and panics
  on a zero pointer; an update is the pair of its \<^verbatim>\<open>Unref\<close> and its \<^verbatim>\<open>Ref\<close>.
\<close>

fun collectRefs :: "opData list \<Rightarrow> error + BlockPointer list" where
  "collectRefs [] = Inr []"
| "collectRefs (opd # ops) =
     (if zeroPtr \<in> set (op_Refs opd) then
        Inl (PanicError ''Unexpected zero ref ptr in a sync MD revision'')
      else if zeroPtr \<in> set (map snd (op_allUpdates opd)) then
        Inl (PanicError ''Unexpected zero update ref ptr in a sync MD revision'')
      else case collectRefs ops of
        Inl e \<Rightarrow> Inl e
      | Inr refs \<Rightarrow> Inr (op_Refs opd @ map snd (op_allUpdates opd) @ refs))"

text \<open>
  The loop of lines 2843-2859 over the block states of one old revision; it carries
  the pointers seen so far and the block states to clean up.
\<close>

fun failedBlocks ::
  "blockDeleteType \<Rightarrow> BlockPointer list \<Rightarrow> blockState list \<Rightarrow> BlockPointer list \<Rightarrow>
   blockState list \<Rightarrow> error + (BlockPointer list \<times> blockState list)" where
  "failedBlocks bdType refs [] blocksSeen failed = Inr (blocksSeen, failed)"
| "failedBlocks bdType refs (bs # rest) blocksSeen failed =
     (if blockPtr bs = zeroPtr then
        Inl (PanicError ''Unexpected zero block ptr in an old sync MD revision'')
      else if blockPtr bs \<in> set blocksSeen then
        failedBlocks bdType refs rest blocksSeen failed
      else if blockPtr bs \<in> set refs \<and> bdType = blockDeleteAlways then
        failedBlocks bdType refs rest (blockPtr bs # blocksSeen) failed
      else
        failedBlocks bdType refs rest (blockPtr bs # blocksSeen)
          (failed @ [\<lparr>blockPtr = blockPtr bs, bs_data = 0\<rparr>]))"

text \<open>
  The loop of lines 2836-2864 over the old revisions. Reading the block states of a
  nil block put state panics.
\<close>

fun cleanOldMDs ::
  "'c Config \<Rightarrow> RootMetadata \<Rightarrow> BlockPointer list \<Rightarrow> mdToCleanIfUnused list \<Rightarrow>
   BlockPointer list \<Rightarrow> 'c folderBlockOps \<Rightarrow> error option \<times> 'c folderBlockOps" where
  "cleanOldMDs E md refs [] blocksSeen w = (None, w)"
| "cleanOldMDs E md refs (oldMD # rest) blocksSeen w =
     (let bdType = (if md_MergedStatus (tc_md oldMD) \<noteq> md_MergedStatus md
                    then blockDeleteOnMDFail else blockDeleteAlways)
      in case tc_bps oldMD of
        None \<Rightarrow> (Some nilDeref, w)
      | Some b \<Rightarrow>
         (if \<not> b < length (bpsHeap w) then (Some nilDeref, w)
          else case failedBlocks bdType refs (bpsHeap w ! b) blocksSeen [] of
            Inl e \<Rightarrow> (Some e, w)
          | Inr (blocksSeen', failed) \<Rightarrow>
              cleanOldMDs E md refs rest blocksSeen'
                (if length failed > 0
                 then w\<lparr>cfg := fbm_cleanUpBlockState E (tc_md oldMD) failed bdType (cfg w)\<rparr>
                 else w)))"

text \<open>The function; \<^verbatim>\<open>syncState.si\<close> is dereferenced, so a nil pointer panics.\<close>

definition cleanUpUnusedBlocks ::
  "'c Config \<Rightarrow> RootMetadata \<Rightarrow> fileSyncState \<Rightarrow> 'c folderBlockOps \<Rightarrow>
   error option \<times> 'c folderBlockOps" where
  "cleanUpUnusedBlocks E md syncState w =
     (case fss_si syncState of
        None \<Rightarrow> (Some nilDeref, w)
      | Some si \<Rightarrow>
         (if \<not> si < length (syncInfos w) then (Some nilDeref, w)
          else
           (let toClean = toCleanIfUnused (syncInfos w ! si) in
            if length toClean = 0 then (None, w)
            else case collectRefs (md_Ops md) of
              Inl e \<Rightarrow> (Some e, w)
            | Inr refs \<Rightarrow> cleanOldMDs E md refs toClean [] w)))"

text \<open>
  \<^verbatim>\<open>FinishSyncLocked\<close> (lines 2903-2951). The errors of \<^verbatim>\<open>DeletePermanent\<close> are only
  logged. The results are \<^verbatim>\<open>stillDirty\<close> and the error; a panic is the error
  \<open>PanicError\<close>, and what stands beside it means nothing.
\<close>

definition FinishSyncLocked ::
  "'c Config \<Rightarrow> nat option \<Rightarrow> path \<Rightarrow> path \<Rightarrow> RootMetadata \<Rightarrow> fileSyncState \<Rightarrow>
   'c folderBlockOps \<Rightarrow> (bool \<times> error option) \<times> 'c folderBlockOps" where
  "FinishSyncLocked E lState oldPath newPath md syncState w =
     (case deleteDirtyPtrs E (fss_oldFileBlockPtrs syncState) w of
        (Some err, w1) \<Rightarrow> ((True, Some err), w1)
      | (None, w1) \<Rightarrow>
         (let w2 = w1\<lparr>cfg := fold (\<lambda>ptr c. snd (bc_DeletePermanent E (ID ptr) c))
                              (fss_newIndirectFileBlockPtrs syncState) (cfg w1)\<rparr>
          in case doDeferredWritesLocked E lState md oldPath newPath w2 of
            ((stillDirty, Some err), w3) \<Rightarrow> ((True, Some err), w3)
          | ((stillDirty, None), w3) \<Rightarrow>
             (case clearCacheInfoLocked E oldPath w3 of
                (Some err, w4) \<Rightarrow> ((True, Some err), w4)
              | (None, w4) \<Rightarrow>
                 (case cleanUpUnusedBlocks E md syncState w4 of
                    (Some err, w5) \<Rightarrow> ((True, Some err), w5)
                  | (None, w5) \<Rightarrow> ((stillDirty, None), w5)))))"

section \<open>Concrete configurations and states\<close>

text \<open>
  The theorems below are stated for every configuration. To show that their
  hypotheses can be met, each is applied once to a small concrete configuration, in
  which the collaborators' state is a list of the pointers that are dirty in the dirty
  block cache.
\<close>

record simpleCfg =
  dirtyBlocks :: "(BlockPointer \<times> BlockAddr) list"
  cleanBlocks :: "(BlockPointer \<times> BlockAddr) list"
  needsCopy :: "BlockPointer list"

definition simpleTailPointer :: "path \<Rightarrow> BlockPointer" where
  "simpleTailPointer p =
     (if p_path p = [] then zeroPtr else pn_BlockPointer (last (p_path p)))"

definition lookupBlock ::
  "(BlockPointer \<times> BlockAddr) list \<Rightarrow> BlockPointer \<Rightarrow> error + BlockAddr" where
  "lookupBlock m p = (case map_of m p of None \<Rightarrow> Inl (ExternalError 0) | Some a \<Rightarrow> Inr a)"

definition ptrB :: BlockPointer where
  "ptrB = \<lparr>ID = 9, KeyGen = 1, DataVer = 1, DirectType = DirectBlock, RefNonce = 0,
     Context = 0\<rparr>"

definition ptrA :: BlockPointer where
  "ptrA = \<lparr>ID = 1, KeyGen = 1, DataVer = 1, DirectType = DirectBlock, RefNonce = 0,
     Context = 0\<rparr>"

definition entryA :: DirEntry where
  "entryA = \<lparr>de_BlockInfo = \<lparr>bi_BlockPointer = ptrA, EncodedSize = 7\<rparr>, de_Type = File,
     de_Size = 3, de_SymPath = [], de_Mtime = 0, de_Ctime = 0\<rparr>"

definition infoB :: BlockInfo where
  "infoB = \<lparr>bi_BlockPointer = ptrB, EncodedSize = 5\<rparr>"

definition simpleConfig :: "simpleCfg Config" where
  "simpleConfig = \<lparr>
     ptr_IsValid = (\<lambda>p. ID p \<noteq> 0),
     tailPointer = simpleTailPointer,
     tailRef = (\<lambda>p. Ref (simpleTailPointer p)),
     path_isValid =
       (\<lambda>p. p_path p \<noteq> [] \<and> list_all (\<lambda>n. ID (pn_BlockPointer n) \<noteq> 0) (p_path p)),
     isValidForNotification = (\<lambda>p. False),
     dbc_Get = (\<lambda>c t p b. lookupBlock (dirtyBlocks c) p),
     dbc_IsDirty = (\<lambda>c t p b. map_of (dirtyBlocks c) p \<noteq> None),
     bc_Get = (\<lambda>c p. lookupBlock (cleanBlocks c) p),
     bc_GetWithPrefetch =
       (\<lambda>c p. case map_of (cleanBlocks c) p of None \<Rightarrow> Inl (ExternalError 0)
              | Some a \<Rightarrow> Inr (a, 0, TransientEntry)),
     prefetcher_ProcessBlockForPrefetch = (\<lambda>p a k l s c. c),
     checkDataVersion = (\<lambda>c p q. None),
     reporter_Notify = (\<lambda>p b c. c),
     bops_Get = (\<lambda>k p b l c. (Some (ExternalError 1), b, c)),
     df_blockNeedsCopy = (\<lambda>c d p. p \<in> set (needsCopy c)),
     df_finishSync = (\<lambda>d c. (None, c)),
     bops_GetEncodedSize =
       (\<lambda>c ctx k p. if ctx = ContextCancelled then Inl (ExternalError 2)
                   else if ID p = 9 then Inl (ExternalError 3)
                   else Inr (word_of_nat (ID p))),
     recoverableForRemoval = (\<lambda>e. e = ExternalError 3),
     recoverableBlockError = (\<lambda>e. e = ExternalError 4),
     parentPath = (\<lambda>p. p\<lparr>p_path := butlast (p_path p)\<rparr>),
     tailName = (\<lambda>p. if p_path p = [] then [] else pn_Name (last (p_path p))),
     hasValidParent = (\<lambda>p. 2 \<le> length (p_path p)),
     ChildPath =
       (\<lambda>p name ptr. p\<lparr>p_path := p_path p @ [\<lparr>pn_BlockPointer = ptr, pn_Name = name\<rparr>]\<rparr>),
     path_String = (\<lambda>p. concat (map (\<lambda>n. CHR ''/'' # pn_Name n) (p_path p))),
     filepath_Join = (\<lambda>a b. if a = [] then b else a @ CHR ''/'' # b),
     de_IsInitialized = (\<lambda>de. ID (de_BlockPointer de) \<noteq> 0),
     chargedToForTLF = (\<lambda>c k. Inr ''alice''),
     kbpki_GetCurrentSession = (\<lambda>c. Inr 0),
     kmd_IsWriter = (\<lambda>c k u. Inr True),
     clock_Now = (\<lambda>c. 1000),
     GetJournalServer = (\<lambda>c. False),
     journal_dirtyOpStart = (\<lambda>t c. c),
     journal_dirtyOpEnd = (\<lambda>t c. c),
     dbc_Put = (\<lambda>t p b a c. (None, c\<lparr>dirtyBlocks := (p, a) # dirtyBlocks c\<rparr>)),
     dbc_Delete =
       (\<lambda>t p b c. (None, c\<lparr>dirtyBlocks := filter (\<lambda>e. fst e \<noteq> p) (dirtyBlocks c)\<rparr>)),
     dbc_ShouldForceSync = (\<lambda>c t. False),
     forceSyncChan_trySend = (\<lambda>c. c),
     bc_DeletePermanent = (\<lambda>i c. (None, c)),
     fbm_cleanUpBlockState = (\<lambda>m b t c. c),
     newDirtyFile = (\<lambda>p c. (0, c)),
     df_setBlockDirty = (\<lambda>d p c. ((True, False), c)),
     df_updateNotYetSyncingBytes = (\<lambda>d n c. c),
     df_addDeferredNewBytes = (\<lambda>d n c. c),
     df_notifyErrListeners = (\<lambda>d e c. c),
     df_setBlockOrphaned = (\<lambda>d p b c. c),
     df_isBlockOrphaned = (\<lambda>c d p. False),
     df_resetSyncingBlocksToDirty = (\<lambda>d c. c),
     newSyncOp = (\<lambda>p c. (Inr 0, c)),
     op_addWrite = (\<lambda>h off len c. (\<lparr>wr_Off = off, wr_Len = len\<rparr>, c)),
     op_addTruncate = (\<lambda>h sz c. (\<lparr>wr_Off = sz, wr_Len = 0\<rparr>, c)),
     op_resetUpdateState = (\<lambda>h c. c),
     nc_Get = (\<lambda>c r. None),
     nc_IsUnlinked = (\<lambda>c n. False),
     nc_UnlinkedDirEntry = (\<lambda>c n. zeroDirEntry),
     nc_UpdateUnlinkedDirEntry = (\<lambda>n de c. c),
     nc_Unlink = (\<lambda>r p de c. (\<lambda>c. c, c)),
     nc_Move = (\<lambda>r n name c. (Inr None, c)),
     nc_AllNodes = (\<lambda>c. []),
     nc_PathFromNode = (\<lambda>c n. zeroPath),
     nc_UpdatePointer = (\<lambda>r p c. (None, c)),
     node_GetID = (\<lambda>n. n),
     retriever_Request = (\<lambda>k p b l c. c),
     prefetcher_CancelPrefetch = (\<lambda>i c. c),
     fd_getFileBlockAtOffset = (\<lambda>p ch k top off rt a. (([], top, -1, 0, None), a)),
     fd_write =
       (\<lambda>p ch k data off top de d a.
          ((de, [], [infoB], 3, 0, Some (ExternalError 5)), a)),
     fd_truncateExtend = (\<lambda>p ch k sz top ps de d a. ((de, [], None), a)),
     fd_truncateShrink =
       (\<lambda>p ch k sz top de a.
          ((de, [], [infoB], 2, Some (ExternalError 6)), a)),
     fd_findIPtrsAndClearSize = (\<lambda>p ch k top ps a. (([], None), a)),
     dd_lookup =
       (\<lambda>p ch k name a. if name = ''a'' then ((entryA, None), a)
                        else ((zeroDirEntry, Some (NoSuchNameError name)), a)),
     dd_addEntry = (\<lambda>p ch k name de a. (([], None), a)),
     dd_removeEntry = (\<lambda>p ch k name a. (([], None), a)),
     dd_updateEntry = (\<lambda>p ch k name de a. (([], None), a)),
     dd_getEntries = (\<lambda>p ch k a. (([], None), a))
   \<rparr>"

definition masterBranch :: FolderBranch where
  "masterBranch = \<lparr>Tlf = 1, Branch = ''master''\<rparr>"

definition ptrR :: BlockPointer where
  "ptrR = \<lparr>ID = 7, KeyGen = 1, DataVer = 1, DirectType = DirectBlock, RefNonce = 0,
     Context = 0\<rparr>"

text \<open>The file \<^verbatim>\<open>a\<close> in the root directory.\<close>

definition fileA :: path where
  "fileA = \<lparr>p_FolderBranch = masterBranch,
     p_path = [\<lparr>pn_BlockPointer = ptrR, pn_Name = ''root''\<rparr>,
               \<lparr>pn_BlockPointer = ptrA, pn_Name = ''a''\<rparr>]\<rparr>"

definition blockA :: Block where
  "blockA = \<lparr>b_Kind = FileBlockKind, b_EncodedSize = 7, b_IsInd = False,
     b_Contents = [1, 2, 3], b_Payload = 0\<rparr>"

definition siA :: syncInfo where
  "siA = \<lparr>oldInfo = \<lparr>bi_BlockPointer = ptrA, EncodedSize = 7\<rparr>, si_op = Some 0, unrefs = [],
     si_bps = None, refBytes = 0, unrefBytes = 0, toCleanIfUnused = []\<rparr>"

definition kmdA :: KeyMetadata where
  "kmdA = \<lparr>md_Handle = 0, md_MergedStatus = Merged, md_Dir = zeroDirEntry, md_Ops = []\<rparr>"

definition emptyEngine :: "simpleCfg folderBlockOps" where
  "emptyEngine = \<lparr>cfg = \<lparr>dirtyBlocks = [], cleanBlocks = [], needsCopy = []\<rparr>,
     heap = [], syncInfos = [], bpsHeap = [], errNotifications = [],
     folderBranch = masterBranch, dirtyFiles = fmempty,
     unrefCache = fmempty, dirtyDirs = fmempty, dirtyRootDirEntry = None, chargedTo = [],
     deferred = fmempty, doDeferWrite = False, nodeCache = Some 0\<rparr>"

text \<open>The file \<open>fileA\<close> after a write: its block is dirty and it has a sync info.\<close>

definition dirtyEngine :: "simpleCfg folderBlockOps" where
  "dirtyEngine = emptyEngine\<lparr>
     cfg := \<lparr>dirtyBlocks = [(ptrA, 0)], cleanBlocks = [], needsCopy = []\<rparr>,
     heap := [blockA], syncInfos := [siA], dirtyFiles := fmupd ptrA 0 fmempty,
     unrefCache := fmupd (Ref ptrA) 0 fmempty\<rparr>"

text \<open>The same once the engine knows whom to charge.\<close>

definition chargedEngine :: "simpleCfg folderBlockOps" where
  "chargedEngine = dirtyEngine\<lparr>chargedTo := ''alice''\<rparr>"

text \<open>The same while the block is being synced and still needs a copy.\<close>

definition syncingEngine :: "simpleCfg folderBlockOps" where
  "syncingEngine = dirtyEngine\<lparr>
     cfg := \<lparr>dirtyBlocks = [(ptrA, 0)], cleanBlocks = [], needsCopy = [ptrA]\<rparr>\<rparr>"

text \<open>A node cache that holds the root directory and the file \<open>fileA\<close>.\<close>

definition rootDir :: path where
  "rootDir = \<lparr>p_FolderBranch = masterBranch,
     p_path = [\<lparr>pn_BlockPointer = ptrR, pn_Name = ''root''\<rparr>]\<rparr>"

definition nodesConfig :: "simpleCfg Config" where
  "nodesConfig = simpleConfig\<lparr>
     nc_AllNodes := (\<lambda>c. [0, 1]),
     nc_PathFromNode := (\<lambda>c n. if n = Some 0 then rootDir else if n = Some 1 then fileA
                                else zeroPath),
     nc_Get := (\<lambda>c r. if r = Ref ptrR then Some 0 else if r = Ref ptrA then Some 1 else None),
     path_String :=
       (\<lambda>p. fold (\<lambda>n prev. filepath_Join simpleConfig prev (pn_Name n)) (p_path p) []),
     dd_getEntries := (\<lambda>p ch k a. (([(''a'', entryA)], None), a))\<rparr>"

definition kmdR :: RootMetadata where
  "kmdR = kmdA\<lparr>md_Dir := zeroDirEntry\<lparr>de_BlockInfo := \<lparr>bi_BlockPointer = ptrR, EncodedSize = 1\<rparr>,
     de_Type := Dir\<rparr>\<rparr>"

text \<open>The sync state of a sync that did nothing yet.\<close>

definition zeroFileSyncState :: fileSyncState where
  "zeroFileSyncState = \<lparr>fss_fblock = None, fss_savedFblock = None,
     fss_redirtyOnRecoverableError = [], fss_si = None, fss_savedSi = None,
     fss_oldFileBlockPtrs = [], fss_newIndirectFileBlockPtrs = []\<rparr>"

text \<open>
  A dirty block cache that cannot delete, and a sync state with one old block pointer;
  the file \<open>fileA\<close> with one truncate deferred, to the length it has.
\<close>

definition failingConfig :: "simpleCfg Config" where
  "failingConfig = simpleConfig\<lparr>dbc_Delete := (\<lambda>t p b c. (Some (ExternalError 8), c))\<rparr>"

definition oldPtrSyncState :: fileSyncState where
  "oldPtrSyncState = zeroFileSyncState\<lparr>fss_oldFileBlockPtrs := [ptrA]\<rparr>"

definition siSyncState :: fileSyncState where
  "siSyncState = zeroFileSyncState\<lparr>fss_si := Some 0\<rparr>"

definition deferringEngine :: "simpleCfg folderBlockOps" where
  "deferringEngine = chargedEngine\<lparr>deferred :=
     fmupd (Ref ptrA)
       \<lparr>writes = [DeferredTruncate fileA 0 3], dirtyDeletes = [], waitBytes = 0\<rparr> fmempty\<rparr>"

section \<open>Properties\<close>

lemma len_map_0: "len_map m = 0 \<longleftrightarrow> m = fmempty"
  unfolding len_map_def
  by (metis fcard_fempty fcard_0_eq fmdom_empty fmrestrict_fset_dom fmrestrict_fset_null)

text \<open>
  C9. \<^verbatim>\<open>GetState\<close> returns \<^verbatim>\<open>cleanState\<close> exactly when the maps \<^verbatim>\<open>dirtyFiles\<close> and
  \<^verbatim>\<open>dirtyDirs\<close> are both empty and \<^verbatim>\<open>dirtyRootDirEntry\<close> is nil; in every other
  state it returns \<^verbatim>\<open>dirtyState\<close>.
\<close>

theorem GetState_clean_iff:
  "(GetState w = cleanState) =
     (dirtyFiles w = fmempty \<and> dirtyDirs w = fmempty \<and> dirtyRootDirEntry w = None) \<and>
   (GetState w = dirtyState) =
     (\<not> (dirtyFiles w = fmempty \<and> dirtyDirs w = fmempty \<and> dirtyRootDirEntry w = None))"
  by (simp add: GetState_def len_map_0)

subsection \<open>The fetch path for writing\<close>

lemma getFileBlockHelperLocked_Inr:
  assumes "getFileBlockHelperLocked E lState kmd ptr branch p rtype w = (Inr a, w1)"
  shows "isFileBlock (heap w1) a"
  using assms
  by (auto simp: getFileBlockHelperLocked_def split: if_splits prod.splits sum.splits)

text \<open>
  C1. A successful \<^verbatim>\<open>getFileBlockLocked\<close> with \<^verbatim>\<open>blockWrite\<close> first fetches the cached
  block \<open>cached\<close> through \<^verbatim>\<open>getFileBlockHelperLocked\<close>. It returns a deep copy of it (a
  block at a fresh address with the same contents, everything else unchanged) exactly
  when the block was not dirty in the dirty block cache, or \<^verbatim>\<open>dirtyFiles\<close> has a
  \<^verbatim>\<open>dirtyFile\<close> for the file's tail pointer whose \<^verbatim>\<open>blockNeedsCopy(ptr)\<close> is true;
  otherwise it returns the cached block itself. The flag it returns is whether the
  block was dirty.
\<close>

theorem getFileBlockLocked_write_copies:
  assumes "getFileBlockLocked E lState kmd ptr file blockWrite w =
             (Inr (fblock, wasDirty), w')"
  shows "\<exists>cached w1.
     getFileBlockHelperLocked E lState kmd ptr (p_Branch file) file blockWrite w =
       (Inr cached, w1) \<and>
     wasDirty = dbc_IsDirty E (cfg w1) (fbo_id w1) ptr (p_Branch file) \<and>
     (if \<not> wasDirty \<or>
         (\<exists>df. fmlookup (dirtyFiles w1) (tailPointer E file) = Some df \<and>
               df_blockNeedsCopy E (cfg w1) df ptr)
      then cached < length (heap w1) \<and> fblock = length (heap w1) \<and>
           w' = w1\<lparr>heap := heap w1 @ [heap w1 ! cached]\<rparr>
      else fblock = cached \<and> w' = w1)"
proof -
  obtain r w1 where
    h: "getFileBlockHelperLocked E lState kmd ptr (p_Branch file) file blockWrite w = (r, w1)"
    by (cases "getFileBlockHelperLocked E lState kmd ptr (p_Branch file) file blockWrite w")
  with assms obtain cached where r: "r = Inr cached"
    by (cases r) (auto simp: getFileBlockLocked_def split: if_splits)
  have fb: "cached < length (heap w1)"
    using getFileBlockHelperLocked_Inr [OF h [unfolded r]] by (simp add: isFileBlock_def)
  show ?thesis
    using assms h r fb
    by (auto simp: getFileBlockLocked_def DeepCopy_def Let_def split: if_splits option.splits)
qed

lemma syncingEngine_helper:
  "getFileBlockHelperLocked simpleConfig (Some 0) kmdA ptrA ''master'' fileA blockWrite
     syncingEngine = (Inr 0, syncingEngine)"
  by (simp add: getFileBlockHelperLocked_def getBlockHelperLocked_def simpleConfig_def
      ptrA_def lookupBlock_def syncingEngine_def dirtyEngine_def emptyEngine_def
      isFileBlock_def blockA_def)

lemma syncingEngine_write:
  "getFileBlockLocked simpleConfig (Some 0) kmdA ptrA fileA blockWrite syncingEngine =
     (Inr (1, True), syncingEngine\<lparr>heap := [blockA, blockA]\<rparr>)"
  by (simp add: getFileBlockLocked_def getFileBlockHelperLocked_def getBlockHelperLocked_def
      simpleConfig_def ptrA_def lookupBlock_def syncingEngine_def dirtyEngine_def
      emptyEngine_def isFileBlock_def blockA_def p_Branch_def fileA_def masterBranch_def
      DeepCopy_def simpleTailPointer_def fbo_id_def)

theorem getFileBlockLocked_write_copies_witness:
  "getFileBlockLocked simpleConfig (Some 0) kmdA ptrA fileA blockWrite syncingEngine =
     (Inr (1, True), syncingEngine\<lparr>heap := [blockA, blockA]\<rparr>) \<and>
   (\<exists>cached w1.
     getFileBlockHelperLocked simpleConfig (Some 0) kmdA ptrA (p_Branch fileA) fileA
       blockWrite syncingEngine = (Inr cached, w1) \<and>
     cached = 0 \<and> w1 = syncingEngine \<and>
     df_blockNeedsCopy simpleConfig (cfg w1) 0 ptrA \<and> 1 = length (heap w1))"
proof -
  from getFileBlockLocked_write_copies [OF syncingEngine_write]
  obtain cached w1 where
    h: "getFileBlockHelperLocked simpleConfig (Some 0) kmdA ptrA (p_Branch fileA) fileA
          blockWrite syncingEngine = (Inr cached, w1)"
    by blast
  have br: "p_Branch fileA = ''master''"
    by (simp add: p_Branch_def fileA_def masterBranch_def)
  from h have "cached = 0 \<and> w1 = syncingEngine"
    by (simp add: br syncingEngine_helper)
  moreover have "df_blockNeedsCopy simpleConfig (cfg syncingEngine) 0 ptrA \<and>
      1 = length (heap syncingEngine)"
    by (simp add: simpleConfig_def syncingEngine_def dirtyEngine_def)
  ultimately show ?thesis using h syncingEngine_write by auto
qed

subsection \<open>Clearing the cached information of a file\<close>

lemma clearCacheInfoLocked_ok:
  assumes "clearCacheInfoLocked E p w = (None, w')"
  shows "fmlookup (dirtyFiles w') (tailPointer E p) = None"
    and "unrefCache w' = fmdrop (tailRef E p) (unrefCache w)"
    and "fbo_id w' = fbo_id w"
  using assms
  by (auto simp: clearCacheInfoLocked_def Let_def fbo_id_def split: option.splits prod.splits)

lemma dirtyEngine_clear:
  "ClearCacheInfo simpleConfig fileA dirtyEngine =
     (None, dirtyEngine\<lparr>unrefCache := fmempty, dirtyFiles := fmempty\<rparr>)"
  by (simp add: ClearCacheInfo_def clearCacheInfoLocked_def simpleConfig_def fileA_def
      dirtyEngine_def emptyEngine_def simpleTailPointer_def Let_def fmdrop_fmupd_same)

text \<open>
  C2, as stated, fails: \<^verbatim>\<open>ClearCacheInfo\<close> clears the engine's two maps and leaves the
  dirty block cache alone, and \<^verbatim>\<open>IsDirty\<close> asks the dirty block cache first. For the
  file \<open>fileA\<close> whose block is still in the dirty block cache, \<^verbatim>\<open>ClearCacheInfo\<close>
  succeeds and \<^verbatim>\<open>IsDirty\<close> returns true afterwards.
\<close>

theorem ClearCacheInfo_IsDirty_counterexample:
  "fst (ClearCacheInfo simpleConfig fileA dirtyEngine) = None \<and>
   IsDirty simpleConfig fileA (snd (ClearCacheInfo simpleConfig fileA dirtyEngine)) = True"
  by (simp add: dirtyEngine_clear)
     (simp add: IsDirty_def simpleConfig_def fileA_def dirtyEngine_def emptyEngine_def
       simpleTailPointer_def fbo_id_def)

text \<open>
  C2, amended. After a successful \<^verbatim>\<open>ClearCacheInfo(p)\<close>, \<^verbatim>\<open>dirtyFiles\<close> has no entry for
  \<^verbatim>\<open>p.tailPointer()\<close> and \<^verbatim>\<open>unrefCache\<close> none for \<^verbatim>\<open>p.tailRef()\<close>; no list that
  \<^verbatim>\<open>GetDirtyFileBlockRefs\<close> can return contains \<^verbatim>\<open>p.tailRef()\<close>; and \<^verbatim>\<open>IsDirty(p)\<close>
  returns what the dirty block cache's \<^verbatim>\<open>IsDirty\<close> reports for the tail pointer.
\<close>

theorem ClearCacheInfo_clears:
  assumes "ClearCacheInfo E p w = (None, w')"
  shows "fmlookup (dirtyFiles w') (tailPointer E p) = None \<and>
         fmlookup (unrefCache w') (tailRef E p) = None \<and>
         (\<forall>refs. GetDirtyFileBlockRefs w' refs \<longrightarrow> tailRef E p \<notin> set refs) \<and>
         IsDirty E p w' = dbc_IsDirty E (cfg w') (fbo_id w') (tailPointer E p) (p_Branch p)"
proof -
  from assms have c: "clearCacheInfoLocked E p w = (None, w')"
    by (simp add: ClearCacheInfo_def)
  have df: "fmlookup (dirtyFiles w') (tailPointer E p) = None"
    by (rule clearCacheInfoLocked_ok(1) [OF c])
  have uc: "fmlookup (unrefCache w') (tailRef E p) = None"
    by (simp add: clearCacheInfoLocked_ok(2) [OF c])
  have refs: "\<forall>refs. GetDirtyFileBlockRefs w' refs \<longrightarrow> tailRef E p \<notin> set refs"
  proof (intro allI impI)
    fix refs
    assume "GetDirtyFileBlockRefs w' refs"
    then have "fset_of_list refs = fmdom (unrefCache w')"
      by (simp add: GetDirtyFileBlockRefs_def)
    moreover have "tailRef E p |\<notin>| fmdom (unrefCache w')"
      using uc by (simp add: fmdom_notI)
    ultimately show "tailRef E p \<notin> set refs"
      by (metis fset_of_list_elem)
  qed
  show ?thesis using df uc refs by (simp add: IsDirty_def)
qed

theorem ClearCacheInfo_clears_witness:
  "ClearCacheInfo simpleConfig fileA dirtyEngine =
     (None, dirtyEngine\<lparr>unrefCache := fmempty, dirtyFiles := fmempty\<rparr>) \<and>
   fmlookup (dirtyFiles (dirtyEngine\<lparr>unrefCache := fmempty, dirtyFiles := fmempty\<rparr>))
     (tailPointer simpleConfig fileA) = None \<and>
   GetDirtyFileBlockRefs (dirtyEngine\<lparr>unrefCache := fmempty, dirtyFiles := fmempty\<rparr>) [] \<and>
   IsDirty simpleConfig fileA (dirtyEngine\<lparr>unrefCache := fmempty, dirtyFiles := fmempty\<rparr>) =
     dbc_IsDirty simpleConfig (cfg dirtyEngine) 1 ptrA ''master''"
proof -
  note t = ClearCacheInfo_clears [OF dirtyEngine_clear]
  have g: "GetDirtyFileBlockRefs
      (dirtyEngine\<lparr>unrefCache := fmempty, dirtyFiles := fmempty\<rparr>) []"
    by (simp add: GetDirtyFileBlockRefs_def)
  have tp: "tailPointer simpleConfig fileA = ptrA"
    by (simp add: simpleConfig_def fileA_def simpleTailPointer_def)
  have id: "fbo_id (dirtyEngine\<lparr>unrefCache := fmempty, dirtyFiles := fmempty\<rparr>) = 1"
    by (simp add: fbo_id_def dirtyEngine_def emptyEngine_def masterBranch_def)
  have br: "p_Branch fileA = ''master''"
    by (simp add: p_Branch_def fileA_def masterBranch_def)
  from t have "IsDirty simpleConfig fileA
      (dirtyEngine\<lparr>unrefCache := fmempty, dirtyFiles := fmempty\<rparr>) =
     dbc_IsDirty simpleConfig (cfg dirtyEngine) 1 ptrA ''master''"
    by (simp only: tp id br) simp
  with t g dirtyEngine_clear show ?thesis by simp
qed

subsection \<open>The sum of the encoded sizes\<close>

lemma sumSizes_sum_list: "sumSizes acc xs = acc + sum_list (map ucast xs)"
  by (induction xs arbitrary: acc) (simp_all add: add.assoc)

lemma sum_list_map_update:
  fixes f :: "'a \<Rightarrow> 64 word"
  shows "i < length xs \<Longrightarrow>
    sum_list (map f (xs[i := x])) = sum_list (map f xs) - f (xs ! i) + f x"
proof (induction xs arbitrary: i)
  case Nil
  then show ?case by simp
next
  case (Cons a xs)
  then show ?case by (cases i) simp_all
qed

lemma encodedSizesSum_Cons:
  "encodedSizesSum E ignore fetch (q # qs) =
     encodedSizesSum E ignore fetch [q] + encodedSizesSum E ignore fetch qs"
  by (simp add: encodedSizesSum_def)

lemma set_update_cases:
  "y \<in> set (xs[i := x]) \<Longrightarrow> y = x \<or> y \<in> set xs"
  by (meson insertE set_update_subset_insert subsetD)

lemma in_set_update_other:
  "y \<in> set xs \<Longrightarrow> i < length xs \<Longrightarrow> y \<noteq> xs ! i \<Longrightarrow> y \<in> set (xs[i := x])"
  by (metis in_set_conv_nth length_list_update nth_list_update_neq)

lemma poolInv_start:
  "poolInv E ignore fetch ctx ptrs (startPool ctx ptrs)"
  by (auto simp: poolInv_def startPool_def Let_def heldSum_def numBlockSizeWorkersMax_def
      sum_list_replicate)

lemma holding_kept:
  "Holding q \<in> set ws \<Longrightarrow> i < length ws \<Longrightarrow> ws ! i = Holding ptr \<Longrightarrow> q \<noteq> ptr \<Longrightarrow>
   Holding q \<in> set (ws[i := x])"
  by (rule in_set_update_other) auto

lemma holding_kept_idle:
  "Holding q \<in> set ws \<Longrightarrow> i < length ws \<Longrightarrow> ws ! i = Idle \<Longrightarrow>
   Holding q \<in> set (ws[i := x])"
  by (rule in_set_update_other) auto

lemma poolInv_step:
  assumes inv: "poolInv E ignore (fetchSize E ctx kmd branch w) ctx ptrs p"
  shows "poolInv E ignore (fetchSize E ctx kmd branch w) ctx ptrs
           (workerStep E kmd ignore branch w i p)"
proof (cases "i < length (workers p)")
  case False
  then show ?thesis using inv by (simp add: workerStep_def)
next
  case i: True
  show ?thesis
  proof (cases "workers p ! i")
    case Idle
    show ?thesis
    proof (cases "ptrCh p")
      case Nil
      then show ?thesis
        using inv i Idle
        by (auto simp: workerStep_def poolInv_def sum_list_map_update heldSum_def
            dest!: set_update_cases intro: holding_kept_idle)
    next
      case (Cons ptr rest)
      then show ?thesis
        using inv i Idle
        by (auto simp: workerStep_def poolInv_def sum_list_map_update heldSum_def
            encodedSizesSum_Cons [of _ _ _ ptr rest] add.assoc set_update_memI
            dest!: set_update_cases intro: holding_kept_idle)
    qed
  next
    case (Holding ptr)
    show ?thesis
    proof (cases "firstErr p")
      case (Some e0)
      then show ?thesis
        using inv i Holding
        by (auto simp: workerStep_def poolInv_def isRecoverableBlockErrorForRemoval_def
            split: sum.splits dest!: set_update_cases)
    next
      case None
      with inv have ctx: "groupCtx p = ctx" by (simp add: poolInv_def)
      show ?thesis
      proof (cases "fetchSize E ctx kmd branch w ptr")
        case (Inl err)
        show ?thesis
        proof (cases "recoverableForRemoval E err \<and> ignoreLookup ignore ptr")
          case True
          then have ex: "excludedPtr E ignore (fetchSize E ctx kmd branch w) ptr"
            by (simp add: excludedPtr_def Inl)
          then have ne: "\<And>q. \<not> fetchedOrExcluded E ignore (fetchSize E ctx kmd branch w) q
              \<Longrightarrow> q \<noteq> ptr"
            by (auto simp: fetchedOrExcluded_def)
          show ?thesis
            using inv i Holding None ctx Inl True ex
            by (auto simp: workerStep_def poolInv_def sum_list_map_update heldSum_def
                isRecoverableBlockErrorForRemoval_def fetchSize_def [symmetric]
                encodedSizesSum_def
                dest!: set_update_cases intro: holding_kept [OF _ _ _ ne])
        next
          case False
          then show ?thesis
            using inv i Holding None ctx Inl
            by (auto simp: workerStep_def poolInv_def isRecoverableBlockErrorForRemoval_def
                fetchSize_def [symmetric] dest!: set_update_cases)
        qed
      next
        case (Inr sz)
        then have nex: "\<not> excludedPtr E ignore (fetchSize E ctx kmd branch w) ptr"
          by (simp add: excludedPtr_def)
        from Inr have ne: "\<And>q. \<not> fetchedOrExcluded E ignore (fetchSize E ctx kmd branch w) q
              \<Longrightarrow> q \<noteq> ptr"
          by (auto simp: fetchedOrExcluded_def)
        show ?thesis
          using inv i Holding None ctx Inr nex
          by (auto simp: workerStep_def poolInv_def sum_list_map_update heldSum_def
              isRecoverableBlockErrorForRemoval_def fetchSize_def [symmetric]
              encodedSizesSum_def encodedSizeOf_def sumSizes_sum_list
              dest!: set_update_cases intro: holding_kept [OF _ _ _ ne])
      qed
    qed
  next
    case (Returned e)
    then show ?thesis using inv i by (simp add: workerStep_def)
  qed
qed

lemma poolInv_run:
  "poolInv E ignore (fetchSize E ctx kmd branch w) ctx ptrs p \<Longrightarrow>
   poolInv E ignore (fetchSize E ctx kmd branch w) ctx ptrs
     (runPool E kmd ignore branch w sched p)"
  by (induction sched arbitrary: p) (simp_all add: poolInv_step)

lemma workerStep_length:
  "length (workers (workerStep E kmd ignore branch w i p)) = length (workers p)"
  by (simp add: workerStep_def split: workerState.splits list.splits sum.splits)

lemma runPool_length:
  "length (workers (runPool E kmd ignore branch w sched p)) = length (workers p)"
  by (induction sched arbitrary: p) (simp_all add: workerStep_length)

lemma heldSum_returned:
  "list_all isReturned ws \<Longrightarrow> sum_list (map (heldSum E ignore fetch) ws) = 0"
  by (induction ws) (auto simp: isReturned_def heldSum_def split: workerState.splits)

lemma returned_not_holding:
  "list_all isReturned ws \<Longrightarrow> Holding q \<notin> set ws"
  by (auto simp: list_all_iff isReturned_def)

lemma returned_cases:
  "list_all isReturned ws \<Longrightarrow> \<forall>e. Returned (Some e) \<notin> set ws \<Longrightarrow>
   Returned None \<in> set ws \<or> ws = []"
proof (cases ws)
  case Nil
  then show ?thesis by simp
next
  case (Cons a list)
  assume r: "list_all isReturned ws" and n: "\<forall>e. Returned (Some e) \<notin> set ws"
  from r Cons obtain x where a: "a = Returned x"
    by (cases a) (auto simp: isReturned_def)
  with n Cons have "x = None" by (cases x) auto
  with a Cons show ?thesis by simp
qed

text \<open>
  C4. Whatever the order in which the workers run: when
  \<^verbatim>\<open>GetCleanEncodedBlocksSizeSum(ptrs, ignore)\<close> returns without an error, the value is
  the sum (in \<^verbatim>\<open>uint64\<close>) of the encoded sizes of the blocks of all pointers in \<open>ptrs\<close>
  but those that are in the ignore set and whose fetch failed with an error that is
  recoverable for removal; the fetch of every other pointer succeeded; and the number
  of workers is \<open>min 50 (length ptrs)\<close>, so at most 50.
\<close>

theorem GetCleanEncodedBlocksSizeSum_sum:
  assumes "GetCleanEncodedBlocksSizeSum E ctx kmd ptrs ignore branch sched w = Some (Inr s)"
  shows "s = encodedSizesSum E ignore (fetchSize E ctx kmd branch w) ptrs \<and>
         (\<forall>ptr \<in> set ptrs. excludedPtr E ignore (fetchSize E ctx kmd branch w) ptr \<or>
              (\<exists>sz. fetchSize E ctx kmd branch w ptr = Inr sz)) \<and>
         length (workers (runPool E kmd ignore branch w sched (startPool ctx ptrs))) =
           min numBlockSizeWorkersMax (length ptrs) \<and>
         length (workers (runPool E kmd ignore branch w sched (startPool ctx ptrs))) \<le> 50"
proof -
  let ?f = "fetchSize E ctx kmd branch w"
  let ?p = "runPool E kmd ignore branch w sched (startPool ctx ptrs)"
  have inv: "poolInv E ignore ?f ctx ptrs ?p"
    by (rule poolInv_run [OF poolInv_start])
  from assms have ret: "list_all isReturned (workers ?p)"
    and noerr: "firstErr ?p = None"
    and s: "s = sumSizes 0 (sumCh ?p)"
    by (auto simp: GetCleanEncodedBlocksSizeSum_def Let_def split: if_splits option.splits)
  from inv noerr have nosome: "\<forall>e. Returned (Some e) \<notin> set (workers ?p)"
    by (auto simp: poolInv_def)
  from returned_cases [OF ret nosome] inv have empty: "ptrCh ?p = []"
    by (auto simp: poolInv_def)
  from inv noerr have
    sum: "sumSizes 0 (sumCh ?p) + sum_list (map (heldSum E ignore ?f) (workers ?p)) +
           encodedSizesSum E ignore ?f (ptrCh ?p) = encodedSizesSum E ignore ?f ptrs"
    and all: "\<forall>q \<in> set ptrs. q \<in> set (ptrCh ?p) \<or> Holding q \<in> set (workers ?p) \<or>
             fetchedOrExcluded E ignore ?f q"
    by (simp_all add: poolInv_def)
  have 1: "s = encodedSizesSum E ignore ?f ptrs"
    using sum s empty heldSum_returned [OF ret, of E ignore ?f]
    by (simp add: encodedSizesSum_def)
  have 2: "\<forall>ptr \<in> set ptrs. excludedPtr E ignore ?f ptr \<or> (\<exists>sz. ?f ptr = Inr sz)"
    using all empty returned_not_holding [OF ret]
    by (auto simp: fetchedOrExcluded_def)
  have 3: "length (workers ?p) = min numBlockSizeWorkersMax (length ptrs)"
    by (simp add: runPool_length startPool_def Let_def min_def)
  have 4: "length (workers ?p) \<le> 50"
    by (simp add: 3 numBlockSizeWorkersMax_def)
  from 1 2 3 4 show ?thesis by blast
qed

lemma fetch_A: "fetchSize simpleConfig ContextLive kmdA ''master'' emptyEngine ptrA = Inr 1"
  by (simp add: fetchSize_def getCleanEncodedBlockSizeLocked_def simpleConfig_def ptrA_def
      lookupBlock_def emptyEngine_def)

lemma fetch_B: "fetchSize simpleConfig ContextLive kmdA ''master'' emptyEngine ptrB =
    Inl (ExternalError 3)"
  by (simp add: fetchSize_def getCleanEncodedBlockSizeLocked_def simpleConfig_def ptrB_def
      lookupBlock_def emptyEngine_def)

lemma recov_3: "recoverableForRemoval simpleConfig (ExternalError 3)"
  by (simp add: simpleConfig_def)

lemmas pool_eval_simps = GetCleanEncodedBlocksSizeSum_def startPool_def numBlockSizeWorkersMax_def
      workerStep_def fetch_A fetch_B fetchSize_def [symmetric] isReturned_def
      isRecoverableBlockErrorForRemoval_def ignoreLookup_def recov_3

lemma sizeSum_eval:
  "GetCleanEncodedBlocksSizeSum simpleConfig ContextLive kmdA [ptrB, ptrA]
     (fmupd ptrB True fmempty) ''master'' [0, Suc 0, 0, Suc 0, 0, Suc 0] emptyEngine =
   Some (Inr 1)"
  by (simp add: pool_eval_simps)

theorem GetCleanEncodedBlocksSizeSum_sum_witness:
  "GetCleanEncodedBlocksSizeSum simpleConfig ContextLive kmdA [ptrB, ptrA]
     (fmupd ptrB True fmempty) ''master'' [0, Suc 0, 0, Suc 0, 0, Suc 0] emptyEngine =
   Some (Inr 1) \<and>
   encodedSizesSum simpleConfig (fmupd ptrB True fmempty)
     (fetchSize simpleConfig ContextLive kmdA ''master'' emptyEngine) [ptrB, ptrA] = 1 \<and>
   excludedPtr simpleConfig (fmupd ptrB True fmempty)
     (fetchSize simpleConfig ContextLive kmdA ''master'' emptyEngine) ptrB"
proof -
  note t = GetCleanEncodedBlocksSizeSum_sum [OF sizeSum_eval]
  have e: "excludedPtr simpleConfig (fmupd ptrB True fmempty)
     (fetchSize simpleConfig ContextLive kmdA ''master'' emptyEngine) ptrB"
    by (simp add: excludedPtr_def fetch_B ignoreLookup_def recov_3)
  from t have "1 = encodedSizesSum simpleConfig (fmupd ptrB True fmempty)
     (fetchSize simpleConfig ContextLive kmdA ''master'' emptyEngine) [ptrB, ptrA]"
    by (rule conjunct1)
  with e sizeSum_eval show ?thesis by (simp only: simp_thms)
qed

subsection \<open>Renaming an entry onto itself\<close>

text \<open>
  C8. When the tail pointer of the new parent equals that of the old parent and the
  new name equals the old name, \<^verbatim>\<open>RenameDirEntryInCache\<close> returns a nil undo function
  and a nil error, and the whole state (the engine's fields and the state of every
  collaborator, so the dirty directories and files, the node cache and the directory
  blocks) is as before.
\<close>

theorem RenameDirEntryInCache_noop:
  assumes "tailPointer E newParent = tailPointer E oldParent" and "newName = oldName"
  shows "RenameDirEntryInCache E kmd oldParent oldName newParent newName newDe replacedDe w =
           (Inr None, w)"
  using assms by (simp add: RenameDirEntryInCache_def)

theorem RenameDirEntryInCache_noop_witness:
  "tailPointer simpleConfig fileA = tailPointer simpleConfig fileA \<and>
   RenameDirEntryInCache simpleConfig kmdA fileA ''x'' fileA ''x'' zeroDirEntry zeroDirEntry
     dirtyEngine = (Inr None, dirtyEngine)"
  using RenameDirEntryInCache_noop [of simpleConfig fileA fileA "''x''" "''x''" kmdA
      zeroDirEntry zeroDirEntry dirtyEngine]
  by simp

subsection \<open>Unrefs are recorded before the adapter's error is checked\<close>

text \<open>Frame: what leaves the sync infos and \<^verbatim>\<open>unrefCache\<close> alone.\<close>

lemma runAdapter_sync:
  "runAdapter f w = (r, w') \<Longrightarrow> syncInfos w' = syncInfos w \<and> unrefCache w' = unrefCache w"
  by (auto simp: runAdapter_def fromAdapter_def split: prod.splits)

lemma getChargedToLocked_sync:
  "getChargedToLocked E kmd w = (r, w') \<Longrightarrow>
   syncInfos w' = syncInfos w \<and> unrefCache w' = unrefCache w"
  by (auto simp: getChargedToLocked_def split: if_splits sum.splits)

lemma makeDirDirtyLocked_sync:
  "makeDirDirtyLocked E ptr us w = (u, w') \<Longrightarrow>
   syncInfos w' = syncInfos w \<and> unrefCache w' = unrefCache w"
  by (auto simp: makeDirDirtyLocked_def Let_def)

lemma updateEntryLocked_sync:
  assumes "updateEntryLocked E kmd file de incl w = (r, w')"
  shows "syncInfos w' = syncInfos w \<and> unrefCache w' = unrefCache w"
proof -
  obtain rc w1 where c: "getChargedToLocked E kmd w = (rc, w1)"
    by (cases "getChargedToLocked E kmd w")
  note s1 = getChargedToLocked_sync [OF c]
  show ?thesis
  proof (cases rc)
    case (Inl err)
    with assms c s1 show ?thesis by (simp add: updateEntryLocked_def)
  next
    case (Inr charged)
    obtain us err w2 where
      a: "runAdapter (dd_updateEntry E (parentPath E file) charged kmd (tailName E file) de) w1 =
            ((us, err), w2)"
      by (metis prod.exhaust)
    note s2 = runAdapter_sync [OF a]
    obtain u w3 where m: "makeDirDirtyLocked E (tailPointer E (parentPath E file)) us w2 = (u, w3)"
      by (metis prod.exhaust)
    note s3 = makeDirDirtyLocked_sync [OF m]
    from assms c Inr a m s1 s2 s3 show ?thesis
      by (auto simp: updateEntryLocked_def Let_def split: if_splits option.splits)
  qed
qed

lemma getOrCreateDirtyFileLocked_sync:
  "getOrCreateDirtyFileLocked E file w = (df, w') \<Longrightarrow>
   syncInfos w' = syncInfos w \<and> unrefCache w' = unrefCache w"
  by (auto simp: getOrCreateDirtyFileLocked_def Let_def split: option.splits prod.splits)

lemma getBlockHelperLocked_sync:
  "getBlockHelperLocked E lState kmd ptr branch nb lt np rtype w = (r, w') \<Longrightarrow>
   syncInfos w' = syncInfos w \<and> unrefCache w' = unrefCache w"
  by (auto simp: getBlockHelperLocked_def Let_def
      split: if_splits sum.splits option.splits prod.splits)

lemma getFileBlockHelperLocked_sync:
  "getFileBlockHelperLocked E lState kmd ptr branch p rtype w = (r, w') \<Longrightarrow>
   syncInfos w' = syncInfos w \<and> unrefCache w' = unrefCache w"
  by (auto simp: getFileBlockHelperLocked_def
      split: if_splits sum.splits prod.splits dest: getBlockHelperLocked_sync)

lemma getFileBlockLocked_sync:
  "getFileBlockLocked E lState kmd ptr file rtype w = (r, w') \<Longrightarrow>
   syncInfos w' = syncInfos w \<and> unrefCache w' = unrefCache w"
  by (auto simp: getFileBlockLocked_def Let_def DeepCopy_def
      split: if_splits sum.splits prod.splits option.splits
      dest: getFileBlockHelperLocked_sync)

lemma getFileLocked_sync:
  "getFileLocked E lState kmd file rtype w = (r, w') \<Longrightarrow>
   syncInfos w' = syncInfos w \<and> unrefCache w' = unrefCache w"
  by (auto simp: getFileLocked_def split: if_splits sum.splits prod.splits
      dest: getFileBlockLocked_sync)

lemma writeGetFileLocked_sync:
  "writeGetFileLocked E lState kmd file w = (r, w') \<Longrightarrow>
   syncInfos w' = syncInfos w \<and> unrefCache w' = unrefCache w"
  by (auto simp: writeGetFileLocked_def split: if_splits sum.splits
      dest: getFileLocked_sync)

lemma getEntryLocked_sync:
  "getEntryLocked E kmd file incl w = (r, w') \<Longrightarrow>
   syncInfos w' = syncInfos w \<and> unrefCache w' = unrefCache w"
  by (auto simp: getEntryLocked_def split: if_splits option.splits prod.splits
      dest: runAdapter_sync)

lemma dirtyOpStarted_sync:
  "syncInfos (dirtyOpStarted E w) = syncInfos w \<and>
   unrefCache (dirtyOpStarted E w) = unrefCache w"
  by (simp add: dirtyOpStarted_def)

lemma unrefCacheOK_cong:
  "syncInfos w' = syncInfos w \<and> unrefCache w' = unrefCache w \<Longrightarrow>
   unrefCacheOK w' = unrefCacheOK w"
  by (simp add: unrefCacheOK_def)

lemma getOrCreateSyncInfoLocked_valid:
  assumes "getOrCreateSyncInfoLocked E de w = (Inr si, w')" and "unrefCacheOK w"
  shows "si < length (syncInfos w')"
  using assms
  by (auto simp: getOrCreateSyncInfoLocked_def Let_def unrefCacheOK_def
      split: option.splits prod.splits sum.splits)

lemma appendUnrefs_syncInfos:
  "syncInfos (appendUnrefs si us w) =
     (syncInfos w)[si := (syncInfos w ! si)\<lparr>unrefs := unrefs (syncInfos w ! si) @ us\<rparr>]"
  by (simp add: appendUnrefs_def)

lemma writeDataLocked_fromEntry_unrefs:
  assumes e: "getEntryLocked E kmd file True w = ((de, None), w1)"
    and s: "getOrCreateSyncInfoLocked E de w1 = (Inr si, w2)"
    and v: "si < length (syncInfos w2)"
    and a: "fd_write E file charged kmd data off fblock de df (toAdapter w2) =
              ((newDe, dirtyPtrs, us, n, b, err), ast)"
  shows "syncInfos (snd (writeDataLocked_fromEntry E kmd file data off fblock charged df w)) =
           (syncInfos w2)[si := (syncInfos w2 ! si)\<lparr>unrefs := unrefs (syncInfos w2 ! si) @ us\<rparr>]"
    and "err \<noteq> None \<Longrightarrow>
         fst (writeDataLocked_fromEntry E kmd file data off fblock charged df w) =
           (zeroWriteRange, [], n, err)"
proof -
  let ?w3 = "fromAdapter ast w2"
  have ra: "runAdapter (fd_write E file charged kmd data off fblock de df) w2 =
      ((newDe, dirtyPtrs, us, n, b, err), ?w3)"
    by (simp add: runAdapter_def a)
  have s3: "syncInfos ?w3 = syncInfos w2" by (simp add: fromAdapter_def)
  let ?w4 = "appendUnrefs si us ?w3"
  have s4: "syncInfos ?w4 =
      (syncInfos w2)[si := (syncInfos w2 ! si)\<lparr>unrefs := unrefs (syncInfos w2 ! si) @ us\<rparr>]"
    by (simp add: appendUnrefs_syncInfos s3)
  let ?now = "clock_Now E (cfg ?w4)"
  obtain ue w5 where
    u: "updateEntryLocked E kmd file (newDe\<lparr>de_Mtime := ?now, de_Ctime := ?now\<rparr>) True ?w4 =
          (ue, w5)"
    by (metis prod.exhaust)
  have s5: "syncInfos w5 = syncInfos ?w4"
    using updateEntryLocked_sync [OF u] by simp
  show "syncInfos (snd (writeDataLocked_fromEntry E kmd file data off fblock charged df w)) =
           (syncInfos w2)[si := (syncInfos w2 ! si)\<lparr>unrefs := unrefs (syncInfos w2 ! si) @ us\<rparr>]"
    using v s3 s4 s5 u
    by (auto simp: writeDataLocked_fromEntry_def e s ra Let_def
        split: option.splits prod.splits)
  show "err \<noteq> None \<Longrightarrow>
         fst (writeDataLocked_fromEntry E kmd file data off fblock charged df w) =
           (zeroWriteRange, [], n, err)"
    using v s3
    by (auto simp: writeDataLocked_fromEntry_def e s ra Let_def)
qed

lemma writeDataLocked_body_unrefs:
  assumes g: "writeGetFileLocked E lState kmd file w = (Inr fblock, wa)"
    and c: "getChargedToLocked E kmd wa = (Inr charged, wb)"
    and d: "getOrCreateDirtyFileLocked E file wb = (df, wc)"
    and e: "getEntryLocked E kmd file True wc = ((de, None), w1)"
    and s: "getOrCreateSyncInfoLocked E de w1 = (Inr si, w2)"
    and v: "si < length (syncInfos w2)"
    and a: "fd_write E file charged kmd data off fblock de df (toAdapter w2) =
              ((newDe, dirtyPtrs, us, n, b, err), ast)"
  shows "syncInfos (snd (writeDataLocked_body E lState kmd file data off w)) =
           (syncInfos w2)[si := (syncInfos w2 ! si)\<lparr>unrefs := unrefs (syncInfos w2 ! si) @ us\<rparr>]"
    and "err \<noteq> None \<Longrightarrow>
         fst (writeDataLocked_body E lState kmd file data off w) = (zeroWriteRange, [], n, err)"
  using writeDataLocked_fromEntry_unrefs [OF e s v a]
  by (auto simp: writeDataLocked_body_def g c d Let_def split: prod.splits)

lemma withDirtyOp_syncInfos:
  "syncInfos (snd (withDirtyOp E f w)) = syncInfos (snd (f (dirtyOpStarted E w)))"
  by (simp add: withDirtyOp_def split: prod.splits)

lemma withDirtyOp_fst:
  "fst (withDirtyOp E f w) = fst (f (dirtyOpStarted E w))"
  by (simp add: withDirtyOp_def split: prod.splits)

lemma truncateLocked_shrink_unrefs:
  assumes e: "getEntryLocked E kmd file True w = ((de, None), w1)"
    and s: "getOrCreateSyncInfoLocked E de w1 = (Inr si, w2)"
    and v: "si < length (syncInfos w2)"
    and a: "fd_truncateShrink E file charged kmd sz fblock de (toAdapter w2) =
              ((newDe, dirtyPtrs, us, n, err), ast)"
  shows "syncInfos (snd (truncateLocked_shrink E kmd file sz fblock charged w)) =
           (syncInfos w2)[si := (syncInfos w2 ! si)\<lparr>unrefs := unrefs (syncInfos w2 ! si) @ us\<rparr>]"
    and "err \<noteq> None \<Longrightarrow>
         fst (truncateLocked_shrink E kmd file sz fblock charged w) = (None, [], n, err)"
proof -
  let ?w3 = "fromAdapter ast w2"
  have ra: "runAdapter (fd_truncateShrink E file charged kmd sz fblock de) w2 =
      ((newDe, dirtyPtrs, us, n, err), ?w3)"
    by (simp add: runAdapter_def a)
  have s3: "syncInfos ?w3 = syncInfos w2" by (simp add: fromAdapter_def)
  let ?w4 = "appendUnrefs si us ?w3"
  have s4: "syncInfos ?w4 =
      (syncInfos w2)[si := (syncInfos w2 ! si)\<lparr>unrefs := unrefs (syncInfos w2 ! si) @ us\<rparr>]"
    by (simp add: appendUnrefs_syncInfos s3)
  obtain df w5 where d: "getOrCreateDirtyFileLocked E file ?w4 = (df, w5)"
    by (metis prod.exhaust)
  have s5: "syncInfos w5 = syncInfos ?w4"
    using getOrCreateDirtyFileLocked_sync [OF d] by simp
  have upd: "\<And>c de' r w8. updateEntryLocked E kmd file de' True (w5\<lparr>cfg := c\<rparr>) = (r, w8) \<Longrightarrow>
      syncInfos w8 = syncInfos ?w4"
    using updateEntryLocked_sync s5 by fastforce
  show "syncInfos (snd (truncateLocked_shrink E kmd file sz fblock charged w)) =
           (syncInfos w2)[si := (syncInfos w2 ! si)\<lparr>unrefs := unrefs (syncInfos w2 ! si) @ us\<rparr>]"
    using v s3 s4 s5 d upd
    by (auto simp: truncateLocked_shrink_def e s ra Let_def
        split: option.splits prod.splits)
  show "err \<noteq> None \<Longrightarrow>
         fst (truncateLocked_shrink E kmd file sz fblock charged w) = (None, [], n, err)"
    using v s3
    by (auto simp: truncateLocked_shrink_def e s ra Let_def)
qed

text \<open>
  C7. In a state in which every \<^verbatim>\<open>unrefCache\<close> pointer points to a \<^verbatim>\<open>syncInfo\<close>: when
  \<^verbatim>\<open>writeDataLocked\<close> gets as far as \<^verbatim>\<open>fd.write\<close> (the steps before it succeed, with
  the results named in the hypotheses), the unrefs that \<^verbatim>\<open>fd.write\<close> returns are at the
  end of the \<^verbatim>\<open>unrefs\<close> of the file's \<^verbatim>\<open>syncInfo\<close> when \<^verbatim>\<open>writeDataLocked\<close> returns,
  whether \<^verbatim>\<open>fd.write\<close> returned an error or not, and its error, if any, is what
  \<^verbatim>\<open>writeDataLocked\<close> returns. The same holds for \<^verbatim>\<open>truncateLocked\<close> and
  \<^verbatim>\<open>fd.truncateShrink\<close> when it takes the shrinking path.
\<close>

theorem unrefs_recorded_before_error_check:
  "(unrefCacheOK w \<longrightarrow>
    writeGetFileLocked E lState kmd file (dirtyOpStarted E w) = (Inr fblock, wa) \<longrightarrow>
    getChargedToLocked E kmd wa = (Inr charged, wb) \<longrightarrow>
    getOrCreateDirtyFileLocked E file wb = (df, wc) \<longrightarrow>
    getEntryLocked E kmd file True wc = ((de, None), w1) \<longrightarrow>
    getOrCreateSyncInfoLocked E de w1 = (Inr si, w2) \<longrightarrow>
    fd_write E file charged kmd data off fblock de df (toAdapter w2) =
      ((newDe, dirtyPtrs, us, n, b, err), ast) \<longrightarrow>
      si < length (syncInfos w2) \<and>
      unrefs (syncInfos (snd (writeDataLocked E lState kmd file data off w)) ! si) =
        unrefs (syncInfos w2 ! si) @ us \<and>
      (err \<noteq> None \<longrightarrow>
         fst (writeDataLocked E lState kmd file data off w) = (zeroWriteRange, [], n, err)))
   \<and>
   (unrefCacheOK w \<longrightarrow>
    writeGetFileLocked E lState kmd file (dirtyOpStarted E w) = (Inr fblock, wa) \<longrightarrow>
    getChargedToLocked E kmd wa = (Inr charged, wb) \<longrightarrow>
    runAdapter (fd_getFileBlockAtOffset E file charged kmd fblock sz blockWrite) wb =
      ((parentBlocks, block, nextBlockOff, startOff, None), wc) \<longrightarrow>
    block < length (heap wc) \<longrightarrow>
    currLen = startOff + word_of_nat (length (b_Contents (heap wc ! block))) \<longrightarrow>
    \<not> sint (currLen + truncateExtendCutoffPoint) < sint sz \<longrightarrow>
    \<not> sint currLen < sint sz \<longrightarrow>
    \<not> (currLen = sz \<and> sint nextBlockOff < 0) \<longrightarrow>
    getEntryLocked E kmd file True wc = ((de, None), w1) \<longrightarrow>
    getOrCreateSyncInfoLocked E de w1 = (Inr si, w2) \<longrightarrow>
    fd_truncateShrink E file charged kmd sz fblock de (toAdapter w2) =
      ((newDe, dirtyPtrs, us, n, err), ast) \<longrightarrow>
      si < length (syncInfos w2) \<and>
      unrefs (syncInfos (snd (truncateLocked E lState kmd file sz w)) ! si) =
        unrefs (syncInfos w2 ! si) @ us \<and>
      (err \<noteq> None \<longrightarrow>
         fst (truncateLocked E lState kmd file sz w) = (None, [], n, err)))"
proof (intro conjI impI)
  assume ok: "unrefCacheOK w"
    and g: "writeGetFileLocked E lState kmd file (dirtyOpStarted E w) = (Inr fblock, wa)"
    and c: "getChargedToLocked E kmd wa = (Inr charged, wb)"
    and d: "getOrCreateDirtyFileLocked E file wb = (df, wc)"
    and e: "getEntryLocked E kmd file True wc = ((de, None), w1)"
    and s: "getOrCreateSyncInfoLocked E de w1 = (Inr si, w2)"
    and a: "fd_write E file charged kmd data off fblock de df (toAdapter w2) =
      ((newDe, dirtyPtrs, us, n, b, err), ast)"
  have "unrefCacheOK w1"
    using ok dirtyOpStarted_sync [of E w] writeGetFileLocked_sync [OF g]
      getChargedToLocked_sync [OF c] getOrCreateDirtyFileLocked_sync [OF d]
      getEntryLocked_sync [OF e]
    by (simp add: unrefCacheOK_def)
  then show v: "si < length (syncInfos w2)"
    by (rule getOrCreateSyncInfoLocked_valid [OF s])
  note t = writeDataLocked_body_unrefs [OF g c d e s v a]
  show "unrefs (syncInfos (snd (writeDataLocked E lState kmd file data off w)) ! si) =
        unrefs (syncInfos w2 ! si) @ us"
    using v by (simp add: writeDataLocked_def withDirtyOp_syncInfos t(1))
  show "fst (writeDataLocked E lState kmd file data off w) = (zeroWriteRange, [], n, err)"
    if "err \<noteq> None"
    using t(2) [OF that] by (simp add: writeDataLocked_def withDirtyOp_fst)
next
  assume ok: "unrefCacheOK w"
    and g: "writeGetFileLocked E lState kmd file (dirtyOpStarted E w) = (Inr fblock, wa)"
    and c: "getChargedToLocked E kmd wa = (Inr charged, wb)"
    and o: "runAdapter (fd_getFileBlockAtOffset E file charged kmd fblock sz blockWrite) wb =
      ((parentBlocks, block, nextBlockOff, startOff, None), wc)"
    and bl: "block < length (heap wc)"
    and cl: "currLen = startOff + word_of_nat (length (b_Contents (heap wc ! block)))"
    and n1: "\<not> sint (currLen + truncateExtendCutoffPoint) < sint sz"
    and n2: "\<not> sint currLen < sint sz"
    and n3: "\<not> (currLen = sz \<and> sint nextBlockOff < 0)"
    and e: "getEntryLocked E kmd file True wc = ((de, None), w1)"
    and s: "getOrCreateSyncInfoLocked E de w1 = (Inr si, w2)"
    and a: "fd_truncateShrink E file charged kmd sz fblock de (toAdapter w2) =
      ((newDe, dirtyPtrs, us, n, err), ast)"
  have "unrefCacheOK w1"
    using ok dirtyOpStarted_sync [of E w] writeGetFileLocked_sync [OF g]
      getChargedToLocked_sync [OF c] runAdapter_sync [OF o] getEntryLocked_sync [OF e]
    by (simp add: unrefCacheOK_def)
  then show v: "si < length (syncInfos w2)"
    by (rule getOrCreateSyncInfoLocked_valid [OF s])
  note t = truncateLocked_shrink_unrefs [OF e s v a]
  have body: "truncateLocked_body E lState kmd file sz (dirtyOpStarted E w) =
      truncateLocked_shrink E kmd file sz fblock charged wc"
    using bl n1 n2 n3 by (auto simp: truncateLocked_body_def g c o Let_def cl [symmetric])
  show "unrefs (syncInfos (snd (truncateLocked E lState kmd file sz w)) ! si) =
        unrefs (syncInfos w2 ! si) @ us"
    using v by (simp add: truncateLocked_def withDirtyOp_syncInfos body t(1))
  show "fst (truncateLocked E lState kmd file sz w) = (None, [], n, err)"
    if "err \<noteq> None"
    using t(2) [OF that] by (simp add: truncateLocked_def withDirtyOp_fst body)
qed

lemma fromAdapter_toAdapter: "fromAdapter (toAdapter w) w = w"
  by (simp add: fromAdapter_def toAdapter_def)

lemma runAdapter_same: "f (toAdapter w) = (r, toAdapter w) \<Longrightarrow> runAdapter f w = (r, w)"
  by (simp add: runAdapter_def fromAdapter_toAdapter)

lemma chargedEngine_started: "dirtyOpStarted simpleConfig chargedEngine = chargedEngine"
  by (simp add: dirtyOpStarted_def simpleConfig_def)

lemma chargedEngine_file:
  "writeGetFileLocked simpleConfig (Some 0) kmdA fileA chargedEngine = (Inr 0, chargedEngine)"
  by (simp add: writeGetFileLocked_def getFileLocked_def getFileBlockLocked_def
      getFileBlockHelperLocked_def getBlockHelperLocked_def simpleConfig_def fileA_def
      simpleTailPointer_def ptrA_def ptrR_def lookupBlock_def chargedEngine_def dirtyEngine_def
      emptyEngine_def isFileBlock_def blockA_def p_Branch_def masterBranch_def fbo_id_def)

lemma chargedEngine_charged:
  "getChargedToLocked simpleConfig kmdA chargedEngine = (Inr ''alice'', chargedEngine)"
  by (simp add: getChargedToLocked_def chargedEngine_def)

lemma chargedEngine_df:
  "getOrCreateDirtyFileLocked simpleConfig fileA chargedEngine = (0, chargedEngine)"
  by (simp add: getOrCreateDirtyFileLocked_def simpleConfig_def fileA_def
      simpleTailPointer_def chargedEngine_def dirtyEngine_def emptyEngine_def)

lemma chargedEngine_entry:
  "getEntryLocked simpleConfig kmdA fileA True chargedEngine = ((entryA, None), chargedEngine)"
proof -
  have "runAdapter (dd_lookup simpleConfig (parentPath simpleConfig fileA) [] kmdA
          (tailName simpleConfig fileA)) chargedEngine = ((entryA, None), chargedEngine)"
    by (rule runAdapter_same) (simp add: simpleConfig_def fileA_def)
  moreover have "hasValidParent simpleConfig fileA"
    and "de_BlockPointer entryA = tailPointer simpleConfig fileA"
    by (simp_all add: simpleConfig_def fileA_def de_BlockPointer_def entryA_def
        simpleTailPointer_def)
  ultimately show ?thesis
    by (simp add: getEntryLocked_def isNoSuchName_def)
qed

lemma chargedEngine_si:
  "getOrCreateSyncInfoLocked simpleConfig entryA chargedEngine = (Inr 0, chargedEngine)"
  by (simp add: getOrCreateSyncInfoLocked_def de_Ref_def de_BlockPointer_def entryA_def
      chargedEngine_def dirtyEngine_def emptyEngine_def)

lemma chargedEngine_write:
  "fd_write simpleConfig fileA ''alice'' kmdA [1, 2] 0 0 entryA 0 (toAdapter chargedEngine) =
     ((entryA, [], [infoB], 3, 0, Some (ExternalError 5)), toAdapter chargedEngine)"
  by (simp add: simpleConfig_def)

lemma chargedEngine_ok: "unrefCacheOK chargedEngine"
  by (auto simp: unrefCacheOK_def chargedEngine_def dirtyEngine_def emptyEngine_def)

lemma chargedEngine_unrefs: "unrefs (syncInfos chargedEngine ! 0) = []"
  by (simp add: chargedEngine_def dirtyEngine_def emptyEngine_def siA_def)

lemma chargedEngine_offset:
  "runAdapter (fd_getFileBlockAtOffset simpleConfig fileA ''alice'' kmdA 0 sz blockWrite)
     chargedEngine = (([], 0, - 1, 0, None), chargedEngine)"
  by (rule runAdapter_same) (simp add: simpleConfig_def)

lemma chargedEngine_shrink:
  "fd_truncateShrink simpleConfig fileA ''alice'' kmdA 1 0 entryA (toAdapter chargedEngine) =
     ((entryA, [], [infoB], 2, Some (ExternalError 6)), toAdapter chargedEngine)"
  by (simp add: simpleConfig_def)

lemma chargedEngine_block:
  "0 < length (heap chargedEngine)"
  "(3 :: 64 word) = 0 + word_of_nat (length (b_Contents (heap chargedEngine ! 0)))"
  by (simp_all add: chargedEngine_def dirtyEngine_def emptyEngine_def blockA_def)

lemma shrink_conditions:
  "\<not> sint ((3 :: 64 word) + truncateExtendCutoffPoint) < sint (1 :: 64 word)"
  "\<not> sint (3 :: 64 word) < sint (1 :: 64 word)"
  "\<not> ((3 :: 64 word) = 1 \<and> sint (- 1 :: 64 word) < 0)"
  by (simp_all add: truncateExtendCutoffPoint_def)

theorem unrefs_recorded_before_error_check_witness:
  "unrefCacheOK chargedEngine \<and>
   fd_write simpleConfig fileA ''alice'' kmdA [1, 2] 0 0 entryA 0 (toAdapter chargedEngine) =
     ((entryA, [], [infoB], 3, 0, Some (ExternalError 5)), toAdapter chargedEngine) \<and>
   unrefs (syncInfos (snd (writeDataLocked simpleConfig (Some 0) kmdA fileA [1, 2] 0
      chargedEngine)) ! 0) = [infoB] \<and>
   fst (writeDataLocked simpleConfig (Some 0) kmdA fileA [1, 2] 0 chargedEngine) =
     (zeroWriteRange, [], 3, Some (ExternalError 5)) \<and>
   fd_truncateShrink simpleConfig fileA ''alice'' kmdA 1 0 entryA (toAdapter chargedEngine) =
     ((entryA, [], [infoB], 2, Some (ExternalError 6)), toAdapter chargedEngine) \<and>
   unrefs (syncInfos (snd (truncateLocked simpleConfig (Some 0) kmdA fileA 1
      chargedEngine)) ! 0) = [infoB] \<and>
   fst (truncateLocked simpleConfig (Some 0) kmdA fileA 1 chargedEngine) =
     (None, [], 2, Some (ExternalError 6))"
proof -
  have g: "writeGetFileLocked simpleConfig (Some 0) kmdA fileA
      (dirtyOpStarted simpleConfig chargedEngine) = (Inr 0, chargedEngine)"
    by (simp add: chargedEngine_started chargedEngine_file)
  note w = unrefs_recorded_before_error_check [THEN conjunct1, rule_format,
      OF chargedEngine_ok g chargedEngine_charged chargedEngine_df chargedEngine_entry
        chargedEngine_si chargedEngine_write]
  note t = unrefs_recorded_before_error_check [THEN conjunct2, rule_format,
      OF chargedEngine_ok g chargedEngine_charged chargedEngine_offset
        chargedEngine_block shrink_conditions chargedEngine_entry chargedEngine_si
        chargedEngine_shrink]
  from w t show ?thesis
    by (simp add: chargedEngine_ok chargedEngine_write chargedEngine_shrink
        chargedEngine_unrefs)
qed

subsection \<open>The path that a truncate takes\<close>

lemma sint_eq_uint_64: "uint (x :: 64 word) < 2 ^ 63 \<Longrightarrow> sint x = uint x"
proof -
  assume "uint x < 2 ^ 63"
  moreover have "- (2 ^ 63) \<le> (0 :: int)" by simp
  then have "- (2 ^ 63) \<le> uint x"
    by (rule order_trans) simp
  ultimately show ?thesis
    by (simp add: sint_uint signed_take_bit_int_eq_self_iff)
qed

lemma sint_add_64:
  "- (2 ^ 63) \<le> sint (a :: 64 word) + sint b \<Longrightarrow> sint a + sint b < 2 ^ 63 \<Longrightarrow>
   sint (a + b) = sint a + sint b"
  by (simp add: sint_word_ariths signed_take_bit_int_eq_self_iff)

lemma sint_sub_64:
  "- (2 ^ 63) \<le> sint (a :: 64 word) - sint b \<Longrightarrow> sint a - sint b < 2 ^ 63 \<Longrightarrow>
   sint (a - b) = sint a - sint b"
  by (simp add: sint_word_ariths signed_take_bit_int_eq_self_iff)

lemma uint_eq_sint_64: "0 \<le> sint (x :: 64 word) \<Longrightarrow> uint x = sint x"
proof -
  assume a: "0 \<le> sint x"
  have "sint x < 2 ^ 63" using sint_lt [of x] by simp
  then have "take_bit 64 (sint x) = sint x"
    using a by (simp add: take_bit_int_eq_self)
  then show ?thesis by (simp add: uint_sint)
qed

lemma sint_inj_64: "sint (a :: 64 word) = sint b \<longleftrightarrow> a = b"
  using word_eq_iff_signed by auto

lemma sint_cutoff: "sint truncateExtendCutoffPoint = 128 * 1024"
  by (simp add: truncateExtendCutoffPoint_def)

text \<open>
  For a requested size that fits \<^verbatim>\<open>int64\<close> and a current length that is not within
  128 KiB of the largest \<^verbatim>\<open>int64\<close>, \<^verbatim>\<open>truncateLocked\<close> chooses its path by the
  numbers themselves.
\<close>

lemma truncateLocked_dispatch:
  assumes g: "writeGetFileLocked E lState kmd file w = (Inr fblock, wa)"
    and c: "getChargedToLocked E kmd wa = (Inr charged, wb)"
    and o: "runAdapter (fd_getFileBlockAtOffset E file charged kmd fblock sz blockWrite) wb =
      ((parentBlocks, block, nextBlockOff, startOff, None), wc)"
    and bl: "block < length (heap wc)"
    and cl: "currLen = startOff + word_of_nat (length (b_Contents (heap wc ! block)))"
    and r1: "uint sz < 2 ^ 63"
    and r2: "0 \<le> sint currLen"
    and r3: "sint currLen + 128 * 1024 < 2 ^ 63"
  shows "truncateLocked_body E lState kmd file sz w =
     (if sint currLen + 128 * 1024 < uint sz then
        (case truncateExtendLocked E lState kmd file sz parentBlocks wc of
           ((latestWrite, dirtyPtrs, err), w4) \<Rightarrow> ((Some latestWrite, dirtyPtrs, 0, err), w4))
      else if sint currLen < uint sz then
        (case writeDataLocked E lState kmd file
                (replicate (nat (uint sz - sint currLen)) 0) currLen wc of
           ((latestWrite, dirtyPtrs, n, err), w4) \<Rightarrow> ((Some latestWrite, dirtyPtrs, n, err), w4))
      else if sint currLen = uint sz \<and> sint nextBlockOff < 0 then ((None, [], 0, None), wc)
      else truncateLocked_shrink E kmd file sz fblock charged wc)"
proof -
  have ssz: "sint sz = uint sz" by (rule sint_eq_uint_64 [OF r1])
  have "- (2 ^ 63) \<le> (0 :: int)" by simp
  with r2 have lo: "- (2 ^ 63) \<le> sint currLen + sint truncateExtendCutoffPoint"
    by (simp add: sint_cutoff)
  have sadd: "sint (currLen + truncateExtendCutoffPoint) = sint currLen + 128 * 1024"
    using sint_add_64 [OF lo] r3 by (simp add: sint_cutoff)
  have eq: "(currLen = sz) = (sint currLen = uint sz)"
    using sint_inj_64 [of currLen sz] by (simp add: ssz)
  have more: "sint currLen < uint sz \<Longrightarrow>
      \<not> sint (sz - currLen) < 0 \<and> unat (sz - currLen) = nat (uint sz - sint currLen)"
  proof -
    assume lt: "sint currLen < uint sz"
    have d: "sint (sz - currLen) = sint sz - sint currLen"
      using r1 r2 lt sint_ge [of currLen] by (intro sint_sub_64) (simp_all add: ssz)
    then have nn: "0 \<le> sint (sz - currLen)" using lt by (simp add: ssz)
    from uint_eq_sint_64 [OF nn] d have "uint (sz - currLen) = uint sz - sint currLen"
      by (simp add: ssz)
    then have "unat (sz - currLen) = nat (uint sz - sint currLen)"
      by (simp only: unat_eq_nat_uint)
    with nn show ?thesis by simp
  qed
  show ?thesis
    using bl more
    by (auto simp: truncateLocked_body_def g c o Let_def cl [symmetric] ssz sadd eq
        split: prod.splits)
qed

lemma chargedEngine_shrink_any:
  "runAdapter (fd_truncateShrink simpleConfig fileA ''alice'' kmdA sz 0 entryA) chargedEngine =
     ((entryA, [], [infoB], 2, Some (ExternalError 6)), chargedEngine)"
  by (rule runAdapter_same) (simp add: simpleConfig_def)

lemma chargedEngine_shrink_path:
  "fst (truncateLocked_shrink simpleConfig kmdA fileA sz 0 ''alice'' chargedEngine) =
     (None, [], 2, Some (ExternalError 6))"
  by (simp add: truncateLocked_shrink_def chargedEngine_entry chargedEngine_si
      chargedEngine_shrink_any)
     (simp add: chargedEngine_def dirtyEngine_def emptyEngine_def)

lemma overflow_conditions:
  "\<not> sint ((3 :: 64 word) + truncateExtendCutoffPoint) < sint (2 ^ 63 :: 64 word)"
  "\<not> sint (3 :: 64 word) < sint (2 ^ 63 :: 64 word)"
  "(3 :: 64 word) \<noteq> 2 ^ 63"
  by (simp_all add: truncateExtendCutoffPoint_def)

text \<open>
  C3 at a size that does not fit \<^verbatim>\<open>int64\<close>. The file \<open>fileA\<close> ends at byte 3 and the
  requested size is \<open>2 ^ 63\<close>, far more than 128 KiB beyond the end; \<^verbatim>\<open>int64(size)\<close> is
  negative, none of the three comparisons of lines 2132-2148 holds, and
  \<^verbatim>\<open>truncateLocked\<close> takes the shrinking path: what it returns is what
  \<^verbatim>\<open>fd.truncateShrink\<close> returned.
\<close>

theorem truncateLocked_size_overflow:
  "uint (2 ^ 63 :: 64 word) > 3 + 128 * 1024 \<and>
   truncateLocked_body simpleConfig (Some 0) kmdA fileA (2 ^ 63) chargedEngine =
     truncateLocked_shrink simpleConfig kmdA fileA (2 ^ 63) 0 ''alice'' chargedEngine \<and>
   fst (truncateLocked simpleConfig (Some 0) kmdA fileA (2 ^ 63) chargedEngine) =
     (None, [], 2, Some (ExternalError 6))"
proof -
  have body: "truncateLocked_body simpleConfig (Some 0) kmdA fileA (2 ^ 63) chargedEngine =
     truncateLocked_shrink simpleConfig kmdA fileA (2 ^ 63) 0 ''alice'' chargedEngine"
    using overflow_conditions chargedEngine_block
    by (simp add: truncateLocked_body_def chargedEngine_file chargedEngine_charged
        chargedEngine_offset Let_def)
  have "fst (truncateLocked simpleConfig (Some 0) kmdA fileA (2 ^ 63) chargedEngine) =
     (None, [], 2, Some (ExternalError 6))"
    by (simp only: truncateLocked_def withDirtyOp_fst chargedEngine_started body
        chargedEngine_shrink_path)
  moreover have "uint (2 ^ 63 :: 64 word) > 3 + 128 * 1024" by simp
  ultimately show ?thesis using body by (simp only: simp_thms)
qed

subsection \<open>Fast-forwarding when there is nothing to do\<close>

text \<open>
  C10. When the node cache is nil, or holds no node, \<^verbatim>\<open>FastForwardAllNodes\<close> returns
  no change, no affected node ID and a nil error, whatever depth the traversal is
  allowed, and the engine, the node cache and every other collaborator are in the
  state they were in.
\<close>

theorem FastForwardAllNodes_nothing_to_do:
  "nodeCache w = None \<or> nc_AllNodes E (cfg w) = [] \<Longrightarrow>
   FastForwardAllNodes depth E md w = Some (([], [], None), w)"
  by (auto simp add: FastForwardAllNodes_def)

theorem FastForwardAllNodes_nothing_to_do_witness:
  "(nodeCache emptyEngine = None \<or> nc_AllNodes simpleConfig (cfg emptyEngine) = []) \<and>
   FastForwardAllNodes 0 simpleConfig kmdA emptyEngine = Some (([], [], None), emptyEngine)"
  using FastForwardAllNodes_nothing_to_do [of emptyEngine simpleConfig 0 kmdA]
  by (simp add: simpleConfig_def)

text \<open>
  With two nodes in the node cache, the root directory and a file in it, the same
  function reports a change for each.
\<close>

lemma buildTree_nodes:
  "buildTree nodesConfig c [0, Suc 0] =
     (rootDir, [(''root'', [\<lparr>pn_BlockPointer = ptrA, pn_Name = ''a''\<rparr>])])"
  by (simp add: buildTree_def addPath_def addChild_def lookupChildren_def nodesConfig_def
      simpleConfig_def rootDir_def fileA_def)

lemma nodesConfig_fields:
  "nc_AllNodes nodesConfig c = [0, 1]"
  "path_isValid nodesConfig rootDir"
  "nc_UpdatePointer nodesConfig r p c = (None, c)"
  "nc_Get nodesConfig c r =
     (if r = Ref ptrR then Some 0 else if r = Ref ptrA then Some 1 else None)"
  "nc_PathFromNode nodesConfig c n =
     (if n = Some 0 then rootDir else if n = Some 1 then fileA else zeroPath)"
  "path_String nodesConfig rootDir = ''root''"
  "chargedToForTLF nodesConfig c kmd = Inr ''alice''"
  "dd_getEntries nodesConfig dir ch kmd a = (([(''a'', entryA)], None), a)"
  "node_GetID nodesConfig i = i"
  by (simp_all add: nodesConfig_def simpleConfig_def rootDir_def ptrR_def)

lemma updatePointer_nodes:
  "updatePointer nodesConfig k p q b emptyEngine = (Inr None, emptyEngine)"
  "updatePointer nodesConfig k p q b (emptyEngine\<lparr>chargedTo := ''alice''\<rparr>) =
     (Inr None, emptyEngine\<lparr>chargedTo := ''alice''\<rparr>)"
  by (simp_all add: updatePointer_def nodesConfig_fields) (simp_all add: emptyEngine_def)

lemma FastForwardAllNodes_nodes:
  "FastForwardAllNodes 1 nodesConfig kmdR emptyEngine =
     Some (([dirChange 0 [\<lparr>pn_BlockPointer = ptrA, pn_Name = ''a''\<rparr>], fileChange 1], [0, 1],
            None),
           emptyEngine\<lparr>chargedTo := ''alice''\<rparr>)"
proof -
  have root: "de_BlockPointer (md_Dir kmdR) = ptrR"
    by (simp add: kmdR_def de_BlockPointer_def)
  have charged: "getChargedToLocked nodesConfig kmdR emptyEngine =
      (Inr ''alice'', emptyEngine\<lparr>chargedTo := ''alice''\<rparr>)"
    by (simp add: getChargedToLocked_def nodesConfig_fields) (simp add: emptyEngine_def)
  have entries: "runAdapter (dd_getEntries nodesConfig rootDir ''alice'' kmdR)
      (emptyEngine\<lparr>chargedTo := ''alice''\<rparr>) =
      (([(''a'', entryA)], None), emptyEngine\<lparr>chargedTo := ''alice''\<rparr>)"
    by (simp add: runAdapter_def nodesConfig_fields fromAdapter_def toAdapter_def)
  have neq: "Ref ptrA \<noteq> Ref ptrR"
    by (simp add: Ref_def ptrA_def ptrR_def)
  have same: "rootDir\<lparr>p_path := (hd (p_path rootDir))\<lparr>pn_BlockPointer := ptrR\<rparr> #
      tl (p_path rootDir)\<rparr> = rootDir"
    by (simp add: rootDir_def)
  have nc: "nodeCache emptyEngine = Some 0" "p_path rootDir \<noteq> []"
    "de_BlockPointer entryA = ptrA" "de_Type entryA = File"
    "cfg (emptyEngine\<lparr>chargedTo := ''alice''\<rparr>) = cfg emptyEngine"
    by (simp_all add: emptyEngine_def rootDir_def entryA_def de_BlockPointer_def)
  show ?thesis
    by (simp add: FastForwardAllNodes_def nodesConfig_fields buildTree_nodes root charged
        entries updatePointer_nodes neq same nc lookupChildren_def deleteChildren_def)
qed

subsection \<open>Who hears of a failed sync\<close>

lemma runAdapter_notif:
  "errNotifications (snd (runAdapter f w)) = errNotifications w"
  by (simp add: runAdapter_def fromAdapter_def split: prod.splits)

lemma getChargedToLocked_notif:
  "errNotifications (snd (getChargedToLocked E kmd w)) = errNotifications w"
  by (simp add: getChargedToLocked_def split: sum.splits)

lemma deleteDirty_notif:
  "errNotifications (deleteDirty E ptr w) = errNotifications w"
  by (simp add: deleteDirty_def)

lemma getOrCreateDirtyFileLocked_notif:
  "errNotifications (snd (getOrCreateDirtyFileLocked E file w)) = errNotifications w"
  by (simp add: getOrCreateDirtyFileLocked_def Let_def split: option.splits prod.splits)

lemma cacheBlockIfNotYetDirtyLocked_notif:
  "errNotifications (snd (cacheBlockIfNotYetDirtyLocked E ptr file b w)) = errNotifications w"
proof -
  obtain df w1 where g: "getOrCreateDirtyFileLocked E file w = (df, w1)"
    by (cases "getOrCreateDirtyFileLocked E file w")
  have "errNotifications w1 = errNotifications w"
    using getOrCreateDirtyFileLocked_notif [of E "file" w] g by simp
  then show ?thesis
    by (simp add: cacheBlockIfNotYetDirtyLocked_def g split: prod.splits option.splits)
qed

lemma redirtyFound_notif:
  "errNotifications (redirtyFound E file found redirty w) = errNotifications w"
proof (induction redirty arbitrary: w)
  case Nil
  then show ?case by simp
next
  case (Cons e rest)
  obtain newPtr oldPtr where e: "e = (newPtr, oldPtr)" by (cases e)
  show ?case
  proof (cases "newPtr \<in> set found")
    case False
    then show ?thesis using Cons.IH e by simp
  next
    case True
    show ?thesis
    proof (cases "bc_Get E (cfg w) newPtr")
      case (Inl err)
      then show ?thesis using Cons.IH e True by simp
    next
      case (Inr b)
      obtain err w1 where c: "cacheBlockIfNotYetDirtyLocked E newPtr file b w = (err, w1)"
        by (cases "cacheBlockIfNotYetDirtyLocked E newPtr file b w")
      have "errNotifications w1 = errNotifications w"
        using cacheBlockIfNotYetDirtyLocked_notif [of E newPtr "file" b w] c by simp
      then show ?thesis using Cons.IH e True Inr c by (simp add: deleteDirty_notif)
    qed
  qed
qed

lemma fixChildBlocks_body_notif:
  "errNotifications (fixChildBlocks_body E file kmd redirty w) = errNotifications w"
proof -
  define w1 where "w1 = (case fmlookup (dirtyFiles w) (tailPointer E file) of
                  None \<Rightarrow> w
                | Some df \<Rightarrow>
                    w\<lparr>cfg := fold (\<lambda>oldPtr. df_setBlockOrphaned E df oldPtr False)
                               (map snd redirty) (cfg w)\<rparr>)"
  have w1: "errNotifications w1 = errNotifications w"
    by (simp add: w1_def split: option.splits)
  have body: "fixChildBlocks_body E file kmd redirty w =
     (case dbc_Get E (cfg w1) (fbo_id w1) (tailPointer E file) (fbo_branch w1) of
        Inl err \<Rightarrow> w1
      | Inr topBlock \<Rightarrow>
         (if \<not> isFileBlock (heap w1) topBlock then w1
          else case getChargedToLocked E kmd w1 of
            (Inl err, w2) \<Rightarrow> w2
          | (Inr charged, w2) \<Rightarrow>
             (case runAdapter
                     (fd_findIPtrsAndClearSize E file charged kmd topBlock (map fst redirty))
                     w2 of
                ((found, Some err), w3) \<Rightarrow> w3
              | ((found, None), w3) \<Rightarrow> redirtyFound E file found redirty w3)))"
    by (simp only: fixChildBlocks_body_def w1_def Let_def)
  show ?thesis
  proof (cases "dbc_Get E (cfg w1) (fbo_id w1) (tailPointer E file) (fbo_branch w1)")
    case (Inl err)
    then show ?thesis by (simp add: body w1)
  next
    case (Inr topBlock)
    show ?thesis
    proof (cases "isFileBlock (heap w1) topBlock")
      case False
      then show ?thesis by (simp add: body Inr w1)
    next
      case True
      obtain r w2 where c: "getChargedToLocked E kmd w1 = (r, w2)"
        by (cases "getChargedToLocked E kmd w1")
      have w2: "errNotifications w2 = errNotifications w"
        using getChargedToLocked_notif [of E kmd w1] c w1 by simp
      show ?thesis
      proof (cases r)
        case (Inl err)
        then show ?thesis by (simp add: body Inr True c w2)
      next
        case r: (Inr charged)
        obtain found err w3 where f: "runAdapter
            (fd_findIPtrsAndClearSize E file charged kmd topBlock (map fst redirty)) w2 =
            ((found, err), w3)"
          by (metis surj_pair)
        have w3: "errNotifications w3 = errNotifications w"
          using runAdapter_notif [of "fd_findIPtrsAndClearSize E file charged kmd topBlock
            (map fst redirty)" w2] f w2 by simp
        show ?thesis
          by (cases err) (simp_all add: body Inr True c r f w3 redirtyFound_notif)
      qed
    qed
  qed
qed

lemma fixChildBlocksAfterRecoverableErrorLocked_notif:
  "errNotifications (fixChildBlocksAfterRecoverableErrorLocked E file kmd redirty w) =
   errNotifications w"
  by (simp add: fixChildBlocksAfterRecoverableErrorLocked_def fixChildBlocks_body_notif)

lemma resetSyncInfo_notif:
  "errNotifications (snd (resetSyncInfo E md si w)) = errNotifications w"
  by (simp add: resetSyncInfo_def Let_def split: option.splits)

lemma revertSyncInfoAfterRecoverableError_notif:
  "errNotifications (snd (revertSyncInfoAfterRecoverableError blocksToRemove result si w)) =
   errNotifications w"
  by (simp add: revertSyncInfoAfterRecoverableError_def Let_def split: option.splits)

lemma cleanupRecoverable_notif:
  "errNotifications (snd (cleanupRecoverable E md file blocksToRemove result w)) =
   errNotifications w"
proof -
  obtain p w1 where r: "(case fss_si result of
              None \<Rightarrow> (None, w)
            | Some si \<Rightarrow> revertSyncInfoAfterRecoverableError blocksToRemove result si w) =
            (p, w1)"
    by (metis surj_pair)
  have w1: "errNotifications w1 = errNotifications w"
  proof (cases "fss_si result")
    case None
    then show ?thesis using r by simp
  next
    case (Some si)
    then show ?thesis
      using r revertSyncInfoAfterRecoverableError_notif [of blocksToRemove result si w]
      by simp
  qed
  show ?thesis
    by (simp add: cleanupRecoverable_def r w1
        fixChildBlocksAfterRecoverableErrorLocked_notif split: option.splits)
qed

lemma deleteOrphans_notif:
  "errNotifications (deleteOrphans E df ptrs w) = errNotifications w"
  unfolding deleteOrphans_def
  by (induction ptrs arbitrary: w) (simp_all add: deleteDirty_notif)

lemma cleanupUnrecoverable_notif:
  "errNotifications (cleanupUnrecoverable E file result w) = errNotifications w"
  by (simp add: cleanupUnrecoverable_def Let_def deleteOrphans_notif split: option.splits)

lemma resetSyncingBlocks_notif:
  "errNotifications (resetSyncingBlocks E file w) = errNotifications w"
  by (simp add: resetSyncingBlocks_def split: option.splits)

lemma CleanupSyncState_body_notif:
  "errNotifications (snd (CleanupSyncState_body E md file blocksToRemove result err w)) =
   errNotifications (notifyErrListenersLocked E (tailPointer E file) err w)"
proof -
  define w1 where "w1 = notifyErrListenersLocked E (tailPointer E file) err w"
  obtain p w2 where r: "(case fss_si result of
              None \<Rightarrow> (None, w1)
            | Some si \<Rightarrow> resetSyncInfo E md si w1) = (p, w2)"
    by (metis surj_pair)
  have w2: "errNotifications w2 = errNotifications w1"
  proof (cases "fss_si result")
    case None
    then show ?thesis using r by simp
  next
    case (Some si)
    then show ?thesis using r resetSyncInfo_notif [of E md si w1] by simp
  qed
  obtain q w3 where c: "cleanupRecoverable E md file blocksToRemove result w2 = (q, w3)"
    by (metis surj_pair)
  have w3: "errNotifications w3 = errNotifications w1"
    using cleanupRecoverable_notif [of E md "file" blocksToRemove result w2] c w2 by simp
  show ?thesis
    by (simp add: CleanupSyncState_body_def w1_def [symmetric] r c w2 w3
        resetSyncingBlocks_notif cleanupUnrecoverable_notif split: option.splits)
qed

text \<open>
  C6. Let \<^verbatim>\<open>CleanupSyncState\<close> be called with an error that is not nil, for a file that
  has a \<^verbatim>\<open>dirtyFile\<close>. When the error is not a recoverable block error, the call makes
  one notification more than there were, to the listeners of that \<^verbatim>\<open>dirtyFile\<close> and
  with that error; when it is recoverable, the call makes none.
\<close>

theorem CleanupSyncState_notifies_unless_recoverable:
  assumes "fmlookup (dirtyFiles w) (tailPointer E file) = Some df"
  shows "errNotifications (snd (CleanupSyncState E md file blocksToRemove result (Some e) w)) =
         errNotifications w @ (if recoverableBlockError E e then [] else [(df, Some e)])"
proof -
  have n: "errNotifications (notifyErrListenersLocked E (tailPointer E file) (Some e) w) =
        errNotifications w @ (if recoverableBlockError E e then [] else [(df, Some e)])"
    using assms by (simp add: notifyErrListenersLocked_def isRecoverableBlockError_def)
  obtain p w1 where b:
    "CleanupSyncState_body E md file blocksToRemove result (Some e) w = (p, w1)"
    by (metis surj_pair)
  have "errNotifications w1 =
        errNotifications (notifyErrListenersLocked E (tailPointer E file) (Some e) w)"
    using CleanupSyncState_body_notif [of E md "file" blocksToRemove result "Some e" w] b
    by simp
  then have "errNotifications (snd (CleanupSyncState E md file blocksToRemove result (Some e) w))
      = errNotifications (notifyErrListenersLocked E (tailPointer E file) (Some e) w)"
    by (simp add: CleanupSyncState_def b)
  then show ?thesis by (simp only: n)
qed

lemma dirtyEngine_dirtyFile:
  "fmlookup (dirtyFiles dirtyEngine) (tailPointer simpleConfig fileA) = Some 0"
  by (simp add: dirtyEngine_def emptyEngine_def simpleConfig_def simpleTailPointer_def
      fileA_def)

lemma simpleConfig_recoverable:
  "recoverableBlockError simpleConfig e \<longleftrightarrow> e = ExternalError 4"
  by (simp add: simpleConfig_def)

lemma dirtyEngine_notifications: "errNotifications dirtyEngine = []"
  by (simp add: dirtyEngine_def emptyEngine_def)

theorem CleanupSyncState_notifies_unless_recoverable_witness:
  "fmlookup (dirtyFiles dirtyEngine) (tailPointer simpleConfig fileA) = Some 0 \<and>
   errNotifications (snd (CleanupSyncState simpleConfig kmdA fileA [] zeroFileSyncState
     (Some (ExternalError 5)) dirtyEngine)) = [(0, Some (ExternalError 5))] \<and>
   errNotifications (snd (CleanupSyncState simpleConfig kmdA fileA [] zeroFileSyncState
     (Some (ExternalError 4)) dirtyEngine)) = []"
  using CleanupSyncState_notifies_unless_recoverable [OF dirtyEngine_dirtyFile,
      where e = "ExternalError 5" and md = kmdA and blocksToRemove = "[]"
        and result = zeroFileSyncState]
    CleanupSyncState_notifies_unless_recoverable [OF dirtyEngine_dirtyFile,
      where e = "ExternalError 4" and md = kmdA and blocksToRemove = "[]"
        and result = zeroFileSyncState]
  by (simp add: dirtyEngine_dirtyFile simpleConfig_recoverable dirtyEngine_notifications)

subsection \<open>When a file is still dirty after a sync\<close>

lemma deleteDirtyPtrs_deferred:
  "deferred (snd (deleteDirtyPtrs E ptrs w)) = deferred w"
  by (induction ptrs arbitrary: w) (auto split: prod.splits option.splits)

lemma doDeferredWritesLocked_stillDirty:
  assumes "doDeferredWritesLocked E lState kmd oldPath newPath w = ((stillDirty, err), w')"
  shows "(err = None \<longrightarrow> stillDirty = (writes (deferredOf w (tailRef E oldPath)) \<noteq> [])) \<and>
         (err \<noteq> None \<longrightarrow> stillDirty)"
  using assms
  by (auto simp: doDeferredWritesLocked_def Let_def split: prod.splits option.splits)

text \<open>
  C5 as the code has it. When \<^verbatim>\<open>FinishSyncLocked\<close> returns a nil error, \<^verbatim>\<open>stillDirty\<close>
  is true iff at least one deferred write was queued for \<^verbatim>\<open>oldPath.tailRef()\<close> when it
  was called; when it returns an error, \<^verbatim>\<open>stillDirty\<close> is true.
\<close>

theorem FinishSyncLocked_stillDirty:
  assumes "FinishSyncLocked E lState oldPath newPath md syncState w = ((stillDirty, err), w')"
  shows "(err = None \<longrightarrow> stillDirty = (writes (deferredOf w (tailRef E oldPath)) \<noteq> [])) \<and>
         (err \<noteq> None \<longrightarrow> stillDirty)"
proof -
  obtain e1 w1 where d: "deleteDirtyPtrs E (fss_oldFileBlockPtrs syncState) w = (e1, w1)"
    by (metis surj_pair)
  have w1: "deferred w1 = deferred w"
    using deleteDirtyPtrs_deferred [of E "fss_oldFileBlockPtrs syncState" w] d by simp
  define w2 where "w2 = w1\<lparr>cfg := fold (\<lambda>ptr c. snd (bc_DeletePermanent E (ID ptr) c))
                              (fss_newIndirectFileBlockPtrs syncState) (cfg w1)\<rparr>"
  have w2: "deferredOf w2 (tailRef E oldPath) = deferredOf w (tailRef E oldPath)"
    by (simp add: w2_def deferredOf_def w1)
  obtain sd e3 w3 where dd: "doDeferredWritesLocked E lState md oldPath newPath w2 =
      ((sd, e3), w3)"
    by (metis surj_pair)
  note s = doDeferredWritesLocked_stillDirty [OF dd, unfolded w2]
  show ?thesis
  proof (cases e1)
    case (Some err1)
    then show ?thesis using assms d by (auto simp add: FinishSyncLocked_def)
  next
    case None
    have f: "FinishSyncLocked E lState oldPath newPath md syncState w =
       (case e3 of
          Some err \<Rightarrow> ((True, Some err), w3)
        | None \<Rightarrow>
           (case clearCacheInfoLocked E oldPath w3 of
              (Some err, w4) \<Rightarrow> ((True, Some err), w4)
            | (None, w4) \<Rightarrow>
               (case cleanUpUnusedBlocks E md syncState w4 of
                  (Some err, w5) \<Rightarrow> ((True, Some err), w5)
                | (None, w5) \<Rightarrow> ((sd, None), w5))))"
      by (simp add: FinishSyncLocked_def d None w2_def [symmetric] dd split: option.splits)
    show ?thesis
      using assms s unfolding f
      by (auto split: option.splits prod.splits)
  qed
qed

lemma deferringEngine_deferred:
  "deferredOf deferringEngine (tailRef simpleConfig fileA) =
     \<lparr>writes = [DeferredTruncate fileA 0 3], dirtyDeletes = [], waitBytes = 0\<rparr>"
  by (simp add: deferredOf_def deferringEngine_def simpleConfig_def simpleTailPointer_def
      fileA_def)

lemma deferringEngine_dropped:
  "deferringEngine\<lparr>deferred := fmdrop (tailRef simpleConfig fileA) (deferred deferringEngine)\<rparr>
     = chargedEngine"
  by (simp add: deferringEngine_def simpleConfig_def simpleTailPointer_def fileA_def
      fmdrop_fmupd_same chargedEngine_def dirtyEngine_def emptyEngine_def)

lemma noop_conditions:
  "\<not> sint ((3 :: 64 word) + truncateExtendCutoffPoint) < sint (3 :: 64 word)"
  "sint (- 1 :: 64 word) < 0"
  by (simp_all add: truncateExtendCutoffPoint_def)

lemma chargedEngine_truncate_same:
  "truncateLocked simpleConfig (Some 0) kmdA fileA 3 chargedEngine =
     ((None, [], 0, None), chargedEngine)"
proof -
  have body: "truncateLocked_body simpleConfig (Some 0) kmdA fileA 3 chargedEngine =
      ((None, [], 0, None), chargedEngine)"
    using noop_conditions chargedEngine_block
    by (simp add: truncateLocked_body_def chargedEngine_file chargedEngine_charged
        chargedEngine_offset Let_def)
  have j: "\<not> GetJournalServer simpleConfig (cfg chargedEngine)"
    by (simp add: simpleConfig_def)
  show ?thesis
    by (simp add: truncateLocked_def withDirtyOp_def chargedEngine_started body j)
qed

lemma chargedEngine_deferred_truncate:
  "runDeferredWrite simpleConfig (Some 0) kmdA fileA (DeferredTruncate fileA 0 3)
     chargedEngine = (None, chargedEngine)"
proof -
  have u: "df_updateNotYetSyncingBytes simpleConfig d n c = c" for d n c
    by (simp add: simpleConfig_def)
  show ?thesis
    by (simp add: runDeferredWrite_def chargedEngine_df u chargedEngine_truncate_same)
qed

lemma deferringEngine_deferred_writes:
  "doDeferredWritesLocked simpleConfig (Some 0) kmdA fileA fileA deferringEngine =
     ((True, None), chargedEngine)"
  by (simp add: doDeferredWritesLocked_def deferringEngine_deferred deferringEngine_dropped
      chargedEngine_deferred_truncate)

lemma chargedEngine_cleared:
  "clearCacheInfoLocked simpleConfig fileA chargedEngine =
     (None, chargedEngine\<lparr>unrefCache := fmempty, dirtyFiles := fmempty\<rparr>)"
  by (simp add: clearCacheInfoLocked_def simpleConfig_def simpleTailPointer_def fileA_def
      chargedEngine_def dirtyEngine_def emptyEngine_def fmdrop_fmupd_same Let_def)

lemma chargedEngine_nothing_to_clean:
  "cleanUpUnusedBlocks simpleConfig kmdA siSyncState
     (chargedEngine\<lparr>unrefCache := fmempty, dirtyFiles := fmempty\<rparr>) =
     (None, chargedEngine\<lparr>unrefCache := fmempty, dirtyFiles := fmempty\<rparr>)"
  by (simp add: cleanUpUnusedBlocks_def siSyncState_def zeroFileSyncState_def chargedEngine_def
      dirtyEngine_def emptyEngine_def siA_def)

lemma deferringEngine_finish:
  "FinishSyncLocked simpleConfig (Some 0) fileA fileA kmdA siSyncState deferringEngine =
     ((True, None), chargedEngine\<lparr>unrefCache := fmempty, dirtyFiles := fmempty\<rparr>)"
proof -
  have p: "fss_oldFileBlockPtrs siSyncState = []" "fss_newIndirectFileBlockPtrs siSyncState = []"
    by (simp_all add: siSyncState_def zeroFileSyncState_def)
  show ?thesis
    by (simp add: FinishSyncLocked_def p deferringEngine_deferred_writes chargedEngine_cleared
        chargedEngine_nothing_to_clean)
qed

theorem FinishSyncLocked_stillDirty_witness:
  "FinishSyncLocked simpleConfig (Some 0) fileA fileA kmdA siSyncState deferringEngine =
     ((True, None), chargedEngine\<lparr>unrefCache := fmempty, dirtyFiles := fmempty\<rparr>) \<and>
   writes (deferredOf deferringEngine (tailRef simpleConfig fileA)) \<noteq> []"
  using FinishSyncLocked_stillDirty [OF deferringEngine_finish] deferringEngine_finish
  by simp

text \<open>
  C5 as the spec has it does not hold: here no deferred write is queued for the file,
  the dirty block cache fails to delete the old block pointer, and
  \<^verbatim>\<open>FinishSyncLocked\<close> returns \<^verbatim>\<open>true\<close> with the error (line 2914).
\<close>

theorem FinishSyncLocked_stillDirty_counterexample:
  "fmlookup (deferred dirtyEngine) (tailRef failingConfig fileA) = None \<and>
   writes (deferredOf dirtyEngine (tailRef failingConfig fileA)) = [] \<and>
   fst (FinishSyncLocked failingConfig (Some 0) fileA fileA kmdA oldPtrSyncState dirtyEngine) =
     (True, Some (ExternalError 8))"
proof -
  have d: "deferred dirtyEngine = fmempty"
    by (simp add: dirtyEngine_def emptyEngine_def)
  have del: "dbc_Delete failingConfig t p b c = (Some (ExternalError 8), c)" for t p b c
    by (simp add: failingConfig_def)
  have p: "fss_oldFileBlockPtrs oldPtrSyncState = [ptrA]"
    by (simp add: oldPtrSyncState_def zeroFileSyncState_def)
  show ?thesis
    by (simp add: d deferredOf_def zeroDeferredState_def FinishSyncLocked_def p del)
qed

end
